theory Spec2Isabelle
  imports Complex_Main "HOL-Library.Log_Nat"
begin

section \<open>Values of the C++ program\<close>

text \<open>
  A \<open>double\<close> of the program is either not-a-number (the library's placeholder
  \<open>TUDAT_NAN\<close>) or a real value. The sums, products and quotients of the program
  round their exact result to the nearest number with a significand of 53 bits, ties to
  the even significand, as the arithmetic of IEEE 754 binary64 does in its default
  rounding mode. The range of the exponent is not bounded here: infinities, signed zeros
  and the gradual underflow below \<open>2\<^sup>-\<^sup>1\<^sup>0\<^sup>2\<^sup>2\<close> are not represented (the
  program's own arithmetic is on days and seconds of magnitudes between \<open>1\<close> and
  \<open>10\<^sup>9\<close>).
\<close>

datatype double = NaN | Val real

definition TUDAT_NAN :: double where
  "TUDAT_NAN = NaN"

text \<open>The nearest integer, a tie going to the even one.\<close>

definition roundToEven :: "real \<Rightarrow> int" where
  "roundToEven y =
    (let f = \<lfloor>y\<rfloor>; r = y - of_int f
     in if r < 1 / 2 then f else if 1 / 2 < r then f + 1 else if even f then f else f + 1)"

text \<open>
  The binary exponent of a number other than zero: the \<open>e\<close> with
  \<open>2\<^sup>e \<le> \<bar>x\<bar> < 2\<^sup>e\<^sup>+\<^sup>1\<close>, found from the number of bits of the integer part of
  \<open>\<bar>x\<bar>\<close>, or of \<open>1 / \<bar>x\<bar>\<close> below one.
\<close>

definition binaryExponent :: "real \<Rightarrow> int" where
  "binaryExponent x =
    (if 1 \<le> \<bar>x\<bar> then bitlen \<lfloor>\<bar>x\<bar>\<rfloor> - 1
     else (let k = bitlen \<lfloor>1 / \<bar>x\<bar>\<rfloor>
           in if \<bar>x\<bar> * 2 ^ nat (k - 1) = 1 then 1 - k else - k))"

text \<open>
  Rounding to a double: the significand, scaled to an integer of 53 bits, is rounded to
  the nearest integer.
\<close>

definition roundToDouble :: "real \<Rightarrow> real" where
  "roundToDouble x =
    (if x = 0 then 0
     else (let e = binaryExponent x
           in of_int (roundToEven (x * 2 powi (52 - e))) * 2 powi (e - 52)))"

text \<open>The bound of the relative error of one rounding, \<open>2\<^sup>-\<^sup>5\<^sup>3\<close>.\<close>

definition unitRoundoff :: real where
  "unitRoundoff = 1 / 2 ^ 53"

fun dadd :: "double \<Rightarrow> double \<Rightarrow> double" where
  "dadd (Val a) (Val b) = Val (roundToDouble (a + b))"
| "dadd _ _ = NaN"

text \<open>
  The differences of the program are \<open>numberOfLegs - 1\<close>, of a count of legs, and
  the time between two readings of the clock, which is made on the ticks of the clock;
  the one conversion is of the \<open>int\<close> counter of the legs. On integers up to
  \<open>2\<^sup>5\<^sup>3\<close> they are exact in double arithmetic, and they are taken without
  rounding.
\<close>

fun dsub :: "double \<Rightarrow> double \<Rightarrow> double" where
  "dsub (Val a) (Val b) = Val (a - b)"
| "dsub _ _ = NaN"

fun dmul :: "double \<Rightarrow> double \<Rightarrow> double" where
  "dmul (Val a) (Val b) = Val (roundToDouble (a * b))"
| "dmul _ _ = NaN"

text \<open>The program divides by the literal \<open>2.0\<close> only; a zero divisor gives not-a-number here.\<close>

fun ddiv :: "double \<Rightarrow> double \<Rightarrow> double" where
  "ddiv (Val a) (Val b) = (if b = 0 then NaN else Val (roundToDouble (a / b)))"
| "ddiv _ _ = NaN"

fun dfabs :: "double \<Rightarrow> double" where
  "dfabs (Val a) = Val \<bar>a\<bar>"
| "dfabs NaN = NaN"

text \<open>Comparisons with not-a-number: \<open><\<close> is false, \<open>!=\<close> is true.\<close>

fun dless :: "double \<Rightarrow> double \<Rightarrow> bool" where
  "dless (Val a) (Val b) = (a < b)"
| "dless _ _ = False"

fun dneq :: "double \<Rightarrow> double \<Rightarrow> bool" where
  "dneq (Val a) (Val b) = (a \<noteq> b)"
| "dneq _ _ = True"

definition int_to_double :: "int \<Rightarrow> double" where
  "int_to_double i = Val (of_int i)"

text \<open>
  Exceptions are values. \<open>OutOfRange\<close> is the \<open>std::out_of_range\<close> of
  \<open>std::vector::at\<close>; \<open>LibraryException\<close> is any exception a call into the
  astrodynamics library throws; \<open>UndefinedBehaviour\<close> marks the places where the
  C++ has none defined (dereferencing \<open>begin()\<close> of an empty map, a conversion of a
  double outside the range of \<open>int\<close>).
\<close>

datatype error = OutOfRange | LibraryException string | UndefinedBehaviour

text \<open>\<open>v.at(i)\<close>: the index is converted to an unsigned size, so a negative one is out of range.\<close>

definition vector_at :: "'a list \<Rightarrow> int \<Rightarrow> error + 'a" where
  "vector_at v i = (if 0 \<le> i \<and> i < int (length v) then Inr (v ! nat i) else Inl OutOfRange)"

section \<open>Acceleration settings per leg\<close>

datatype AvailableAcceleration = central_gravity | point_mass_gravity

text \<open>
  \<open>SelectedAccelerationMap\<close> is a map from the body undergoing the acceleration to a
  map from the body exerting it to the vector of settings. \<open>operator[]\<close> creates a
  missing entry with an empty vector and the program appends at once, so a key is present
  exactly when its vector is not empty: the map is a function with \<open>[]\<close> for absent keys.
\<close>

type_synonym SelectedAccelerationMap = "string \<Rightarrow> string \<Rightarrow> AvailableAcceleration list"

definition emptyAccelerationSettingsMap :: SelectedAccelerationMap where
  "emptyAccelerationSettingsMap = (\<lambda>_ _. [])"

text \<open>\<open>m[ a ][ b ].push_back( s )\<close>\<close>

definition push_back_settings ::
  "SelectedAccelerationMap \<Rightarrow> string \<Rightarrow> string \<Rightarrow> AvailableAcceleration \<Rightarrow> SelectedAccelerationMap" where
  "push_back_settings m a b s = m(a := (m a)(b := m a b @ [s]))"

text \<open>
  The body of the loop of \<open>getAccelerationModelsPerturbedPatchedConicsTrajectory\<close> up to
  the call of \<open>createAccelerationModelsMap\<close>: the settings map of leg \<open>i\<close>.
  \<open>numberOfLegs\<close> is a \<open>double\<close> in the source, \<open>i\<close> an \<open>int\<close>.
\<close>

definition legAccelerationSettings ::
  "double \<Rightarrow> string \<Rightarrow> string \<Rightarrow> string list \<Rightarrow> int \<Rightarrow> error + SelectedAccelerationMap" where
  "legAccelerationSettings numberOfLegs nameCentralBody nameBodyToPropagate transferBodyOrder i =
    (let m0 = push_back_settings emptyAccelerationSettingsMap
                nameBodyToPropagate nameCentralBody central_gravity
     in case vector_at transferBodyOrder i of
          Inl e \<Rightarrow> Inl e
        | Inr bodyI \<Rightarrow>
            (let m1 = push_back_settings m0 nameBodyToPropagate bodyI point_mass_gravity
             in if dneq (int_to_double i) (dsub numberOfLegs (Val 1))
                then (case vector_at transferBodyOrder (i + 1) of
                        Inl e \<Rightarrow> Inl e
                      | Inr bodyNext \<Rightarrow>
                          if bodyI \<noteq> bodyNext
                          then Inr (push_back_settings m1 nameBodyToPropagate bodyNext
                                      point_mass_gravity)
                          else Inr m1)
                else Inr m1))"

text \<open>
  The loop itself. \<open>create\<close> is the library's \<open>createAccelerationModelsMap\<close>, which
  turns the settings of one leg into acceleration models; its code is not part of the
  program, so it is a parameter here.
\<close>

function accelerationModelsLoop ::
  "('bm \<Rightarrow> SelectedAccelerationMap \<Rightarrow> string list \<Rightarrow> string list \<Rightarrow> error + 'am) \<Rightarrow>
   double \<Rightarrow> string \<Rightarrow> string \<Rightarrow> 'bm \<Rightarrow> string list \<Rightarrow> int \<Rightarrow> 'am list \<Rightarrow> error + 'am list" where
  "accelerationModelsLoop create numberOfLegs nameCentralBody nameBodyToPropagate bodyMap
       transferBodyOrder i accelerationMapsVector =
    (if dless (int_to_double i) numberOfLegs
     then (case legAccelerationSettings numberOfLegs nameCentralBody nameBodyToPropagate
                  transferBodyOrder i of
             Inl e \<Rightarrow> Inl e
           | Inr accelerationSettingsMap \<Rightarrow>
               (case create bodyMap accelerationSettingsMap [nameBodyToPropagate]
                       [nameCentralBody] of
                  Inl e \<Rightarrow> Inl e
                | Inr a \<Rightarrow>
                    accelerationModelsLoop create numberOfLegs nameCentralBody
                      nameBodyToPropagate bodyMap transferBodyOrder (i + 1)
                      (accelerationMapsVector @ [a])))
     else Inr accelerationMapsVector)"
  by pat_completeness auto
termination
proof (relation "measure (\<lambda>(create, numberOfLegs, c, p, bm, order, i, acc).
          case numberOfLegs of NaN \<Rightarrow> 0 | Val n \<Rightarrow> nat (\<lceil>n\<rceil> - i))")
  show "wf (measure (\<lambda>(create :: 'bm \<Rightarrow> SelectedAccelerationMap \<Rightarrow> string list \<Rightarrow> string list \<Rightarrow> error + 'am,
          numberOfLegs, c :: string, p :: string, bm :: 'bm, order :: string list, i :: int, acc :: 'am list).
          case numberOfLegs of NaN \<Rightarrow> 0 | Val n \<Rightarrow> nat (\<lceil>n\<rceil> - i)))"
    by simp
next
  fix create :: "'bm \<Rightarrow> SelectedAccelerationMap \<Rightarrow> string list \<Rightarrow> string list \<Rightarrow> error + 'am"
    and numberOfLegs c p and bm :: 'bm and order i and acc :: "'am list" and s a
  assume "dless (int_to_double i) numberOfLegs"
  then obtain n where n: "numberOfLegs = Val n" "of_int i < n"
    by (cases numberOfLegs) (auto simp: int_to_double_def)
  from n(2) have "i < \<lceil>n\<rceil>"
    by (simp add: less_ceiling_iff)
  then show "((create, numberOfLegs, c, p, bm, order, i + 1, acc @ [a]),
              (create, numberOfLegs, c, p, bm, order, i, acc))
            \<in> measure (\<lambda>(create, numberOfLegs, c, p, bm, order, i, acc).
                 case numberOfLegs of NaN \<Rightarrow> 0 | Val n \<Rightarrow> nat (\<lceil>n\<rceil> - i))"
    using n(1) by simp
qed

definition getAccelerationModelsPerturbedPatchedConicsTrajectory ::
  "('bm \<Rightarrow> SelectedAccelerationMap \<Rightarrow> string list \<Rightarrow> string list \<Rightarrow> error + 'am) \<Rightarrow>
   double \<Rightarrow> string \<Rightarrow> string \<Rightarrow> 'bm \<Rightarrow> string list \<Rightarrow> error + 'am list" where
  "getAccelerationModelsPerturbedPatchedConicsTrajectory create numberOfLegs nameCentralBody
       nameBodyToPropagate bodyMap transferBodyOrder =
     accelerationModelsLoop create numberOfLegs nameCentralBody nameBodyToPropagate bodyMap
       transferBodyOrder 0 []"

section \<open>Data of the transfer and of the propagation\<close>

datatype TransferLegType = mga_Departure | mga_Swingby | capture

text \<open>
  A state history is a \<open>std::map< double, Eigen::VectorXd >\<close> (or \<open>Vector6d\<close>), the
  results per leg a \<open>std::map< int, ... >\<close>: both are association lists in the order in
  which the program iterates over them, the ascending order of the keys.
\<close>

type_synonym StateHistory = "(double \<times> double list) list"

type_synonym LegResults = "(int \<times> StateHistory) list"

datatype AvailableIntegrators = rungeKutta4

record IntegratorSettings =
  integratorType :: AvailableIntegrators
  initialTime :: double
  initialTimeStep :: double

datatype InterpolatorSettings = LagrangeInterpolatorSettings nat

datatype PropagationDependentVariables = relative_distance_dependent_variable

datatype SingleDependentVariableSaveSettings =
  SingleDependentVariableSaveSettings PropagationDependentVariables string string

datatype DependentVariableSaveSettings =
  DependentVariableSaveSettings "SingleDependentVariableSaveSettings list"

datatype TranslationalPropagatorType = cowell

text \<open>
  Termination settings are either the \<open>PropagationTimeTerminationSettings\<close> the program
  creates or whatever the library put there (the program never looks inside).
\<close>

datatype TerminationSettings =
  PropagationTimeTerminationSettings double
| LibraryTerminationSettings

text \<open>
  The \<open>TranslationalStatePropagatorSettings\<close> objects are created by the library and
  reached through shared pointers. The program calls \<open>resetInitialStates\<close> and
  \<open>resetTerminationSettings\<close> on them; the other fields are what it handed to the
  library when the objects were made.
\<close>

record 'am PropagatorSettings =
  accelerationsMap :: 'am
  initialStates :: "double list"
  terminationSettings :: TerminationSettings
  dependentVariablesToSave :: DependentVariableSaveSettings
  propagator :: TranslationalPropagatorType

definition resetInitialStates :: "'am PropagatorSettings \<Rightarrow> double list \<Rightarrow> 'am PropagatorSettings" where
  "resetInitialStates s x = s\<lparr>initialStates := x\<rparr>"

definition resetTerminationSettings ::
  "'am PropagatorSettings \<Rightarrow> TerminationSettings \<Rightarrow> 'am PropagatorSettings" where
  "resetTerminationSettings s t = s\<lparr>terminationSettings := t\<rparr>"

text \<open>
  Shared pointers are addresses into a store of settings objects: two pointers to one
  object are one address.
\<close>

type_synonym address = nat

type_synonym 'am PropagatorStore = "address \<Rightarrow> 'am PropagatorSettings"

text \<open>
  What the program leaves behind: the files it wrote, in the order of writing, and the
  lines it printed. The loops that write files print nothing, so they carry the list of
  files only.
\<close>

record OutputFile =
  fileName :: string
  outputDirectory :: string
  fileData :: StateHistory

datatype ConsoleLine = TotalCaptureDeltaV double double | OperationTook double

record World =
  files :: "OutputFile list"
  console :: "ConsoleLine list"

definition writeDataMapToTextFile ::
  "StateHistory \<Rightarrow> string \<Rightarrow> string \<Rightarrow> OutputFile list \<Rightarrow> OutputFile list" where
  "writeDataMapToTextFile dataMap name path written =
     written @ [\<lparr>fileName = name, outputDirectory = path, fileData = dataMap\<rparr>]"

text \<open>\<open>std::to_string\<close> of an \<open>int\<close>.\<close>

fun nat_to_string :: "nat \<Rightarrow> string" where
  "nat_to_string n =
     (if n < 10 then [''0123456789'' ! n]
      else nat_to_string (n div 10) @ [''0123456789'' ! (n mod 10)])"

definition to_string :: "int \<Rightarrow> string" where
  "to_string i = (if i < 0 then CHR ''-'' # nat_to_string (nat (- i)) else nat_to_string (nat i))"

text \<open>
  \<open>m.begin( )->first\<close> and \<open>m.rbegin( )->first\<close>: the smallest and the largest key.
  On an empty map the C++ has no defined behaviour.
\<close>

definition beginFirst :: "StateHistory \<Rightarrow> error + double" where
  "beginFirst m = (case m of [] \<Rightarrow> Inl UndefinedBehaviour | x # _ \<Rightarrow> Inr (fst x))"

definition rbeginFirst :: "StateHistory \<Rightarrow> error + double" where
  "rbeginFirst m = (case m of [] \<Rightarrow> Inl UndefinedBehaviour | _ # _ \<Rightarrow> Inr (fst (last m)))"

section \<open>The transfer trajectory object\<close>

text \<open>
  Modelled from the spec: the library's trajectory class is not part of the program. The
  trajectory is configured by the body sequence, the leg types, the epochs, the minimum
  periapsis radii and the shape of the capture orbit; the object holds the arguments of
  the call of \<open>createTransferTrajectoryObject\<close>. The two booleans of the call say
  whether the departure and the arrival (capture) velocity change are included in the
  total (the program's comment at the call: departure Delta V not included); each is
  followed by the semi-major axis and the eccentricity of the departure and of the
  capture orbit.
\<close>

record 'bm TransferTrajectory =
  trajectoryBodyMap :: 'bm
  trajectoryBodyOrder :: "string list"
  trajectoryCentralBody :: string
  trajectoryLegTypes :: "TransferLegType list"
  trajectoryVariables :: "double list"
  trajectoryMinimumPericenterRadii :: "double list"
  includeDepartureDeltaV :: bool
  departureSemiMajorAxis :: double
  departureEccentricity :: double
  includeArrivalDeltaV :: bool
  arrivalSemiMajorAxis :: double
  arrivalEccentricity :: double

text \<open>
  Modelled from the spec: \<open>createTransferTrajectoryObject\<close> of the library, as the
  construction of that object from its arguments.
\<close>

definition createTransferTrajectoryObject ::
  "'bm \<Rightarrow> string list \<Rightarrow> string \<Rightarrow> TransferLegType list \<Rightarrow> double list \<Rightarrow> double list \<Rightarrow>
   bool \<Rightarrow> double \<Rightarrow> double \<Rightarrow> bool \<Rightarrow> double \<Rightarrow> double \<Rightarrow> 'bm TransferTrajectory" where
  "createTransferTrajectoryObject bodyMap transferBodyOrder centralBody legTypes
       independentVariables minimumPericenterRadii incDeparture departureSma departureEcc
       incArrival arrivalSma arrivalEcc =
     \<lparr>trajectoryBodyMap = bodyMap, trajectoryBodyOrder = transferBodyOrder,
      trajectoryCentralBody = centralBody, trajectoryLegTypes = legTypes,
      trajectoryVariables = independentVariables,
      trajectoryMinimumPericenterRadii = minimumPericenterRadii,
      includeDepartureDeltaV = incDeparture, departureSemiMajorAxis = departureSma,
      departureEccentricity = departureEcc, includeArrivalDeltaV = incArrival,
      arrivalSemiMajorAxis = arrivalSma, arrivalEccentricity = arrivalEcc\<rparr>"

text \<open>
  Modelled from the spec: a maneuver is its epoch, its position and the magnitude of its
  velocity change; one is produced per leg.
\<close>

record Maneuver =
  maneuverEpoch :: double
  maneuverPosition :: "double list"
  velocityChangeMagnitude :: double

text \<open>
  Modelled from the spec: the result of the trajectory is the total velocity change, the
  capture velocity change (not-a-number if no capture leg is configured) and the sequence
  of maneuvers.
\<close>

record TrajectoryResult =
  totalVelocityChange :: double
  captureVelocityChange :: double
  maneuverSequence :: "Maneuver list"

section \<open>The library\<close>

text \<open>
  The functions of the astrodynamics library that the program calls and whose code is
  not part of it are parameters of the model, collected in one record. Each is a function
  of the contents of its arguments that returns a result or throws; \<open>'bm\<close> is the
  library's \<open>NamedBodyMap\<close>, \<open>'am\<close> its \<open>AccelerationMap\<close>.
  \<open>interpolate s m t\<close> is
  \<open>createOneDimensionalInterpolator( m, s )->interpolate( t )\<close>, and
  \<open>singleArcDynamicsSimulator\<close> is the construction of a
  \<open>SingleArcDynamicsSimulator\<close> (which integrates the equations of motion) followed by
  \<open>getEquationsOfMotionNumericalSolution\<close>. \<open>legManeuver t k\<close> stands for the
  library's solution of leg \<open>k\<close> of a trajectory \<open>t\<close> (the Lambert arc, the fly-by
  or the departure or capture orbit) as far as the program reads it: the maneuver at
  that leg. \<open>getOutputPath\<close> is declared in the program's own header
  \<open>applicationOutput.h\<close>.
\<close>

record ('bm, 'am) Tudat =
  getOutputPath :: "string \<Rightarrow> string"
  setupBodyMapFromEphemeridesForPatchedConicsTrajectory ::
    "string \<Rightarrow> string \<Rightarrow> string list \<Rightarrow> error + 'bm"
  createBodyWithConstantMass :: "'bm \<Rightarrow> string \<Rightarrow> double \<Rightarrow> 'bm"
  setGlobalFrameBodyEphemerides :: "'bm \<Rightarrow> string \<Rightarrow> string \<Rightarrow> error + 'bm"
  getDefaultMinimumPericenterRadii :: "string list \<Rightarrow> error + double list"
  createAccelerationModelsMap ::
    "'bm \<Rightarrow> SelectedAccelerationMap \<Rightarrow> string list \<Rightarrow> string list \<Rightarrow> error + 'am"
  getPatchedConicPropagatorSettings ::
    "'bm \<Rightarrow> 'am list \<Rightarrow> string list \<Rightarrow> string \<Rightarrow> string \<Rightarrow> TransferLegType list \<Rightarrow>
     double list \<Rightarrow> double list \<Rightarrow> double list \<Rightarrow> double list \<Rightarrow>
     DependentVariableSaveSettings list \<Rightarrow> TranslationalPropagatorType \<Rightarrow> bool \<Rightarrow>
     error + ((address \<times> address) list \<times> 'am PropagatorStore)"
  fullPropagationPatchedConicsTrajectory ::
    "'bm \<Rightarrow> string list \<Rightarrow> string \<Rightarrow> TransferLegType list \<Rightarrow> double list \<Rightarrow> double list \<Rightarrow>
     double list \<Rightarrow> double list \<Rightarrow> (address \<times> address) list \<Rightarrow> 'am PropagatorStore \<Rightarrow>
     IntegratorSettings \<Rightarrow> error + (LegResults \<times> LegResults \<times> LegResults)"
  legManeuver :: "'bm TransferTrajectory \<Rightarrow> nat \<Rightarrow> error + Maneuver"
  interpolate :: "InterpolatorSettings \<Rightarrow> StateHistory \<Rightarrow> double \<Rightarrow> error + double list"
  singleArcDynamicsSimulator ::
    "'bm \<Rightarrow> IntegratorSettings \<Rightarrow> 'am PropagatorSettings \<Rightarrow> error + StateHistory"

section \<open>Propagation forwards and backwards from the middle of each arc\<close>

text \<open>The variables the loop over \<open>fullProblemResultForEachLeg\<close> changes.\<close>

record 'am LoopState =
  currentArcMiddleTime :: double
  integratorSettings :: IntegratorSettings
  propagatorStore :: "'am PropagatorStore"
  outputFiles :: "OutputFile list"

text \<open>
  Forward propagation of one arc: the integrator's initial time, the settings object
  \<open>propagatorSettings.at( arc ).second\<close> with its initial state and final time reset,
  the positive time step, the simulation and its output file.
\<close>

definition forwardPropagation ::
  "('bm, 'am) Tudat \<Rightarrow> 'bm \<Rightarrow> string \<Rightarrow> (address \<times> address) list \<Rightarrow> int \<Rightarrow> StateHistory \<Rightarrow>
   double list \<Rightarrow> 'am LoopState \<Rightarrow> (error \<times> OutputFile list) + 'am LoopState" where
  "forwardPropagation T bodyMapForPropagation outputPath propagatorSettings arc
       fullProblemSolution currentArcMiddleState st =
    (let st1 = st\<lparr>integratorSettings := (integratorSettings st)
                   \<lparr>initialTime := dmul (currentArcMiddleTime st) (Val 86400)\<rparr>\<rparr>
     in case vector_at propagatorSettings arc of
          Inl e \<Rightarrow> Inl (e, outputFiles st1)
        | Inr settingsPair \<Rightarrow>
           (let forwardPropagatorSettings = snd settingsPair;
                st2 = st1\<lparr>propagatorStore := (propagatorStore st1)
                        (forwardPropagatorSettings :=
                           resetInitialStates (propagatorStore st1 forwardPropagatorSettings)
                             currentArcMiddleState)\<rparr>
            in case rbeginFirst fullProblemSolution of
                 Inl e \<Rightarrow> Inl (e, outputFiles st2)
               | Inr finalTime \<Rightarrow>
                  (let st3 = st2\<lparr>propagatorStore := (propagatorStore st2)
                               (forwardPropagatorSettings :=
                                  resetTerminationSettings
                                    (propagatorStore st2 forwardPropagatorSettings)
                                    (PropagationTimeTerminationSettings finalTime))\<rparr>;
                       st4 = st3\<lparr>integratorSettings := (integratorSettings st3)
                               \<lparr>initialTimeStep := dfabs (initialTimeStep (integratorSettings st3))\<rparr>\<rparr>
                   in case singleArcDynamicsSimulator T bodyMapForPropagation
                             (integratorSettings st4)
                             (propagatorStore st4 forwardPropagatorSettings) of
                        Inl e \<Rightarrow> Inl (e, outputFiles st4)
                      | Inr numericalSolution \<Rightarrow>
                          Inr (st4\<lparr>outputFiles := writeDataMapToTextFile numericalSolution
                                  (''numericalResultForward'' @ to_string arc @ ''.dat'')
                                  outputPath (outputFiles st4)\<rparr>))))"

text \<open>
  Backward propagation of the same arc: the settings object is again
  \<open>propagatorSettings.at( arc ).second\<close>, its final time is now the first epoch of
  the arc, and the time step of the one integrator settings object is multiplied by
  \<open>-1.0\<close>.
\<close>

definition backwardPropagation ::
  "('bm, 'am) Tudat \<Rightarrow> 'bm \<Rightarrow> string \<Rightarrow> (address \<times> address) list \<Rightarrow> int \<Rightarrow> StateHistory \<Rightarrow>
   double list \<Rightarrow> 'am LoopState \<Rightarrow> (error \<times> OutputFile list) + 'am LoopState" where
  "backwardPropagation T bodyMapForPropagation outputPath propagatorSettings arc
       fullProblemSolution currentArcMiddleState st =
    (case vector_at propagatorSettings arc of
       Inl e \<Rightarrow> Inl (e, outputFiles st)
     | Inr settingsPair \<Rightarrow>
        (let backwardPropagatorSettings = snd settingsPair;
             st2 = st\<lparr>propagatorStore := (propagatorStore st)
                     (backwardPropagatorSettings :=
                        resetInitialStates (propagatorStore st backwardPropagatorSettings)
                          currentArcMiddleState)\<rparr>
         in case beginFirst fullProblemSolution of
              Inl e \<Rightarrow> Inl (e, outputFiles st2)
            | Inr finalTime \<Rightarrow>
               (let st3 = st2\<lparr>propagatorStore := (propagatorStore st2)
                            (backwardPropagatorSettings :=
                               resetTerminationSettings
                                 (propagatorStore st2 backwardPropagatorSettings)
                                 (PropagationTimeTerminationSettings finalTime))\<rparr>;
                    st4 = st3\<lparr>integratorSettings := (integratorSettings st3)
                            \<lparr>initialTimeStep :=
                               dmul (initialTimeStep (integratorSettings st3)) (Val (- 1))\<rparr>\<rparr>
                in case singleArcDynamicsSimulator T bodyMapForPropagation
                          (integratorSettings st4)
                          (propagatorStore st4 backwardPropagatorSettings) of
                     Inl e \<Rightarrow> Inl (e, outputFiles st4)
                   | Inr numericalSolution \<Rightarrow>
                       Inr (st4\<lparr>outputFiles := writeDataMapToTextFile numericalSolution
                               (''numericalResultBackward'' @ to_string arc @ ''.dat'')
                               outputPath (outputFiles st4)\<rparr>))))"

text \<open>
  The update of the middle time for the next arc. The comparison
  \<open>currentArc < fullProblemResultForEachLeg.size( ) - 1\<close> is made on unsigned 64-bit
  values, to which the \<open>int\<close> is converted.
\<close>

definition updateArcMiddleTime ::
  "double list \<Rightarrow> nat \<Rightarrow> int \<Rightarrow> 'am LoopState \<Rightarrow> (error \<times> OutputFile list) + 'am LoopState" where
  "updateArcMiddleTime trajectoryParameters numberOfResults currentArc st =
    (if currentArc mod 2 ^ 64 < (int numberOfResults - 1) mod 2 ^ 64
     then (case vector_at trajectoryParameters (currentArc + 1) of
             Inl e \<Rightarrow> Inl (e, outputFiles st)
           | Inr a \<Rightarrow>
              (case vector_at trajectoryParameters (currentArc + 2) of
                 Inl e \<Rightarrow> Inl (e, outputFiles st)
               | Inr b \<Rightarrow>
                   Inr (st\<lparr>currentArcMiddleTime :=
                          dadd (currentArcMiddleTime st) (ddiv (dadd a b) (Val 2))\<rparr>)))
     else Inr st)"

text \<open>One pass through the body of the loop, for the entry \<open>resultIterator\<close> of the map.\<close>

definition reconcileLeg ::
  "('bm, 'am) Tudat \<Rightarrow> 'bm \<Rightarrow> string \<Rightarrow> double list \<Rightarrow> (address \<times> address) list \<Rightarrow> nat \<Rightarrow>
   int \<times> StateHistory \<Rightarrow> 'am LoopState \<Rightarrow> (error \<times> OutputFile list) + 'am LoopState" where
  "reconcileLeg T bodyMapForPropagation outputPath trajectoryParameters propagatorSettings
       numberOfResults resultIterator st =
    (let currentArc = fst resultIterator;
         fullProblemSolution = snd resultIterator
     in case interpolate T (LagrangeInterpolatorSettings 8) fullProblemSolution
               (dmul (currentArcMiddleTime st) (Val 86400)) of
          Inl e \<Rightarrow> Inl (e, outputFiles st)
        | Inr currentArcMiddleState \<Rightarrow>
           (case forwardPropagation T bodyMapForPropagation outputPath propagatorSettings
                   currentArc fullProblemSolution currentArcMiddleState st of
              Inl ew \<Rightarrow> Inl ew
            | Inr st1 \<Rightarrow>
               (case backwardPropagation T bodyMapForPropagation outputPath propagatorSettings
                       currentArc fullProblemSolution currentArcMiddleState st1 of
                  Inl ew \<Rightarrow> Inl ew
                | Inr st2 \<Rightarrow>
                    updateArcMiddleTime trajectoryParameters numberOfResults currentArc st2)))"

text \<open>The loop: the entries of the map in the order of their keys; an exception ends it.\<close>

fun reconcileLegs ::
  "('bm, 'am) Tudat \<Rightarrow> 'bm \<Rightarrow> string \<Rightarrow> double list \<Rightarrow> (address \<times> address) list \<Rightarrow> nat \<Rightarrow>
   LegResults \<Rightarrow> 'am LoopState \<Rightarrow> (error \<times> OutputFile list) + 'am LoopState" where
  "reconcileLegs T bodyMapForPropagation outputPath trajectoryParameters propagatorSettings
       numberOfResults [] st = Inr st"
| "reconcileLegs T bodyMapForPropagation outputPath trajectoryParameters propagatorSettings
       numberOfResults (resultIterator # rest) st =
    (case reconcileLeg T bodyMapForPropagation outputPath trajectoryParameters
            propagatorSettings numberOfResults resultIterator st of
       Inl ew \<Rightarrow> Inl ew
     | Inr st' \<Rightarrow>
         reconcileLegs T bodyMapForPropagation outputPath trajectoryParameters
           propagatorSettings numberOfResults rest st')"

section \<open>The patched-conic trajectory\<close>

text \<open>
  Modelled from the spec: the code of the library's trajectory class
  (\<open>calculateTrajectory\<close>, \<open>getCaptureDeltaV\<close>, \<open>maneuvers\<close>) is not part of the
  program. The spec says that one maneuver is produced per leg, that the velocity-change
  budget accumulates over the legs with the departure leg's velocity change excluded from
  the total by convention, and that for a final capture leg the capture velocity change is
  reported separately and also included in the total (a not-a-number sentinel when no
  capture leg is configured). The convention is what the two booleans of the call say:
  whether the departure and the arrival velocity change count. \<open>solveLegs\<close> solves
  the legs in order with the library's solution of a leg; a failure of one leg ends the
  computation of the trajectory.
\<close>

fun solveLegs :: "(nat \<Rightarrow> error + Maneuver) \<Rightarrow> nat list \<Rightarrow> error + Maneuver list" where
  "solveLegs solve [] = Inr []"
| "solveLegs solve (k # ks) =
     (case solve k of
        Inl e \<Rightarrow> Inl e
      | Inr m \<Rightarrow> (case solveLegs solve ks of Inl e \<Rightarrow> Inl e | Inr ms \<Rightarrow> Inr (m # ms)))"

text \<open>
  Modelled from the spec: the velocity-change budget accumulated over the legs, leaving
  out the departure leg's and the capture leg's velocity change when they do not count.
\<close>

fun accumulateDeltaV ::
  "bool \<Rightarrow> bool \<Rightarrow> (TransferLegType \<times> Maneuver) list \<Rightarrow> double \<Rightarrow> double" where
  "accumulateDeltaV incDeparture incArrival [] totalDeltaV = totalDeltaV"
| "accumulateDeltaV incDeparture incArrival (leg # legs) totalDeltaV =
     accumulateDeltaV incDeparture incArrival legs
       (if fst leg = mga_Departure \<and> \<not> incDeparture then totalDeltaV
        else if fst leg = capture \<and> \<not> incArrival then totalDeltaV
        else dadd totalDeltaV (velocityChangeMagnitude (snd leg)))"

text \<open>
  Modelled from the spec: \<open>calculateTrajectory\<close> of the library's trajectory class,
  giving the total, the capture velocity change and the maneuvers, one per entry of
  the vector of leg types.
\<close>

definition calculateTrajectory ::
  "('bm, 'am) Tudat \<Rightarrow> 'bm TransferTrajectory \<Rightarrow> error + TrajectoryResult" where
  "calculateTrajectory T trajectory =
    (let legTypes = trajectoryLegTypes trajectory
     in case solveLegs (legManeuver T trajectory) [0..<length legTypes] of
          Inl e \<Rightarrow> Inl e
        | Inr ms \<Rightarrow>
            Inr \<lparr>totalVelocityChange =
                   accumulateDeltaV (includeDepartureDeltaV trajectory)
                     (includeArrivalDeltaV trajectory) (zip legTypes ms) (Val 0),
                 captureVelocityChange =
                   (if legTypes \<noteq> [] \<and> last legTypes = capture
                    then velocityChangeMagnitude (last ms) else TUDAT_NAN),
                 maneuverSequence = ms\<rparr>)"

text \<open>
  Modelled from the spec: \<open>getCaptureDeltaV\<close> of the library's trajectory class, the
  capture velocity change reported separately.
\<close>

definition getCaptureDeltaV :: "TrajectoryResult \<Rightarrow> double" where
  "getCaptureDeltaV r = captureVelocityChange r"

text \<open>
  Modelled from the spec: \<open>maneuvers\<close> of the library's trajectory class, which fills
  three vectors from the sequence of maneuvers: the positions, the times and the velocity
  changes.
\<close>

definition maneuvers :: "TrajectoryResult \<Rightarrow> double list list \<times> double list \<times> double list" where
  "maneuvers r =
     (map maneuverPosition (maneuverSequence r), map maneuverEpoch (maneuverSequence r),
      map velocityChangeMagnitude (maneuverSequence r))"

section \<open>The program\<close>

definition transferCases :: "string list" where
  "transferCases = [''EVEEJ'', ''EVVEJ'', ''EVEVJ'', ''EVVMJ'', ''EVEMJ'', ''EVMMJ'', ''EVMVJ'']"

definition transferCaseNames :: "(string \<times> string) list" where
  "transferCaseNames =
     [(''Earth'', ''Earth''), (''Venus'', ''Earth''), (''Earth'', ''Venus''), (''Venus'', ''Mars''),
      (''Earth'', ''Mars''), (''Mars'', ''Mars''), (''Mars'', ''Venus'')]"

text \<open>
  The independent variables written into \<open>main\<close>; a decimal literal stands for the
  double nearest to it.
\<close>

definition defaultTrajectoryParameters :: "double list" where
  "defaultTrajectoryParameters =
     [Val (roundToDouble (- 1851.46422926478)), Val (roundToDouble 94.13188652993128),
      Val (roundToDouble 381.9429079287791), Val (roundToDouble 55.6729929900098),
      Val (roundToDouble 700.990295462437), Val 1]"

text \<open>The library's \<open>physical_constants::JULIAN_DAY\<close>, the seconds of a day.\<close>

definition JULIAN_DAY :: double where
  "JULIAN_DAY = Val 86400"

text \<open>
  The conversion of a \<open>double\<close> to \<open>int\<close> drops the fraction; it has no defined
  behaviour for not-a-number and outside the range of a 32-bit \<open>int\<close>.
\<close>

definition double_to_int :: "double \<Rightarrow> error + int" where
  "double_to_int d =
    (case d of
       NaN \<Rightarrow> Inl UndefinedBehaviour
     | Val x \<Rightarrow>
        (let t = (if 0 \<le> x then \<lfloor>x\<rfloor> else \<lceil>x\<rceil>)
         in if - 2147483648 \<le> t \<and> t \<le> 2147483647 then Inr t else Inl UndefinedBehaviour))"

definition transferLegTypes :: "TransferLegType list" where
  "transferLegTypes = [mga_Departure, mga_Swingby, mga_Swingby, mga_Swingby, capture]"

definition transferBodyOrder :: "double list \<Rightarrow> error + string list" where
  "transferBodyOrder trajectoryParameters =
    (case vector_at trajectoryParameters 5 of
       Inl e \<Rightarrow> Inl e
     | Inr selector \<Rightarrow>
        (case double_to_int selector of
           Inl e \<Rightarrow> Inl e
         | Inr transferCase \<Rightarrow>
            (case vector_at transferCaseNames transferCase of
               Inl e \<Rightarrow> Inl e
             | Inr names \<Rightarrow> Inr [''Earth'', ''Venus'', fst names, snd names, ''Jupiter''])))"

definition captureSemiMajorAxis :: double where
  "captureSemiMajorAxis = ddiv (Val 108950000) (Val (roundToDouble 0.02))"

definition captureEccentricity :: double where
  "captureEccentricity = Val (roundToDouble 0.98)"

text \<open>The body map with the spacecraft of 400 kg, in the frame of the solar-system barycentre.\<close>

definition setupBodies :: "('bm, 'am) Tudat \<Rightarrow> string list \<Rightarrow> error + 'bm" where
  "setupBodies T bodyOrder =
    (case setupBodyMapFromEphemeridesForPatchedConicsTrajectory T ''Sun'' ''Spacecraft''
            bodyOrder of
       Inl e \<Rightarrow> Inl e
     | Inr bodyMap \<Rightarrow>
         setGlobalFrameBodyEphemerides T
           (createBodyWithConstantMass T bodyMap ''Spacecraft'' (Val 400)) ''SSB'' ''ECLIPJ2000'')"

text \<open>
  The independent variables in seconds: every parameter but the last times
  \<open>JULIAN_DAY\<close>, and a not-a-number in place of the last. (The vector of parameters is
  not empty here: its sixth entry has been read.)
\<close>

definition trajectoryIndependentVariables :: "double list \<Rightarrow> double list" where
  "trajectoryIndependentVariables trajectoryParameters =
     map (\<lambda>x. dmul x JULIAN_DAY) (butlast trajectoryParameters) @ [TUDAT_NAN]"

text \<open>The patched conic: departure Delta V not included, arrival (capture) Delta V included.\<close>

definition patchedConicTrajectory ::
  "('bm, 'am) Tudat \<Rightarrow> 'bm \<Rightarrow> string list \<Rightarrow> double list \<Rightarrow> double list \<Rightarrow>
   error + TrajectoryResult" where
  "patchedConicTrajectory T bodyMapForPatchedConic bodyOrder independentVariables
       minimumPericenterRadii =
     calculateTrajectory T
       (createTransferTrajectoryObject bodyMapForPatchedConic bodyOrder ''Sun''
          transferLegTypes independentVariables minimumPericenterRadii False TUDAT_NAN
          TUDAT_NAN True captureSemiMajorAxis captureEccentricity)"

text \<open>The list of relevant bodies: the bodies of the transfer without repetition.\<close>

fun bodyListLoop :: "string list \<Rightarrow> string list \<Rightarrow> string list" where
  "bodyListLoop [] bodyList = bodyList"
| "bodyListLoop (b # rest) bodyList =
     bodyListLoop rest (if b \<notin> set bodyList then bodyList @ [b] else bodyList)"

definition dependentVariableList :: "string list \<Rightarrow> SingleDependentVariableSaveSettings list" where
  "dependentVariableList bodyOrder =
     map (\<lambda>b. SingleDependentVariableSaveSettings relative_distance_dependent_variable
                 ''Spacecraft'' b)
       (bodyListLoop bodyOrder [] @ [''Sun''])"

definition initialIntegratorSettings :: IntegratorSettings where
  "initialIntegratorSettings =
     \<lparr>integratorType = rungeKutta4, initialTime = TUDAT_NAN, initialTimeStep = Val 1000\<rparr>"

text \<open>Writing one file per entry of a map of results.\<close>

fun writeResults ::
  "string \<Rightarrow> string \<Rightarrow> LegResults \<Rightarrow> OutputFile list \<Rightarrow> OutputFile list" where
  "writeResults name outputPath [] written = written"
| "writeResults name outputPath (resultIterator # rest) written =
     writeResults name outputPath rest
       (writeDataMapToTextFile (snd resultIterator)
          (name @ to_string (fst resultIterator) @ ''.dat'') outputPath written)"

text \<open>
  The last part of \<open>main\<close>, after the library's propagation of the full problem:
  the loop over the arcs from the first middle time on, then the three loops that write
  the results of the library's propagation. The program has no handler for exceptions:
  one thrown in the loop over the arcs ends the program there.
\<close>

definition propagateFromArcMiddles ::
  "('bm, 'am) Tudat \<Rightarrow> 'bm \<Rightarrow> string \<Rightarrow> double list \<Rightarrow> (address \<times> address) list \<Rightarrow>
   'am PropagatorStore \<Rightarrow> LegResults \<Rightarrow> LegResults \<Rightarrow> LegResults \<Rightarrow> OutputFile list \<Rightarrow>
   (error \<times> OutputFile list) + OutputFile list" where
  "propagateFromArcMiddles T bodyMapForPropagation outputPath trajectoryParameters
       propagatorSettings store lambertTargeterResultForEachLeg fullProblemResultForEachLeg
       dependentVariableResultForEachLeg written =
    (case vector_at trajectoryParameters 0 of
       Inl e \<Rightarrow> Inl (e, written)
     | Inr t0 \<Rightarrow>
        (case vector_at trajectoryParameters 1 of
           Inl e \<Rightarrow> Inl (e, written)
         | Inr d1 \<Rightarrow>
            (case reconcileLegs T bodyMapForPropagation outputPath trajectoryParameters
                    propagatorSettings (length fullProblemResultForEachLeg)
                    fullProblemResultForEachLeg
                    \<lparr>currentArcMiddleTime = dadd t0 (ddiv d1 (Val 2)),
                     integratorSettings = initialIntegratorSettings,
                     propagatorStore = store,
                     outputFiles = written\<rparr> of
               Inl ew \<Rightarrow> Inl ew
             | Inr st \<Rightarrow>
                 Inr (writeResults ''dependentResult'' outputPath
                        dependentVariableResultForEachLeg
                        (writeResults ''numericalResult'' outputPath
                           fullProblemResultForEachLeg
                           (writeResults ''lambertResult'' outputPath
                              lambertTargeterResultForEachLeg (outputFiles st)))))))"

text \<open>
  The numerical part of \<open>main\<close>, from the acceleration settings on. The two readings
  of the steady clock are arguments. An exception leaves the program with the files
  written and the lines printed until then.
\<close>

definition propagateDynamics ::
  "('bm, 'am) Tudat \<Rightarrow> double list \<Rightarrow> string list \<Rightarrow> 'bm \<Rightarrow> double list \<Rightarrow> double list \<Rightarrow>
   double \<Rightarrow> double \<Rightarrow> World \<Rightarrow> (error \<times> World) + World" where
  "propagateDynamics T trajectoryParameters bodyOrder bodyMapForPropagation independentVariables
       minimumPericenterRadii clockStart clockEnd w =
    (let outputPath = getOutputPath T ''HighThrust'';
         departureCaptureSemiMajorAxes = [TUDAT_NAN, captureSemiMajorAxis];
         departureCaptureEccentricities = [TUDAT_NAN, captureEccentricity]
     in case getAccelerationModelsPerturbedPatchedConicsTrajectory
               (createAccelerationModelsMap T) (Val (real (length transferLegTypes)))
               ''Sun'' ''Spacecraft'' bodyMapForPropagation bodyOrder of
          Inl e \<Rightarrow> Inl (e, w)
        | Inr accelerationMap \<Rightarrow>
           (case getPatchedConicPropagatorSettings T bodyMapForPropagation accelerationMap
                   bodyOrder ''Sun'' ''Spacecraft'' transferLegTypes independentVariables
                   minimumPericenterRadii departureCaptureSemiMajorAxes
                   departureCaptureEccentricities
                   (replicate (length bodyOrder)
                      (DependentVariableSaveSettings (dependentVariableList bodyOrder)))
                   cowell True of
              Inl e \<Rightarrow> Inl (e, w)
            | Inr created \<Rightarrow>
               (case fullPropagationPatchedConicsTrajectory T bodyMapForPropagation
                       bodyOrder ''Sun'' transferLegTypes independentVariables
                       minimumPericenterRadii departureCaptureSemiMajorAxes
                       departureCaptureEccentricities (fst created) (snd created)
                       initialIntegratorSettings of
                  Inl e \<Rightarrow> Inl (e, w)
                | Inr results \<Rightarrow>
                   (let w1 = w\<lparr>console := console w @ [OperationTook (dsub clockEnd clockStart)]\<rparr>
                    in case propagateFromArcMiddles T bodyMapForPropagation outputPath
                              trajectoryParameters (fst created) (snd created) (fst results)
                              (fst (snd results)) (snd (snd results)) (files w1) of
                         Inl ew \<Rightarrow> Inl (fst ew, w1\<lparr>files := snd ew\<rparr>)
                       | Inr written \<Rightarrow> Inr (w1\<lparr>files := written\<rparr>)))))"

text \<open>
  \<open>main\<close>, for a vector of parameters and the two readings of the clock. Loading the
  Spice kernels changes nothing the program reads back, and the three vectors that
  \<open>maneuvers\<close> fills are not used afterwards; neither is represented.
\<close>

definition highThrustTransfer ::
  "('bm, 'am) Tudat \<Rightarrow> double list \<Rightarrow> double \<Rightarrow> double \<Rightarrow> (error \<times> World) + World" where
  "highThrustTransfer T trajectoryParameters clockStart clockEnd =
    (let w0 = \<lparr>files = [], console = []\<rparr>
     in case transferBodyOrder trajectoryParameters of
          Inl e \<Rightarrow> Inl (e, w0)
        | Inr bodyOrder \<Rightarrow>
           (case setupBodies T bodyOrder of
              Inl e \<Rightarrow> Inl (e, w0)
            | Inr bodyMapForPatchedConic \<Rightarrow>
               (case getDefaultMinimumPericenterRadii T bodyOrder of
                  Inl e \<Rightarrow> Inl (e, w0)
                | Inr minimumPericenterRadii \<Rightarrow>
                   (let independentVariables =
                          trajectoryIndependentVariables trajectoryParameters
                    in case patchedConicTrajectory T bodyMapForPatchedConic bodyOrder
                              independentVariables minimumPericenterRadii of
                         Inl e \<Rightarrow> Inl (e, w0)
                       | Inr trajectory \<Rightarrow>
                           propagateDynamics T trajectoryParameters bodyOrder
                             bodyMapForPatchedConic independentVariables
                             minimumPericenterRadii clockStart clockEnd
                             (w0\<lparr>console := [TotalCaptureDeltaV (totalVelocityChange trajectory)
                                                (getCaptureDeltaV trajectory)]\<rparr>)))))"

definition main :: "('bm, 'am) Tudat \<Rightarrow> double \<Rightarrow> double \<Rightarrow> (error \<times> World) + World" where
  "main T clockStart clockEnd =
     highThrustTransfer T defaultTrajectoryParameters clockStart clockEnd"

section \<open>A small instance of the library\<close>

text \<open>
  To run the model, the library's functions are instantiated with simple stand-ins. The
  interpolator returns the state of the first sample and throws outside the span of the
  history; the simulator returns a history of two samples that records what it was
  given: the initial time with the initial state, and the final time with the time step,
  in the order of their epochs, as a map holds them.
\<close>

definition exampleSettings :: "unit PropagatorSettings" where
  "exampleSettings =
     \<lparr>accelerationsMap = (), initialStates = [],
      terminationSettings = LibraryTerminationSettings,
      dependentVariablesToSave = DependentVariableSaveSettings [], propagator = cowell\<rparr>"

definition exampleInterpolate ::
  "InterpolatorSettings \<Rightarrow> StateHistory \<Rightarrow> double \<Rightarrow> error + double list" where
  "exampleInterpolate s m t =
    (case m of
       [] \<Rightarrow> Inl (LibraryException ''no data'')
     | x # _ \<Rightarrow>
        if dless t (fst x) \<or> dless (fst (last m)) t
        then Inl (LibraryException ''outside the interpolation domain'')
        else Inr (snd x))"

definition exampleSimulator ::
  "unit \<Rightarrow> IntegratorSettings \<Rightarrow> unit PropagatorSettings \<Rightarrow> error + StateHistory" where
  "exampleSimulator bm i p =
     Inr (case terminationSettings p of
            PropagationTimeTerminationSettings t \<Rightarrow>
              if dless t (initialTime i)
              then [(t, [initialTimeStep i]), (initialTime i, initialStates p)]
              else [(initialTime i, initialStates p), (t, [initialTimeStep i])]
          | LibraryTerminationSettings \<Rightarrow> [(initialTime i, initialStates p)])"

definition exampleManeuver :: "nat \<Rightarrow> Maneuver" where
  "exampleManeuver k =
     \<lparr>maneuverEpoch = Val (real k), maneuverPosition = [Val 0, Val 0, Val 0],
      velocityChangeMagnitude = Val (real (k + 1))\<rparr>"

text \<open>
  The histories of two arcs, of two days and of four days from the epoch \<open>0\<close>, as the
  library's propagation of the full problem might return them: the analytic ones (the
  states \<open>1\<close>, \<open>2\<close>, \<open>3\<close>), the numerical ones (the states \<open>7\<close>, \<open>8\<close>,
  \<open>9\<close>) and the dependent variables.
\<close>

definition exampleLambertResult :: LegResults where
  "exampleLambertResult =
     [(0, [(Val 0, [Val 1]), (Val 172800, [Val 2])]),
      (1, [(Val 172800, [Val 2]), (Val 518400, [Val 3])])]"

definition exampleFullProblemResult :: LegResults where
  "exampleFullProblemResult =
     [(0, [(Val 0, [Val 7]), (Val 172800, [Val 8])]),
      (1, [(Val 172800, [Val 8]), (Val 518400, [Val 9])])]"

definition exampleDependentResult :: LegResults where
  "exampleDependentResult =
     [(0, [(Val 0, [Val 5])]), (1, [(Val 172800, [Val 6])])]"

text \<open>
  Four arcs for the parameters written into \<open>main\<close>, with histories that span the
  epochs of the whole transfer, and their settings.
\<close>

definition exampleArcsOfMain :: LegResults where
  "exampleArcsOfMain =
     [(0, [(Val (- 200000000), [Val 7]), (Val 0, [Val 8])]),
      (1, [(Val (- 200000000), [Val 7]), (Val 0, [Val 8])]),
      (2, [(Val (- 200000000), [Val 7]), (Val 0, [Val 8])]),
      (3, [(Val (- 200000000), [Val 7]), (Val 0, [Val 8])])]"

definition exampleSettingsOfMain :: "(address \<times> address) list" where
  "exampleSettingsOfMain = [(0, 1), (2, 3), (4, 5), (6, 7)]"

definition exampleParameters :: "double list" where
  "exampleParameters = [Val 0, Val 2, Val 4, Val 6, Val 8, Val 1]"

definition examplePropagatorSettings :: "(address \<times> address) list" where
  "examplePropagatorSettings = [(0, 1), (2, 3)]"

definition exampleStore :: "unit PropagatorStore" where
  "exampleStore = (\<lambda>a. exampleSettings)"

definition exampleTudat :: "(unit, unit) Tudat" where
  "exampleTudat =
     \<lparr>getOutputPath = (\<lambda>name. name @ ''/''),
      setupBodyMapFromEphemeridesForPatchedConicsTrajectory = (\<lambda>c p bodies. Inr ()),
      createBodyWithConstantMass = (\<lambda>bm name mass. ()),
      setGlobalFrameBodyEphemerides = (\<lambda>bm origin frame. Inr ()),
      getDefaultMinimumPericenterRadii = (\<lambda>bodies. Inr (map (\<lambda>b. Val 1) bodies)),
      createAccelerationModelsMap = (\<lambda>bm settings bodies centrals. Inr ()),
      getPatchedConicPropagatorSettings =
        (\<lambda>bm am bodies c p types vars radii smas eccs deps prop soi.
           Inr (examplePropagatorSettings, exampleStore)),
      fullPropagationPatchedConicsTrajectory =
        (\<lambda>bm bodies c types vars radii smas eccs settings store integrator.
           Inr (exampleLambertResult, exampleFullProblemResult, exampleDependentResult)),
      legManeuver = (\<lambda>t k. Inr (exampleManeuver k)),
      interpolate = exampleInterpolate,
      singleArcDynamicsSimulator = exampleSimulator\<rparr>"

definition exampleState :: "unit LoopState" where
  "exampleState =
     \<lparr>currentArcMiddleTime = Val 1, integratorSettings = initialIntegratorSettings,
      propagatorStore = exampleStore, outputFiles = []\<rparr>"

section \<open>Properties of the double arithmetic\<close>

lemma roundToEven_of_int: "roundToEven (of_int n) = n"
  by (simp add: roundToEven_def)

lemma roundToEven_error: "\<bar>of_int (roundToEven y) - y\<bar> \<le> 1 / 2"
  unfolding roundToEven_def Let_def by (auto simp: abs_le_iff)

lemma roundToEven_minus: "roundToEven (- y) = - roundToEven y"
proof (cases "y \<in> \<int>")
  case True
  then obtain n where "y = of_int n" by (auto elim: Ints_cases)
  then have "- y = of_int (- n)" by simp
  then show ?thesis unfolding \<open>y = of_int n\<close> by (simp only: roundToEven_of_int)
next
  case False
  then have "y \<noteq> of_int \<lfloor>y\<rfloor>"
    by (metis Ints_of_int)
  then have f: "\<lfloor>- y\<rfloor> = - \<lfloor>y\<rfloor> - 1"
    by (simp add: floor_minus ceiling_altdef)
  show ?thesis
    unfolding roundToEven_def Let_def f by auto
qed

lemma power_int_neg_nat: "0 \<le> m \<Longrightarrow> (2::real) powi (- m) = 1 / 2 ^ nat m"
  by (simp add: power_int_def power_one_over)

lemma binaryExponent_bounds:
  assumes "x \<noteq> 0"
  shows "2 powi binaryExponent x \<le> \<bar>x\<bar> \<and> \<bar>x\<bar> < 2 powi (binaryExponent x + 1)"
proof (cases "1 \<le> \<bar>x\<bar>")
  case True
  define n where "n = \<lfloor>\<bar>x\<bar>\<rfloor>"
  from True have n: "0 < n" unfolding n_def by linarith
  from bitlen_bounds [OF n] have lo: "2 ^ nat (bitlen n - 1) \<le> n" and hi: "n < 2 ^ nat (bitlen n)"
    by simp_all
  from n have b: "1 \<le> bitlen n" by (simp add: bitlen_alt_def)
  have e: "binaryExponent x = bitlen n - 1"
    using True by (simp add: binaryExponent_def n_def)
  have "(2::real) powi (bitlen n - 1) = 2 ^ nat (bitlen n - 1)"
    using b by (simp add: power_int_def)
  also have "\<dots> \<le> of_int n" using lo by (metis of_int_le_iff of_int_numeral of_int_power)
  also have "\<dots> \<le> \<bar>x\<bar>" unfolding n_def by simp
  finally have 1: "2 powi binaryExponent x \<le> \<bar>x\<bar>" unfolding e .
  from hi have "n + 1 \<le> 2 ^ nat (bitlen n)" by simp
  then have hi': "real_of_int (n + 1) \<le> of_int (2 ^ nat (bitlen n))"
    by (simp only: of_int_le_iff)
  have "\<bar>x\<bar> < of_int (n + 1)" unfolding n_def by linarith
  also note hi'
  also have "real_of_int (2 ^ nat (bitlen n)) = (2::real) powi (bitlen n - 1 + 1)"
    using b by (simp add: power_int_def)
  finally have 2: "\<bar>x\<bar> < 2 powi (binaryExponent x + 1)" unfolding e .
  from 1 2 show ?thesis ..
next
  case False
  with assms have x: "0 < \<bar>x\<bar>" "\<bar>x\<bar> < 1" by simp_all
  define n where "n = \<lfloor>1 / \<bar>x\<bar>\<rfloor>"
  define k where "k = bitlen n"
  from x have "1 \<le> 1 / \<bar>x\<bar>" by simp
  then have n: "0 < n" unfolding n_def by linarith
  from bitlen_bounds [OF n] have lo: "2 ^ nat (k - 1) \<le> n" and hi: "n < 2 ^ nat k"
    unfolding k_def by simp_all
  from n have k: "1 \<le> k" unfolding k_def by (simp add: bitlen_alt_def)
  have p1: "(2::real) powi (1 - k) = 1 / 2 ^ nat (k - 1)"
    using k power_int_neg_nat [of "k - 1"] by simp
  have p2: "(2::real) powi (- k) = 1 / 2 ^ nat k"
    using k power_int_neg_nat [of k] by simp
  have "(2::real) ^ nat (k - 1) \<le> of_int n"
    using lo by (metis of_int_le_iff of_int_numeral of_int_power)
  also have "\<dots> \<le> 1 / \<bar>x\<bar>" unfolding n_def by simp
  finally have "\<bar>x\<bar> * 2 ^ nat (k - 1) \<le> 1"
    using x(1) by (simp add: field_simps)
  then have up: "\<bar>x\<bar> \<le> 2 powi (1 - k)"
    unfolding p1 by (simp add: field_simps)
  from hi have "n + 1 \<le> 2 ^ nat k" by simp
  then have hi': "real_of_int (n + 1) \<le> of_int (2 ^ nat k)"
    by (simp only: of_int_le_iff)
  have "1 / \<bar>x\<bar> < of_int (n + 1)" unfolding n_def by linarith
  also note hi'
  finally have "1 < \<bar>x\<bar> * 2 ^ nat k"
    using x(1) by (simp add: field_simps)
  then have low: "2 powi (- k) < \<bar>x\<bar>"
    unfolding p2 by (simp add: field_simps)
  show ?thesis
  proof (cases "\<bar>x\<bar> * 2 ^ nat (k - 1) = 1")
    case True
    then have e: "binaryExponent x = 1 - k"
      using False by (simp add: binaryExponent_def n_def k_def)
    from True have eq: "\<bar>x\<bar> = 2 powi (1 - k)"
      unfolding p1 by (simp add: field_simps)
    have "(2::real) powi (1 - k) < 2 powi (1 - k + 1)"
      by (rule power_int_strict_increasing) simp_all
    with eq show ?thesis unfolding e by simp
  next
    case ne: False
    then have e: "binaryExponent x = - k"
      using False by (simp add: binaryExponent_def n_def k_def)
    from ne have "\<bar>x\<bar> \<noteq> 2 powi (1 - k)"
      unfolding p1 by (simp add: field_simps)
    with up have "\<bar>x\<bar> < 2 powi (- k + 1)" by simp
    with low show ?thesis unfolding e by simp
  qed
qed

lemma binaryExponent_unique:
  assumes "2 powi e \<le> \<bar>x\<bar>" and "\<bar>x\<bar> < 2 powi (e + 1)"
  shows "binaryExponent x = e"
proof -
  have "(0::real) < 2 powi e" by simp
  with assms(1) have "0 < \<bar>x\<bar>" by linarith
  then have x: "x \<noteq> 0" by simp
  note b = binaryExponent_bounds [OF x]
  have "\<not> binaryExponent x < e"
  proof
    assume "binaryExponent x < e"
    then have "(2::real) powi (binaryExponent x + 1) \<le> 2 powi e"
      by (intro power_int_increasing) simp_all
    with b assms(1) show False by simp
  qed
  moreover have "\<not> e < binaryExponent x"
  proof
    assume "e < binaryExponent x"
    then have "(2::real) powi (e + 1) \<le> 2 powi binaryExponent x"
      by (intro power_int_increasing) simp_all
    with b assms(2) show False by simp
  qed
  ultimately show ?thesis by simp
qed

lemma binaryExponent_minus: "binaryExponent (- x) = binaryExponent x"
  by (simp add: binaryExponent_def)

lemma roundToDouble_minus: "roundToDouble (- x) = - roundToDouble x"
  by (simp add: roundToDouble_def binaryExponent_minus roundToEven_minus Let_def)

lemma roundToDouble_eq:
  assumes "2 powi e \<le> \<bar>x\<bar>" and "\<bar>x\<bar> < 2 powi (e + 1)"
  shows "roundToDouble x = of_int (roundToEven (x * 2 powi (52 - e))) * 2 powi (e - 52)"
proof -
  have "(0::real) < 2 powi e" by simp
  with assms(1) have "0 < \<bar>x\<bar>" by linarith
  then have x: "x \<noteq> 0" by simp
  with binaryExponent_unique [OF assms] show ?thesis
    by (simp add: roundToDouble_def Let_def)
qed

lemma roundToDouble_error: "\<bar>roundToDouble x - x\<bar> \<le> \<bar>x\<bar> / 2 ^ 53"
proof (cases "x = 0")
  case True
  then show ?thesis by (simp add: roundToDouble_def)
next
  case False
  define e where "e = binaryExponent x"
  define y where "y = x * 2 powi (52 - e)"
  from binaryExponent_bounds [OF False] have lo: "2 powi e \<le> \<bar>x\<bar>"
    unfolding e_def by simp
  have x: "x = y * 2 powi (e - 52)"
    unfolding y_def by (simp add: power_int_add [symmetric])
  have r: "roundToDouble x = of_int (roundToEven y) * 2 powi (e - 52)"
    using False by (simp add: roundToDouble_def e_def y_def Let_def)
  have "roundToDouble x - x = (of_int (roundToEven y) - y) * 2 powi (e - 52)"
    unfolding r by (subst x) (simp add: algebra_simps)
  then have "\<bar>roundToDouble x - x\<bar> = \<bar>of_int (roundToEven y) - y\<bar> * 2 powi (e - 52)"
    by (simp add: abs_mult)
  also have "\<dots> \<le> 1 / 2 * 2 powi (e - 52)"
    by (intro mult_right_mono roundToEven_error) simp
  also have "\<dots> = 2 powi e / 2 ^ 53"
    by (simp add: power_int_diff)
  also have "\<dots> \<le> \<bar>x\<bar> / 2 ^ 53"
    using lo by (simp add: divide_right_mono)
  finally show ?thesis .
qed

lemma roundToDouble_representable:
  assumes "\<bar>m\<bar> < 2 ^ 53"
  shows "roundToDouble (of_int m * 2 powi k) = of_int m * 2 powi k"
proof (cases "m = 0")
  case True
  then show ?thesis by (simp add: roundToDouble_def)
next
  case False
  define x :: real where "x = of_int m * 2 powi k"
  define e where "e = binaryExponent x"
  from False have x0: "x \<noteq> 0" unfolding x_def by simp
  from binaryExponent_bounds [OF x0] have lo: "2 powi e \<le> \<bar>x\<bar>"
    unfolding e_def by simp
  have "\<bar>x\<bar> = of_int \<bar>m\<bar> * 2 powi k"
    unfolding x_def by (simp add: abs_mult)
  also have "\<dots> < 2 ^ 53 * 2 powi k"
  proof (rule mult_strict_right_mono)
    from assms have "real_of_int \<bar>m\<bar> < of_int (2 ^ 53)"
      by (simp only: of_int_less_iff)
    then show "real_of_int \<bar>m\<bar> < 2 ^ 53" by simp
  qed simp
  also have "\<dots> = 2 powi (53 + k)"
    by (simp add: power_int_add)
  finally have "(2::real) powi e < 2 powi (53 + k)"
    using lo by simp
  have "e < 53 + k"
  proof (rule ccontr)
    assume "\<not> e < 53 + k"
    then have "(2::real) powi (53 + k) \<le> 2 powi e"
      by (intro power_int_increasing) simp_all
    with \<open>(2::real) powi e < 2 powi (53 + k)\<close> show False by simp
  qed
  then have d: "0 \<le> k + 52 - e" by simp
  have "x * 2 powi (52 - e) = of_int m * 2 powi (k + 52 - e)"
    unfolding x_def by (simp add: power_int_add [symmetric] algebra_simps)
  also have "\<dots> = of_int (m * 2 ^ nat (k + 52 - e))"
    using d by (simp add: power_int_def)
  finally have y: "x * 2 powi (52 - e) = of_int (m * 2 ^ nat (k + 52 - e))" .
  have "roundToDouble x = of_int (roundToEven (x * 2 powi (52 - e))) * 2 powi (e - 52)"
    using x0 by (simp add: roundToDouble_def e_def Let_def)
  also have "\<dots> = x * 2 powi (52 - e) * 2 powi (e - 52)"
    unfolding y roundToEven_of_int ..
  also have "\<dots> = x"
    by (simp add: power_int_add [symmetric])
  finally show ?thesis unfolding x_def .
qed

lemma roundToDouble_of_int:
  assumes "\<bar>m\<bar> < 2 ^ 53"
  shows "roundToDouble (of_int m) = of_int m"
  using roundToDouble_representable [OF assms, of 0] by simp

lemma roundToDouble_0 [simp]: "roundToDouble 0 = 0"
  by (simp add: roundToDouble_def)

lemma roundToDouble_1 [simp]: "roundToDouble 1 = 1"
  using roundToDouble_of_int [of 1] by simp

lemma roundToDouble_numeral [simp]:
  "numeral n < (2::int) ^ 53 \<Longrightarrow> roundToDouble (numeral n) = numeral n"
  using roundToDouble_of_int [of "numeral n"] by simp

lemma roundToDouble_neg_numeral [simp]:
  "numeral n < (2::int) ^ 53 \<Longrightarrow> roundToDouble (- numeral n) = - numeral n"
  using roundToDouble_of_int [of "- numeral n"] by simp

lemma roundToDouble_abs:
  assumes "roundToDouble a = a"
  shows "roundToDouble \<bar>a\<bar> = \<bar>a\<bar>"
  using assms roundToDouble_minus [of a] by (cases "0 \<le> a") simp_all

text \<open>The error of a rounded sum, product and half, from the errors of the operands.\<close>

lemma roundToDouble_relative: "\<bar>roundToDouble x - x\<bar> \<le> unitRoundoff * \<bar>x\<bar>"
  using roundToDouble_error [of x] by (simp add: unitRoundoff_def)

lemma unitRoundoff_pos: "0 < unitRoundoff"
  by (simp add: unitRoundoff_def)

lemma roundoff_power_ge_1: "1 \<le> (1 + unitRoundoff) ^ k"
  using unitRoundoff_pos by (intro one_le_power) simp

lemma roundoff_power_mono: "j \<le> k \<Longrightarrow> (1 + unitRoundoff) ^ j \<le> (1 + unitRoundoff) ^ k"
  using unitRoundoff_pos by (intro power_increasing) simp_all

lemma rounded_sum_error:
  assumes mM: "\<bar>m - M\<bar> \<le> ((1 + unitRoundoff) ^ k - 1) * B" and M: "\<bar>M\<bar> \<le> B"
    and hH: "\<bar>h - H\<bar> \<le> ((1 + unitRoundoff) ^ j - 1) * C" and H: "\<bar>H\<bar> \<le> C"
    and jk: "j \<le> k"
  shows "\<bar>roundToDouble (m + h) - (M + H)\<bar> \<le> ((1 + unitRoundoff) ^ Suc k - 1) * (B + C)"
proof -
  define E where "E = (1 + unitRoundoff) ^ k"
  from M have B: "0 \<le> B" by simp
  from H have C: "0 \<le> C" by simp
  have E1: "1 \<le> E" unfolding E_def by (rule roundoff_power_ge_1)
  have "((1 + unitRoundoff) ^ j - 1) * C \<le> (E - 1) * C"
    unfolding E_def using roundoff_power_mono [OF jk] C by (intro mult_right_mono) simp_all
  with hH have hH': "\<bar>h - H\<bar> \<le> (E - 1) * C" by simp
  from mM have mM': "\<bar>m - M\<bar> \<le> (E - 1) * B" unfolding E_def .
  have "\<bar>(m + h) - (M + H)\<bar> \<le> \<bar>m - M\<bar> + \<bar>h - H\<bar>" by simp
  also have "\<dots> \<le> (E - 1) * B + (E - 1) * C" using mM' hH' by simp
  finally have d: "\<bar>(m + h) - (M + H)\<bar> \<le> (E - 1) * (B + C)"
    by (simp add: algebra_simps)
  have "\<bar>m + h\<bar> \<le> \<bar>M + H\<bar> + \<bar>(m + h) - (M + H)\<bar>" by simp
  also have "\<dots> \<le> (B + C) + (E - 1) * (B + C)" using M H d by simp
  finally have s: "\<bar>m + h\<bar> \<le> E * (B + C)" by (simp add: algebra_simps)
  have "\<bar>roundToDouble (m + h) - (m + h)\<bar> \<le> unitRoundoff * \<bar>m + h\<bar>"
    by (rule roundToDouble_relative)
  also have "\<dots> \<le> unitRoundoff * (E * (B + C))"
    using s unitRoundoff_pos by (intro mult_left_mono) simp_all
  finally have r: "\<bar>roundToDouble (m + h) - (m + h)\<bar> \<le> unitRoundoff * (E * (B + C))" .
  have "\<bar>roundToDouble (m + h) - (M + H)\<bar> \<le>
      \<bar>roundToDouble (m + h) - (m + h)\<bar> + \<bar>(m + h) - (M + H)\<bar>"
    by simp
  also have "\<dots> \<le> unitRoundoff * (E * (B + C)) + (E - 1) * (B + C)"
    using r d by simp
  also have "\<dots> = ((1 + unitRoundoff) ^ Suc k - 1) * (B + C)"
    unfolding E_def by (simp add: algebra_simps)
  finally show ?thesis .
qed

lemma rounded_product_error:
  assumes mM: "\<bar>m - M\<bar> \<le> ((1 + unitRoundoff) ^ k - 1) * B" and M: "\<bar>M\<bar> \<le> B"
    and c: "0 \<le> c"
  shows "\<bar>roundToDouble (m * c) - M * c\<bar> \<le> ((1 + unitRoundoff) ^ Suc k - 1) * (B * c)"
proof -
  define E where "E = (1 + unitRoundoff) ^ k"
  from M have B: "0 \<le> B" by simp
  from mM have mM': "\<bar>m - M\<bar> \<le> (E - 1) * B" unfolding E_def .
  have "\<bar>m * c - M * c\<bar> = \<bar>m - M\<bar> * c"
    using c by (simp add: abs_mult flip: left_diff_distrib)
  also have "\<dots> \<le> (E - 1) * B * c"
    using mM' c by (intro mult_right_mono) simp_all
  finally have d: "\<bar>m * c - M * c\<bar> \<le> (E - 1) * (B * c)" by (simp add: algebra_simps)
  have "\<bar>m\<bar> \<le> \<bar>M\<bar> + \<bar>m - M\<bar>" by simp
  also have "\<dots> \<le> B + (E - 1) * B" using M mM' by simp
  finally have m: "\<bar>m\<bar> \<le> E * B" by (simp add: algebra_simps)
  have "\<bar>m * c\<bar> = \<bar>m\<bar> * c" using c by (simp add: abs_mult)
  also have "\<dots> \<le> E * B * c" using m c by (intro mult_right_mono) simp_all
  finally have s: "\<bar>m * c\<bar> \<le> E * (B * c)" by (simp add: algebra_simps)
  have "\<bar>roundToDouble (m * c) - m * c\<bar> \<le> unitRoundoff * \<bar>m * c\<bar>"
    by (rule roundToDouble_relative)
  also have "\<dots> \<le> unitRoundoff * (E * (B * c))"
    using s unitRoundoff_pos by (intro mult_left_mono) simp_all
  finally have r: "\<bar>roundToDouble (m * c) - m * c\<bar> \<le> unitRoundoff * (E * (B * c))" .
  have "\<bar>roundToDouble (m * c) - M * c\<bar> \<le>
      \<bar>roundToDouble (m * c) - m * c\<bar> + \<bar>m * c - M * c\<bar>"
    by simp
  also have "\<dots> \<le> unitRoundoff * (E * (B * c)) + (E - 1) * (B * c)"
    using r d by simp
  also have "\<dots> = ((1 + unitRoundoff) ^ Suc k - 1) * (B * c)"
    unfolding E_def by (simp add: algebra_simps)
  finally show ?thesis .
qed

lemma rounded_half_error:
  "\<bar>roundToDouble (a / 2) - a / 2\<bar> \<le> ((1 + unitRoundoff) ^ 1 - 1) * (\<bar>a\<bar> / 2)"
  using roundToDouble_relative [of "a / 2"] by simp

lemma rounded_half_sum_error:
  "\<bar>roundToDouble (roundToDouble (a + b) / 2) - (a + b) / 2\<bar> \<le>
     ((1 + unitRoundoff) ^ 2 - 1) * ((\<bar>a\<bar> + \<bar>b\<bar>) / 2)"
proof -
  have 1: "\<bar>roundToDouble (a + b) - (a + b)\<bar> \<le> ((1 + unitRoundoff) ^ 1 - 1) * (\<bar>a\<bar> + \<bar>b\<bar>)"
  proof -
    have "\<bar>roundToDouble (a + b) - (a + b)\<bar> \<le> unitRoundoff * \<bar>a + b\<bar>"
      by (rule roundToDouble_relative)
    also have "\<dots> \<le> unitRoundoff * (\<bar>a\<bar> + \<bar>b\<bar>)"
      using unitRoundoff_pos by (intro mult_left_mono) simp_all
    finally show ?thesis by simp
  qed
  have 2: "\<bar>a + b\<bar> \<le> \<bar>a\<bar> + \<bar>b\<bar>" by simp
  have "(1::real) / 2 \<ge> 0" by simp
  from rounded_product_error [OF 1 2 this]
  show ?thesis by (simp add: power2_eq_square)
qed

section \<open>Properties of the acceleration settings\<close>

declare nat_to_string.simps [simp del]

declare accelerationModelsLoop.simps [simp del]

lemma legAccelerationSettings_value:
  assumes "0 \<le> i" "i < int k" "k \<le> length order"
  shows "legAccelerationSettings (Val (real k)) c p order i =
    Inr (if i \<noteq> int k - 1 \<and> order ! nat i \<noteq> order ! nat (i + 1)
         then push_back_settings
                (push_back_settings
                   (push_back_settings emptyAccelerationSettingsMap p c central_gravity)
                   p (order ! nat i) point_mass_gravity)
                p (order ! nat (i + 1)) point_mass_gravity
         else push_back_settings
                (push_back_settings emptyAccelerationSettingsMap p c central_gravity)
                p (order ! nat i) point_mass_gravity)"
proof -
  have a: "vector_at order i = Inr (order ! nat i)"
    using assms by (simp add: vector_at_def)
  have b: "i \<noteq> int k - 1 \<Longrightarrow> vector_at order (i + 1) = Inr (order ! nat (i + 1))"
    using assms by (simp add: vector_at_def)
  have c: "dneq (int_to_double i) (dsub (Val (real k)) (Val 1)) \<longleftrightarrow> i \<noteq> int k - 1"
  proof -
    have "real_of_int i = real k - 1 \<longleftrightarrow> i = int k - 1"
      by linarith
    then show ?thesis by (simp add: int_to_double_def)
  qed
  show ?thesis
  proof (cases "i = int k - 1")
    case True
    then show ?thesis
      unfolding legAccelerationSettings_def Let_def a c by simp
  next
    case False
    then show ?thesis
      unfolding legAccelerationSettings_def Let_def a c using b by simp
  qed
qed

lemma push_back_settings_apply:
  "push_back_settings m a b s a' b' = (if a' = a \<and> b' = b then m a b @ [s] else m a' b')"
  by (simp add: push_back_settings_def)

lemma emptyAccelerationSettingsMap_apply: "emptyAccelerationSettingsMap a b = []"
  by (simp add: emptyAccelerationSettingsMap_def)

lemma leg_settings_closed_form:
  "(if P \<and> bi \<noteq> bn
    then push_back_settings
           (push_back_settings
              (push_back_settings emptyAccelerationSettingsMap p c central_gravity)
              p bi point_mass_gravity)
           p bn point_mass_gravity
    else push_back_settings
           (push_back_settings emptyAccelerationSettingsMap p c central_gravity)
           p bi point_mass_gravity) a b =
   (if a = p
    then (if b = c then [central_gravity] else []) @
         (if b = bi then [point_mass_gravity] else []) @
         (if P \<and> bi \<noteq> bn \<and> b = bn then [point_mass_gravity] else [])
    else [])"
  by (simp add: push_back_settings_apply emptyAccelerationSettingsMap_apply)

text \<open>
  What the settings of leg \<open>i\<close> of \<open>k\<close> legs hold (\<open>0 \<le> i < k\<close>, the sequence of
  bodies at least \<open>k\<close> long).
\<close>

lemma leg_settings_perturbers:
  assumes "0 \<le> i" "i < int k" "k \<le> length order"
  shows "\<exists>m. legAccelerationSettings (Val (real k)) c p order i = Inr m
     \<and> central_gravity \<in> set (m p c)
     \<and> point_mass_gravity \<in> set (m p (order ! nat i))
     \<and> (\<forall>b. b \<noteq> order ! nat i \<longrightarrow>
            (point_mass_gravity \<in> set (m p b) \<longleftrightarrow> i \<noteq> int k - 1 \<and> b = order ! nat (i + 1)))
     \<and> (\<forall>b. length (m p b) =
            (if b = c then 1 else 0) +
            (if b = order ! nat i \<or> (i \<noteq> int k - 1 \<and> b = order ! nat (i + 1)) then 1 else 0))
     \<and> (\<forall>a b. distinct (m a b))
     \<and> (\<forall>a b. a \<noteq> p \<longrightarrow> m a b = [])"
proof -
  define bi where "bi = order ! nat i"
  define bn where "bn = order ! nat (i + 1)"
  define P where "P \<longleftrightarrow> i \<noteq> int k - 1"
  define m where "m =
    (if P \<and> bi \<noteq> bn
     then push_back_settings
            (push_back_settings
               (push_back_settings emptyAccelerationSettingsMap p c central_gravity)
               p bi point_mass_gravity)
            p bn point_mass_gravity
     else push_back_settings
            (push_back_settings emptyAccelerationSettingsMap p c central_gravity)
            p bi point_mass_gravity)"
  have m: "\<And>a b. m a b =
     (if a = p
      then (if b = c then [central_gravity] else []) @
           (if b = bi then [point_mass_gravity] else []) @
           (if P \<and> bi \<noteq> bn \<and> b = bn then [point_mass_gravity] else [])
      else [])"
    unfolding m_def by (rule leg_settings_closed_form)
  have 1: "legAccelerationSettings (Val (real k)) c p order i = Inr m"
    unfolding m_def bi_def bn_def P_def legAccelerationSettings_value[OF assms] ..
  have 2: "central_gravity \<in> set (m p c)" by (simp add: m)
  have 3: "point_mass_gravity \<in> set (m p bi)" by (simp add: m)
  have 4: "\<forall>b. b \<noteq> bi \<longrightarrow> (point_mass_gravity \<in> set (m p b) \<longleftrightarrow> P \<and> b = bn)"
    by (auto simp add: m)
  have 5: "\<forall>b. length (m p b) =
     (if b = c then 1 else 0) + (if b = bi \<or> (P \<and> b = bn) then 1 else 0)"
    by (auto simp add: m)
  have 6: "\<forall>a b. distinct (m a b)" by (simp add: m)
  have 7: "\<forall>a b. a \<noteq> p \<longrightarrow> m a b = []" by (simp add: m)
  from 1 2 3 4 5 6 7 show ?thesis unfolding bi_def bn_def P_def by blast
qed

section \<open>Properties of the loop over the arcs\<close>

lemma forwardPropagation_Inr:
  assumes "forwardPropagation T bm path pairs arc h seed st = Inr st'"
  shows "\<exists>pr tEnd hF.
    vector_at pairs arc = Inr pr \<and> rbeginFirst h = Inr tEnd \<and>
    singleArcDynamicsSimulator T bm
       ((integratorSettings st)\<lparr>initialTime := dmul (currentArcMiddleTime st) (Val 86400),
          initialTimeStep := dfabs (initialTimeStep (integratorSettings st))\<rparr>)
       ((propagatorStore st (snd pr))\<lparr>initialStates := seed,
          terminationSettings := PropagationTimeTerminationSettings tEnd\<rparr>) = Inr hF \<and>
    st' = st\<lparr>integratorSettings :=
               (integratorSettings st)\<lparr>initialTime := dmul (currentArcMiddleTime st) (Val 86400),
                  initialTimeStep := dfabs (initialTimeStep (integratorSettings st))\<rparr>,
             propagatorStore := (propagatorStore st)
               (snd pr := (propagatorStore st (snd pr))\<lparr>initialStates := seed,
                  terminationSettings := PropagationTimeTerminationSettings tEnd\<rparr>),
             outputFiles := outputFiles st @
               [\<lparr>fileName = ''numericalResultForward'' @ to_string arc @ ''.dat'',
                 outputDirectory = path, fileData = hF\<rparr>]\<rparr>"
  using assms
  unfolding forwardPropagation_def Let_def resetInitialStates_def resetTerminationSettings_def
    writeDataMapToTextFile_def
  by (auto split: sum.splits)

lemma backwardPropagation_Inr:
  assumes "backwardPropagation T bm path pairs arc h seed st = Inr st'"
  shows "\<exists>pr tStart hB.
    vector_at pairs arc = Inr pr \<and> beginFirst h = Inr tStart \<and>
    singleArcDynamicsSimulator T bm
       ((integratorSettings st)\<lparr>initialTimeStep :=
           dmul (initialTimeStep (integratorSettings st)) (Val (- 1))\<rparr>)
       ((propagatorStore st (snd pr))\<lparr>initialStates := seed,
          terminationSettings := PropagationTimeTerminationSettings tStart\<rparr>) = Inr hB \<and>
    st' = st\<lparr>integratorSettings :=
               (integratorSettings st)\<lparr>initialTimeStep :=
                  dmul (initialTimeStep (integratorSettings st)) (Val (- 1))\<rparr>,
             propagatorStore := (propagatorStore st)
               (snd pr := (propagatorStore st (snd pr))\<lparr>initialStates := seed,
                  terminationSettings := PropagationTimeTerminationSettings tStart\<rparr>),
             outputFiles := outputFiles st @
               [\<lparr>fileName = ''numericalResultBackward'' @ to_string arc @ ''.dat'',
                 outputDirectory = path, fileData = hB\<rparr>]\<rparr>"
  using assms
  unfolding backwardPropagation_def Let_def resetInitialStates_def resetTerminationSettings_def
    writeDataMapToTextFile_def
  by (auto split: sum.splits)

lemma updateArcMiddleTime_Inr:
  assumes "updateArcMiddleTime params n arc st = Inr st'"
  shows "integratorSettings st' = integratorSettings st \<and>
         propagatorStore st' = propagatorStore st \<and> outputFiles st' = outputFiles st"
  using assms unfolding updateArcMiddleTime_def
  by (auto split: sum.splits if_splits)

lemma updateArcMiddleTime_middle:
  assumes "updateArcMiddleTime params n arc st = Inr st'"
  shows "currentArcMiddleTime st' =
    (if arc mod 2 ^ 64 < (int n - 1) mod 2 ^ 64
     then dadd (currentArcMiddleTime st)
            (ddiv (dadd (case vector_at params (arc + 1) of Inr a \<Rightarrow> a | Inl e \<Rightarrow> NaN)
                        (case vector_at params (arc + 2) of Inr b \<Rightarrow> b | Inl e \<Rightarrow> NaN)) (Val 2))
     else currentArcMiddleTime st)"
  using assms unfolding updateArcMiddleTime_def
  by (auto split: sum.splits if_splits)

lemma reconcileLeg_Inr:
  assumes "reconcileLeg T bm path params pairs n (arc, h) st = Inr st'"
  shows "\<exists>seed pr tEnd tStart hF hB.
    interpolate T (LagrangeInterpolatorSettings 8) h
      (dmul (currentArcMiddleTime st) (Val 86400)) = Inr seed \<and>
    vector_at pairs arc = Inr pr \<and> rbeginFirst h = Inr tEnd \<and> beginFirst h = Inr tStart \<and>
    singleArcDynamicsSimulator T bm
       ((integratorSettings st)\<lparr>initialTime := dmul (currentArcMiddleTime st) (Val 86400),
          initialTimeStep := dfabs (initialTimeStep (integratorSettings st))\<rparr>)
       ((propagatorStore st (snd pr))\<lparr>initialStates := seed,
          terminationSettings := PropagationTimeTerminationSettings tEnd\<rparr>) = Inr hF \<and>
    singleArcDynamicsSimulator T bm
       ((integratorSettings st)\<lparr>initialTime := dmul (currentArcMiddleTime st) (Val 86400),
          initialTimeStep := dmul (dfabs (initialTimeStep (integratorSettings st))) (Val (- 1))\<rparr>)
       ((propagatorStore st (snd pr))\<lparr>initialStates := seed,
          terminationSettings := PropagationTimeTerminationSettings tStart\<rparr>) = Inr hB \<and>
    integratorSettings st' =
       (integratorSettings st)\<lparr>initialTime := dmul (currentArcMiddleTime st) (Val 86400),
          initialTimeStep := dmul (dfabs (initialTimeStep (integratorSettings st))) (Val (- 1))\<rparr> \<and>
    propagatorStore st' = (propagatorStore st)
       (snd pr := (propagatorStore st (snd pr))\<lparr>initialStates := seed,
          terminationSettings := PropagationTimeTerminationSettings tStart\<rparr>) \<and>
    outputFiles st' = outputFiles st @
       [\<lparr>fileName = ''numericalResultForward'' @ to_string arc @ ''.dat'',
         outputDirectory = path, fileData = hF\<rparr>,
        \<lparr>fileName = ''numericalResultBackward'' @ to_string arc @ ''.dat'',
         outputDirectory = path, fileData = hB\<rparr>]"
proof -
  from assms obtain seed st1 st2 where
    seed: "interpolate T (LagrangeInterpolatorSettings 8) h
      (dmul (currentArcMiddleTime st) (Val 86400)) = Inr seed"
    and f: "forwardPropagation T bm path pairs arc h seed st = Inr st1"
    and b: "backwardPropagation T bm path pairs arc h seed st1 = Inr st2"
    and u: "updateArcMiddleTime params n arc st2 = Inr st'"
    unfolding reconcileLeg_def Let_def by (auto split: sum.splits)
  from forwardPropagation_Inr [OF f] obtain pr tEnd hF where
    pr: "vector_at pairs arc = Inr pr" and tEnd: "rbeginFirst h = Inr tEnd"
    and hF: "singleArcDynamicsSimulator T bm
       ((integratorSettings st)\<lparr>initialTime := dmul (currentArcMiddleTime st) (Val 86400),
          initialTimeStep := dfabs (initialTimeStep (integratorSettings st))\<rparr>)
       ((propagatorStore st (snd pr))\<lparr>initialStates := seed,
          terminationSettings := PropagationTimeTerminationSettings tEnd\<rparr>) = Inr hF"
    and st1: "st1 = st\<lparr>integratorSettings :=
               (integratorSettings st)\<lparr>initialTime := dmul (currentArcMiddleTime st) (Val 86400),
                  initialTimeStep := dfabs (initialTimeStep (integratorSettings st))\<rparr>,
             propagatorStore := (propagatorStore st)
               (snd pr := (propagatorStore st (snd pr))\<lparr>initialStates := seed,
                  terminationSettings := PropagationTimeTerminationSettings tEnd\<rparr>),
             outputFiles := outputFiles st @
               [\<lparr>fileName = ''numericalResultForward'' @ to_string arc @ ''.dat'',
                 outputDirectory = path, fileData = hF\<rparr>]\<rparr>"
    by blast
  from backwardPropagation_Inr [OF b] pr obtain tStart hB where
    tStart: "beginFirst h = Inr tStart"
    and hB: "singleArcDynamicsSimulator T bm
       ((integratorSettings st1)\<lparr>initialTimeStep :=
           dmul (initialTimeStep (integratorSettings st1)) (Val (- 1))\<rparr>)
       ((propagatorStore st1 (snd pr))\<lparr>initialStates := seed,
          terminationSettings := PropagationTimeTerminationSettings tStart\<rparr>) = Inr hB"
    and st2: "st2 = st1\<lparr>integratorSettings :=
               (integratorSettings st1)\<lparr>initialTimeStep :=
                  dmul (initialTimeStep (integratorSettings st1)) (Val (- 1))\<rparr>,
             propagatorStore := (propagatorStore st1)
               (snd pr := (propagatorStore st1 (snd pr))\<lparr>initialStates := seed,
                  terminationSettings := PropagationTimeTerminationSettings tStart\<rparr>),
             outputFiles := outputFiles st1 @
               [\<lparr>fileName = ''numericalResultBackward'' @ to_string arc @ ''.dat'',
                 outputDirectory = path, fileData = hB\<rparr>]\<rparr>"
    by auto
  note u' = updateArcMiddleTime_Inr [OF u]
  have hB': "singleArcDynamicsSimulator T bm
       ((integratorSettings st)\<lparr>initialTime := dmul (currentArcMiddleTime st) (Val 86400),
          initialTimeStep := dmul (dfabs (initialTimeStep (integratorSettings st))) (Val (- 1))\<rparr>)
       ((propagatorStore st (snd pr))\<lparr>initialStates := seed,
          terminationSettings := PropagationTimeTerminationSettings tStart\<rparr>) = Inr hB"
    using hB unfolding st1 by simp
  have i: "integratorSettings st' =
       (integratorSettings st)\<lparr>initialTime := dmul (currentArcMiddleTime st) (Val 86400),
          initialTimeStep := dmul (dfabs (initialTimeStep (integratorSettings st))) (Val (- 1))\<rparr>"
    using u' unfolding st2 st1 by simp
  have p: "propagatorStore st' = (propagatorStore st)
       (snd pr := (propagatorStore st (snd pr))\<lparr>initialStates := seed,
          terminationSettings := PropagationTimeTerminationSettings tStart\<rparr>)"
    using u' unfolding st2 st1 by simp
  have o: "outputFiles st' = outputFiles st @
       [\<lparr>fileName = ''numericalResultForward'' @ to_string arc @ ''.dat'',
         outputDirectory = path, fileData = hF\<rparr>,
        \<lparr>fileName = ''numericalResultBackward'' @ to_string arc @ ''.dat'',
         outputDirectory = path, fileData = hB\<rparr>]"
    using u' unfolding st2 st1 by simp
  from seed pr tEnd tStart hF hB' i p o show ?thesis by blast
qed

lemma reconcileLeg_middle:
  assumes "reconcileLeg T bm path params pairs n (arc, h) st = Inr st'"
  shows "currentArcMiddleTime st' =
    (if arc mod 2 ^ 64 < (int n - 1) mod 2 ^ 64
     then dadd (currentArcMiddleTime st)
            (ddiv (dadd (case vector_at params (arc + 1) of Inr a \<Rightarrow> a | Inl e \<Rightarrow> NaN)
                        (case vector_at params (arc + 2) of Inr b \<Rightarrow> b | Inl e \<Rightarrow> NaN)) (Val 2))
     else currentArcMiddleTime st)"
proof -
  from assms obtain seed st1 st2 where
    f: "forwardPropagation T bm path pairs arc h seed st = Inr st1"
    and b: "backwardPropagation T bm path pairs arc h seed st1 = Inr st2"
    and u: "updateArcMiddleTime params n arc st2 = Inr st'"
    unfolding reconcileLeg_def Let_def by (auto split: sum.splits)
  from forwardPropagation_Inr [OF f] have "currentArcMiddleTime st1 = currentArcMiddleTime st"
    by auto
  moreover from backwardPropagation_Inr [OF b]
  have "currentArcMiddleTime st2 = currentArcMiddleTime st1"
    by auto
  ultimately show ?thesis using updateArcMiddleTime_middle [OF u] by simp
qed

lemma reconcileLegs_append:
  "reconcileLegs T bm path params pairs n (xs @ ys) st =
     (case reconcileLegs T bm path params pairs n xs st of
        Inl ew \<Rightarrow> Inl ew
      | Inr st1 \<Rightarrow> reconcileLegs T bm path params pairs n ys st1)"
  by (induction xs arbitrary: st) (auto split: sum.splits)

lemma reconcileLegs_split:
  assumes "reconcileLegs T bm path params pairs n (pre @ leg # post) st0 = Inr stN"
  shows "\<exists>st st2. reconcileLegs T bm path params pairs n pre st0 = Inr st \<and>
           reconcileLeg T bm path params pairs n leg st = Inr st2 \<and>
           reconcileLegs T bm path params pairs n post st2 = Inr stN"
  using assms unfolding reconcileLegs_append
  by (auto split: sum.splits)

lemma negated_step:
  assumes "roundToDouble a = a"
  shows "dmul (dfabs (Val a)) (Val (- 1)) = Val (- \<bar>a\<bar>)"
  using roundToDouble_abs [OF assms] by (simp add: roundToDouble_minus)

lemma reconcileLegs_step_size:
  assumes "reconcileLegs T bm path params pairs n legs st = Inr st'"
    and "initialTimeStep (integratorSettings st) = Val a" and "roundToDouble a = a"
  shows "\<exists>b. initialTimeStep (integratorSettings st') = Val b \<and> \<bar>b\<bar> = \<bar>a\<bar> \<and>
           roundToDouble b = b"
  using assms
proof (induction legs arbitrary: st a)
  case Nil
  then show ?case by simp
next
  case (Cons leg legs)
  from Cons.prems(1) obtain st1 where 1: "reconcileLeg T bm path params pairs n leg st = Inr st1"
    and 2: "reconcileLegs T bm path params pairs n legs st1 = Inr st'"
    by (auto split: sum.splits)
  from 1 have "reconcileLeg T bm path params pairs n (fst leg, snd leg) st = Inr st1"
    by simp
  from reconcileLeg_Inr [OF this]
  have "initialTimeStep (integratorSettings st1) =
        dmul (dfabs (initialTimeStep (integratorSettings st))) (Val (- 1))"
    by auto
  then have 3: "initialTimeStep (integratorSettings st1) = Val (- \<bar>a\<bar>)"
    unfolding Cons.prems(2) negated_step [OF Cons.prems(3)] .
  have 4: "roundToDouble (- \<bar>a\<bar>) = - \<bar>a\<bar>"
    using roundToDouble_abs [OF Cons.prems(3)] by (simp add: roundToDouble_minus)
  from Cons.IH [OF 2 3 4] show ?case by simp
qed

lemma vector_at_snd:
  assumes "map snd pairs' = map snd pairs"
  shows "map_sum id snd (vector_at pairs' arc) = map_sum id snd (vector_at pairs arc)"
proof -
  from assms have len: "length pairs' = length pairs"
    by (metis length_map)
  show ?thesis
  proof (cases "0 \<le> arc \<and> arc < int (length pairs)")
    case True
    then have "nat arc < length pairs" by linarith
    with assms len have "snd (pairs' ! nat arc) = snd (pairs ! nat arc)"
      by (metis nth_map)
    with True len show ?thesis by (simp add: vector_at_def)
  next
    case False
    with len show ?thesis by (auto simp add: vector_at_def)
  qed
qed

lemma forwardPropagation_first_unused:
  assumes "map snd pairs' = map snd pairs"
  shows "forwardPropagation T bm path pairs' arc h seed st =
         forwardPropagation T bm path pairs arc h seed st"
  using vector_at_snd [OF assms, of arc]
  unfolding forwardPropagation_def Let_def
  by (cases "vector_at pairs' arc"; cases "vector_at pairs arc") (auto split: sum.splits)

lemma backwardPropagation_first_unused:
  assumes "map snd pairs' = map snd pairs"
  shows "backwardPropagation T bm path pairs' arc h seed st =
         backwardPropagation T bm path pairs arc h seed st"
  using vector_at_snd [OF assms, of arc]
  unfolding backwardPropagation_def Let_def
  by (cases "vector_at pairs' arc"; cases "vector_at pairs arc") (auto split: sum.splits)

lemma reconcileLeg_first_unused:
  assumes "map snd pairs' = map snd pairs"
  shows "reconcileLeg T bm path params pairs' n leg st =
         reconcileLeg T bm path params pairs n leg st"
  unfolding reconcileLeg_def
    forwardPropagation_first_unused [OF assms] backwardPropagation_first_unused [OF assms] ..

lemma vector_at_map_Val:
  "k < length ps \<Longrightarrow> vector_at (map Val ps) (int k) = Inr (Val (ps ! k))"
  by (simp add: vector_at_def)

lemma unsigned_less:
  assumes "Suc i < n" "n < 2 ^ 32"
  shows "int i mod 2 ^ 64 < (int n - 1) mod 2 ^ 64"
proof -
  from assms(2) have n: "int n < 4294967296" by simp
  have a: "int i mod 2 ^ 64 = int i"
    using assms(1) n by (intro mod_pos_pos_trivial) simp_all
  have b: "(int n - 1) mod 2 ^ 64 = int n - 1"
    using assms(1) n by (intro mod_pos_pos_trivial) simp_all
  show ?thesis unfolding a b using assms(1) by simp
qed

lemma reconcileLegs_snoc_Inr:
  assumes "reconcileLegs T bm path params pairs n (xs @ [x]) st0 = Inr st"
  shows "\<exists>st1. reconcileLegs T bm path params pairs n xs st0 = Inr st1 \<and>
           reconcileLeg T bm path params pairs n x st1 = Inr st"
proof -
  from reconcileLegs_split [OF assms] obtain st1 st2 where
    1: "reconcileLegs T bm path params pairs n xs st0 = Inr st1"
    and 2: "reconcileLeg T bm path params pairs n x st1 = Inr st2"
    and 3: "reconcileLegs T bm path params pairs n [] st2 = Inr st"
    by blast
  from 3 have "st2 = st" by simp
  with 1 2 show ?thesis by blast
qed

lemma keys_length:
  assumes "map fst legs = map int [0..<n]"
  shows "length legs = n"
proof -
  have "length (map fst legs) = length (map int [0..<n])"
    using assms by simp
  then show ?thesis by simp
qed

lemma keys_nth:
  assumes "map fst legs = map int [0..<n]" "i < n"
  shows "legs ! i = (int i, snd (legs ! i))"
proof -
  have "map fst legs ! i = map int [0..<n] ! i"
    using assms(1) by simp
  with assms(2) keys_length [OF assms(1)] have "fst (legs ! i) = int i"
    by simp
  then show ?thesis by (simp add: prod_eq_iff)
qed

lemma reconcileLegs_prefix:
  assumes "reconcileLegs T bm path params pairs n legs st0 = Inr stN"
  shows "\<exists>st. reconcileLegs T bm path params pairs n (take k legs) st0 = Inr st"
proof -
  from assms
  have "reconcileLegs T bm path params pairs n (take k legs @ drop k legs) st0 = Inr stN"
    by simp
  then show ?thesis
    unfolding reconcileLegs_append by (auto split: sum.splits)
qed

text \<open>
  The middle time after the arcs before arc \<open>i\<close>: the running sum of the program,
  every operation rounded, and its distance from the sum of the start epoch, the
  durations before and half the duration of the arc.
\<close>

lemma middle_step:
  assumes leg: "reconcileLeg T bm path (map Val ps) pairs n (int i, h) st1 = Inr st"
    and "Suc i < n" "n < 2 ^ 32" "Suc (Suc i) < length ps"
    and mid: "currentArcMiddleTime st1 = Val m"
  shows "currentArcMiddleTime st =
    Val (roundToDouble
          (m + roundToDouble (roundToDouble (ps ! Suc i + ps ! Suc (Suc i)) / 2)))"
proof -
  have 1: "vector_at (map Val ps) (int i + 1) = Inr (Val (ps ! Suc i))"
    using vector_at_map_Val [of "Suc i" ps] assms(4) by (simp add: add.commute)
  have 2: "vector_at (map Val ps) (int i + 2) = Inr (Val (ps ! Suc (Suc i)))"
    using vector_at_map_Val [of "Suc (Suc i)" ps] assms(4) by (simp add: add.commute)
  show ?thesis
    unfolding reconcileLeg_middle [OF leg] 1 2 mid
    using unsigned_less [OF assms(2,3)] by simp
qed

lemma middle_after_prefix:
  assumes "reconcileLegs T bm path (map Val ps) pairs n (take i legs) st0 = Inr st"
    and "map fst legs = map int [0..<n]" and "i < n" and "n < 2 ^ 32"
    and "Suc i < length ps"
    and "currentArcMiddleTime st0 = dadd (Val (ps ! 0)) (ddiv (Val (ps ! 1)) (Val 2))"
  shows "\<exists>m. currentArcMiddleTime st = Val m \<and>
    \<bar>m - (ps ! 0 + (\<Sum>j<i. ps ! Suc j) + ps ! Suc i / 2)\<bar> \<le>
      ((1 + unitRoundoff) ^ (i + 2) - 1) *
      (\<bar>ps ! 0\<bar> + (\<Sum>j<i. \<bar>ps ! Suc j\<bar>) + \<bar>ps ! Suc i\<bar> / 2)"
  using assms(1,3,5)
proof (induction i arbitrary: st)
  case 0
  have a: "\<bar>ps ! 0 - ps ! 0\<bar> \<le> ((1 + unitRoundoff) ^ 1 - 1) * \<bar>ps ! 0\<bar>"
    using unitRoundoff_pos by simp
  have b: "\<bar>ps ! 0\<bar> \<le> \<bar>ps ! 0\<bar>" by simp
  have c: "\<bar>ps ! 1 / 2\<bar> \<le> \<bar>ps ! 1\<bar> / 2" by simp
  from rounded_sum_error [OF a b rounded_half_error c order_refl]
  have "\<bar>roundToDouble (ps ! 0 + roundToDouble (ps ! 1 / 2)) - (ps ! 0 + ps ! 1 / 2)\<bar> \<le>
      ((1 + unitRoundoff) ^ 2 - 1) * (\<bar>ps ! 0\<bar> + \<bar>ps ! 1\<bar> / 2)"
    by (simp add: numeral_2_eq_2)
  moreover from 0 assms(6)
  have "currentArcMiddleTime st = Val (roundToDouble (ps ! 0 + roundToDouble (ps ! 1 / 2)))"
    by simp
  ultimately show ?case by (simp add: power2_eq_square)
next
  case (Suc i)
  from Suc.prems(2) keys_length [OF assms(2)] have "i < length legs" by simp
  then have "take (Suc i) legs = take i legs @ [legs ! i]"
    by (rule take_Suc_conv_app_nth)
  with Suc.prems(1)
  have "reconcileLegs T bm path (map Val ps) pairs n (take i legs @ [legs ! i]) st0 = Inr st"
    by simp
  from reconcileLegs_snoc_Inr [OF this] obtain st1 where
    pre: "reconcileLegs T bm path (map Val ps) pairs n (take i legs) st0 = Inr st1"
    and leg: "reconcileLeg T bm path (map Val ps) pairs n (legs ! i) st1 = Inr st"
    by blast
  from Suc.prems have i: "i < n" and len: "Suc i < length ps" by simp_all
  define M where "M = ps ! 0 + (\<Sum>j<i. ps ! Suc j) + ps ! Suc i / 2"
  define B where "B = \<bar>ps ! 0\<bar> + (\<Sum>j<i. \<bar>ps ! Suc j\<bar>) + \<bar>ps ! Suc i\<bar> / 2"
  define a where "a = ps ! Suc i"
  define b where "b = ps ! Suc (Suc i)"
  from Suc.IH [OF pre i len] obtain m where
    m: "currentArcMiddleTime st1 = Val m"
    and IH: "\<bar>m - M\<bar> \<le> ((1 + unitRoundoff) ^ (i + 2) - 1) * B"
    unfolding M_def B_def by blast
  from leg keys_nth [OF assms(2) i]
  have "reconcileLeg T bm path (map Val ps) pairs n (int i, snd (legs ! i)) st1 = Inr st"
    by simp
  from middle_step [OF this Suc.prems(2) assms(4) Suc.prems(3) m]
  have st: "currentArcMiddleTime st =
      Val (roundToDouble (m + roundToDouble (roundToDouble (a + b) / 2)))"
    unfolding a_def b_def .
  have "\<bar>\<Sum>j<i. ps ! Suc j\<bar> \<le> (\<Sum>j<i. \<bar>ps ! Suc j\<bar>)"
    by (rule sum_abs)
  then have MB: "\<bar>M\<bar> \<le> B" unfolding M_def B_def by linarith
  have H: "\<bar>(a + b) / 2\<bar> \<le> (\<bar>a\<bar> + \<bar>b\<bar>) / 2" by simp
  have jk: "2 \<le> i + 2" by simp
  from rounded_sum_error [OF IH MB rounded_half_sum_error H jk]
  have bound: "\<bar>roundToDouble (m + roundToDouble (roundToDouble (a + b) / 2)) -
       (M + (a + b) / 2)\<bar> \<le>
      ((1 + unitRoundoff) ^ Suc (i + 2) - 1) * (B + (\<bar>a\<bar> + \<bar>b\<bar>) / 2)" .
  have M': "M + (a + b) / 2 = ps ! 0 + (\<Sum>j<Suc i. ps ! Suc j) + ps ! Suc (Suc i) / 2"
    unfolding M_def a_def b_def by (simp add: field_simps)
  have B': "B + (\<bar>a\<bar> + \<bar>b\<bar>) / 2 =
      \<bar>ps ! 0\<bar> + (\<Sum>j<Suc i. \<bar>ps ! Suc j\<bar>) + \<bar>ps ! Suc (Suc i)\<bar> / 2"
    unfolding B_def a_def b_def by (simp add: field_simps)
  have e: "Suc (i + 2) = Suc i + 2" by simp
  from bound show ?case
    unfolding st M' B' e by blast
qed

lemma forwardPropagation_Inl:
  assumes "forwardPropagation T bm path pairs arc h seed st = Inl ew"
  shows "snd ew = outputFiles st"
  using assms unfolding forwardPropagation_def Let_def
  by (auto split: sum.splits)

lemma backwardPropagation_Inl:
  assumes "backwardPropagation T bm path pairs arc h seed st = Inl ew"
  shows "snd ew = outputFiles st"
  using assms unfolding backwardPropagation_def Let_def
  by (auto split: sum.splits)

lemma updateArcMiddleTime_Inl:
  assumes "updateArcMiddleTime params n arc st = Inl ew"
  shows "snd ew = outputFiles st"
  using assms unfolding updateArcMiddleTime_def
  by (auto split: sum.splits if_splits)

lemma reconcileLeg_Inl:
  assumes "reconcileLeg T bm path params pairs n leg st = Inl ew"
  shows "\<exists>fs. snd ew = outputFiles st @ fs \<and> length fs \<le> 2"
proof (cases "interpolate T (LagrangeInterpolatorSettings 8) (snd leg)
      (dmul (currentArcMiddleTime st) (Val 86400))")
  case (Inl e)
  with assms have "snd ew = outputFiles st"
    unfolding reconcileLeg_def Let_def by auto
  then show ?thesis by simp
next
  case (Inr seed)
  note seed = this
  show ?thesis
  proof (cases "forwardPropagation T bm path pairs (fst leg) (snd leg) seed st")
    case (Inl ew')
    with assms seed have "ew' = ew"
      unfolding reconcileLeg_def Let_def by simp
    with forwardPropagation_Inl [OF Inl] show ?thesis by simp
  next
    case (Inr st1)
    note f = this
    from forwardPropagation_Inr [OF f] have f': "\<exists>x. outputFiles st1 = outputFiles st @ [x]"
      by auto
    show ?thesis
    proof (cases "backwardPropagation T bm path pairs (fst leg) (snd leg) seed st1")
      case (Inl ew')
      with assms seed f have "ew' = ew"
        unfolding reconcileLeg_def Let_def by simp
      with backwardPropagation_Inl [OF Inl] f' show ?thesis by auto
    next
      case (Inr st2)
      from backwardPropagation_Inr [OF Inr]
      have b': "\<exists>y. outputFiles st2 = outputFiles st1 @ [y]"
        by auto
      from assms seed f Inr have "updateArcMiddleTime params n (fst leg) st2 = Inl ew"
        unfolding reconcileLeg_def Let_def by simp
      from updateArcMiddleTime_Inl [OF this] f' b' show ?thesis by auto
    qed
  qed
qed

section \<open>Evaluation of the instance\<close>

lemmas example_defs = exampleTudat_def exampleInterpolate_def exampleSimulator_def exampleSettings_def
  exampleStore_def
  exampleFullProblemResult_def exampleParameters_def examplePropagatorSettings_def exampleState_def
  initialIntegratorSettings_def TUDAT_NAN_def

lemmas loop_defs = reconcileLeg_def forwardPropagation_def backwardPropagation_def
  updateArcMiddleTime_def vector_at_def rbeginFirst_def beginFirst_def resetInitialStates_def
  resetTerminationSettings_def writeDataMapToTextFile_def to_string_def nat_to_string.simps Let_def

section \<open>The claims about the loop over the arcs\<close>

text \<open>
  C2, as the program has it. Take any arc \<open>(arc, h)\<close> of a loop that runs to its end,
  started with a time step \<open>s\<close> that is a double other than zero, and let \<open>st\<close> be
  the state when the arc's turn comes. The seed is the interpolation of \<open>h\<close> at the
  arc's middle time. The forward simulation gets the integrator settings with that middle
  time (in seconds) as initial time and the positive time step \<open>\<bar>s\<bar>\<close>, and the arc's
  propagator settings with the seed as initial state and, as final time, the last epoch
  of \<open>h\<close>, the history that the library's propagation of the full problem returned for
  the arc; the backward simulation gets the same initial time, the negated time step
  \<open>- \<bar>s\<bar>\<close>, the same seed as initial state and the first epoch of \<open>h\<close> as final
  time. Both settings are updates of the one object \<open>propagatorStore st (snd pr)\<close> in
  its initial state and final time only, so the acceleration model is the same. Their
  solutions are the two files written for the arc; when the simulator puts the initial
  sample into its solution, the one sample (middle time, seed) is in both.
\<close>

theorem forward_and_backward_runs:
  assumes run: "reconcileLegs T bm path params pairs n (pre @ (arc, h) # post) st0 = Inr stN"
    and step: "initialTimeStep (integratorSettings st0) = Val s" "s \<noteq> 0" "roundToDouble s = s"
  shows "\<exists>st st' seed pr tEnd tStart hF hB.
    reconcileLegs T bm path params pairs n pre st0 = Inr st \<and>
    reconcileLeg T bm path params pairs n (arc, h) st = Inr st' \<and>
    interpolate T (LagrangeInterpolatorSettings 8) h
      (dmul (currentArcMiddleTime st) (Val 86400)) = Inr seed \<and>
    vector_at pairs arc = Inr pr \<and> rbeginFirst h = Inr tEnd \<and> beginFirst h = Inr tStart \<and>
    singleArcDynamicsSimulator T bm
       ((integratorSettings st)\<lparr>initialTime := dmul (currentArcMiddleTime st) (Val 86400),
          initialTimeStep := Val \<bar>s\<bar>\<rparr>)
       ((propagatorStore st (snd pr))\<lparr>initialStates := seed,
          terminationSettings := PropagationTimeTerminationSettings tEnd\<rparr>) = Inr hF \<and>
    singleArcDynamicsSimulator T bm
       ((integratorSettings st)\<lparr>initialTime := dmul (currentArcMiddleTime st) (Val 86400),
          initialTimeStep := Val (- \<bar>s\<bar>)\<rparr>)
       ((propagatorStore st (snd pr))\<lparr>initialStates := seed,
          terminationSettings := PropagationTimeTerminationSettings tStart\<rparr>) = Inr hB \<and>
    0 < \<bar>s\<bar> \<and>
    outputFiles st' = outputFiles st @
       [\<lparr>fileName = ''numericalResultForward'' @ to_string arc @ ''.dat'',
         outputDirectory = path, fileData = hF\<rparr>,
        \<lparr>fileName = ''numericalResultBackward'' @ to_string arc @ ''.dat'',
         outputDirectory = path, fileData = hB\<rparr>] \<and>
    ((\<forall>i p solution. singleArcDynamicsSimulator T bm i p = Inr solution \<longrightarrow>
         (initialTime i, initialStates p) \<in> set solution) \<longrightarrow>
     (dmul (currentArcMiddleTime st) (Val 86400), seed) \<in> set hF \<and>
     (dmul (currentArcMiddleTime st) (Val 86400), seed) \<in> set hB)"
proof -
  from reconcileLegs_split [OF run] obtain st st' where
    pre: "reconcileLegs T bm path params pairs n pre st0 = Inr st"
    and leg: "reconcileLeg T bm path params pairs n (arc, h) st = Inr st'"
    by blast
  from reconcileLegs_step_size [OF pre step(1,3)] obtain b where
    b: "initialTimeStep (integratorSettings st) = Val b" and size: "\<bar>b\<bar> = \<bar>s\<bar>"
    and double: "roundToDouble b = b"
    by blast
  have pos_step: "dfabs (initialTimeStep (integratorSettings st)) = Val \<bar>s\<bar>"
    unfolding b using size by simp
  have neg_step: "dmul (Val \<bar>s\<bar>) (Val (- 1)) = Val (- \<bar>s\<bar>)"
    using negated_step [OF double] size by simp
  have pos: "0 < \<bar>s\<bar>"
    using step(2) by simp
  from reconcileLeg_Inr [OF leg, unfolded pos_step neg_step] obtain seed pr tEnd tStart hF hB where
    seed: "interpolate T (LagrangeInterpolatorSettings 8) h
      (dmul (currentArcMiddleTime st) (Val 86400)) = Inr seed"
    and pr: "vector_at pairs arc = Inr pr"
    and tEnd: "rbeginFirst h = Inr tEnd" and tStart: "beginFirst h = Inr tStart"
    and hF: "singleArcDynamicsSimulator T bm
       ((integratorSettings st)\<lparr>initialTime := dmul (currentArcMiddleTime st) (Val 86400),
          initialTimeStep := Val \<bar>s\<bar>\<rparr>)
       ((propagatorStore st (snd pr))\<lparr>initialStates := seed,
          terminationSettings := PropagationTimeTerminationSettings tEnd\<rparr>) = Inr hF"
    and hB: "singleArcDynamicsSimulator T bm
       ((integratorSettings st)\<lparr>initialTime := dmul (currentArcMiddleTime st) (Val 86400),
          initialTimeStep := Val (- \<bar>s\<bar>)\<rparr>)
       ((propagatorStore st (snd pr))\<lparr>initialStates := seed,
          terminationSettings := PropagationTimeTerminationSettings tStart\<rparr>) = Inr hB"
    and out: "outputFiles st' = outputFiles st @
       [\<lparr>fileName = ''numericalResultForward'' @ to_string arc @ ''.dat'',
         outputDirectory = path, fileData = hF\<rparr>,
        \<lparr>fileName = ''numericalResultBackward'' @ to_string arc @ ''.dat'',
         outputDirectory = path, fileData = hB\<rparr>]"
    by blast
  have sample: "(\<forall>i p solution. singleArcDynamicsSimulator T bm i p = Inr solution \<longrightarrow>
         (initialTime i, initialStates p) \<in> set solution) \<longrightarrow>
     (dmul (currentArcMiddleTime st) (Val 86400), seed) \<in> set hF \<and>
     (dmul (currentArcMiddleTime st) (Val 86400), seed) \<in> set hB"
  proof
    assume records: "\<forall>i p solution. singleArcDynamicsSimulator T bm i p = Inr solution \<longrightarrow>
         (initialTime i, initialStates p) \<in> set solution"
    from records [rule_format, OF hF]
    have 1: "(dmul (currentArcMiddleTime st) (Val 86400), seed) \<in> set hF" by simp
    from records [rule_format, OF hB]
    have 2: "(dmul (currentArcMiddleTime st) (Val 86400), seed) \<in> set hB" by simp
    from 1 2 show "(dmul (currentArcMiddleTime st) (Val 86400), seed) \<in> set hF \<and>
     (dmul (currentArcMiddleTime st) (Val 86400), seed) \<in> set hB" ..
  qed
  show ?thesis
    by (intro exI conjI)
      (rule pre, rule leg, rule seed, rule pr, rule tEnd, rule tStart, rule hF, rule hB,
       rule pos, rule out, rule sample)
qed

theorem forward_and_backward_runs_witness:
  "\<exists>stN st st' hF hB.
    reconcileLegs exampleTudat () ''out/'' exampleParameters examplePropagatorSettings 2
      ([(0, [(Val 0, [Val 7]), (Val 172800, [Val 8])])] @
       (1, [(Val 172800, [Val 8]), (Val 518400, [Val 9])]) # []) exampleState = Inr stN \<and>
    initialTimeStep (integratorSettings exampleState) = Val 1000 \<and>
    reconcileLegs exampleTudat () ''out/'' exampleParameters examplePropagatorSettings 2
      [(0, [(Val 0, [Val 7]), (Val 172800, [Val 8])])] exampleState = Inr st \<and>
    reconcileLeg exampleTudat () ''out/'' exampleParameters examplePropagatorSettings 2
      (1, [(Val 172800, [Val 8]), (Val 518400, [Val 9])]) st = Inr st' \<and>
    outputFiles st' = outputFiles st @
       [\<lparr>fileName = ''numericalResultForward'' @ to_string 1 @ ''.dat'',
         outputDirectory = ''out/'', fileData = hF\<rparr>,
        \<lparr>fileName = ''numericalResultBackward'' @ to_string 1 @ ''.dat'',
         outputDirectory = ''out/'', fileData = hB\<rparr>] \<and>
    (Val 345600, [Val 8]) \<in> set hF \<and> (Val 345600, [Val 8]) \<in> set hB"
proof -
  obtain stN where run:
    "reconcileLegs exampleTudat () ''out/'' exampleParameters examplePropagatorSettings 2
      ([(0, [(Val 0, [Val 7]), (Val 172800, [Val 8])])] @
       (1, [(Val 172800, [Val 8]), (Val 518400, [Val 9])]) # []) exampleState = Inr stN"
    by (simp add: example_defs loop_defs)
  have step: "initialTimeStep (integratorSettings exampleState) = Val 1000" "(1000::real) \<noteq> 0"
    "roundToDouble 1000 = 1000"
    by (simp_all add: exampleState_def initialIntegratorSettings_def)
  have records: "\<forall>i p solution. singleArcDynamicsSimulator exampleTudat () i p = Inr solution \<longrightarrow>
      (initialTime i, initialStates p) \<in> set solution"
    by (auto simp add: exampleTudat_def exampleSimulator_def split: TerminationSettings.splits)
  from forward_and_backward_runs [OF run step] obtain st st' seed hF hB where
    pre: "reconcileLegs exampleTudat () ''out/'' exampleParameters examplePropagatorSettings 2
      [(0, [(Val 0, [Val 7]), (Val 172800, [Val 8])])] exampleState = Inr st"
    and leg: "reconcileLeg exampleTudat () ''out/'' exampleParameters examplePropagatorSettings 2
      (1, [(Val 172800, [Val 8]), (Val 518400, [Val 9])]) st = Inr st'"
    and seed: "interpolate exampleTudat (LagrangeInterpolatorSettings 8)
      [(Val 172800, [Val 8]), (Val 518400, [Val 9])]
      (dmul (currentArcMiddleTime st) (Val 86400)) = Inr seed"
    and out: "outputFiles st' = outputFiles st @
       [\<lparr>fileName = ''numericalResultForward'' @ to_string 1 @ ''.dat'',
         outputDirectory = ''out/'', fileData = hF\<rparr>,
        \<lparr>fileName = ''numericalResultBackward'' @ to_string 1 @ ''.dat'',
         outputDirectory = ''out/'', fileData = hB\<rparr>]"
    and sample: "(\<forall>i p solution. singleArcDynamicsSimulator exampleTudat () i p = Inr solution \<longrightarrow>
         (initialTime i, initialStates p) \<in> set solution) \<longrightarrow>
     (dmul (currentArcMiddleTime st) (Val 86400), seed) \<in> set hF \<and>
     (dmul (currentArcMiddleTime st) (Val 86400), seed) \<in> set hB"
    by blast
  from pre have mid: "currentArcMiddleTime st = Val 4"
    by (auto simp add: example_defs loop_defs)
  from seed have s: "seed = [Val 8]"
    unfolding mid by (simp add: exampleTudat_def exampleInterpolate_def)
  from sample records
  have both: "(Val 345600, [Val 8]) \<in> set hF \<and> (Val 345600, [Val 8]) \<in> set hB"
    unfolding mid s by simp
  show ?thesis
    by (intro exI conjI)
      (rule run, rule step(1), rule pre, rule leg, rule out, rule conjunct1 [OF both],
       rule conjunct2 [OF both])
qed

text \<open>
  The claim as stated fails: the final times are not the end and the start epoch of the
  arc. For an arc from the epoch \<open>0\<close> to the epoch \<open>172800\<close> (the first two
  independent variables of the trajectory, and the span of the analytic history) whose
  numerical history spans the epochs \<open>10000\<close> to \<open>100000\<close> only, as when the
  library's propagation ends on a sphere of influence, the forward simulation from the
  middle epoch \<open>86400\<close> ends at \<open>100000\<close> and the backward one at \<open>10000\<close>.
\<close>

theorem final_times_of_the_history_counterexample:
  "take 2 (trajectoryIndependentVariables exampleParameters) = [Val 0, Val 172800] \<and>
   map_sum id (\<lambda>written. map fileData (take 2 written))
     (propagateFromArcMiddles exampleTudat () ''out/'' exampleParameters
        examplePropagatorSettings exampleStore
        [(0, [(Val 0, [Val 1]), (Val 172800, [Val 2])])]
        [(0, [(Val 10000, [Val 7]), (Val 100000, [Val 8])])] [] []) =
     Inr [[(Val 86400, [Val 7]), (Val 100000, [Val 1000])],
          [(Val 10000, [Val (- 1000)]), (Val 86400, [Val 7])]]"
  by (simp add: propagateFromArcMiddles_def trajectoryIndependentVariables_def JULIAN_DAY_def
      example_defs loop_defs)

text \<open>
  C10. In one pass of the loop that succeeds, the forward and the backward settings are
  the one object \<open>propagatorSettings.at( arc ).second\<close>. The backward simulation gets
  what the forward one got with the initial state and the final time reset on that
  object and the time step of the one integrator settings object multiplied by
  \<open>-1\<close>: after the pass that object holds the backward run's final time, no other
  object of the store has changed (the object \<open>.first\<close> only if it is the same
  object), and the integrator settings are the forward ones with the time step negated.
  The elements \<open>.first\<close> are never read: with any others in their place the pass does
  the same.
\<close>

theorem one_settings_object_for_both_runs:
  assumes "reconcileLeg T bm path params pairs n (arc, h) st = Inr st'"
  shows "\<exists>pr seed tEnd tStart forwardIntegrator forwardSettings hF hB.
    vector_at pairs arc = Inr pr \<and>
    forwardIntegrator =
      (integratorSettings st)\<lparr>initialTime := dmul (currentArcMiddleTime st) (Val 86400),
         initialTimeStep := dfabs (initialTimeStep (integratorSettings st))\<rparr> \<and>
    forwardSettings =
      (propagatorStore st (snd pr))\<lparr>initialStates := seed,
         terminationSettings := PropagationTimeTerminationSettings tEnd\<rparr> \<and>
    rbeginFirst h = Inr tEnd \<and> beginFirst h = Inr tStart \<and>
    singleArcDynamicsSimulator T bm forwardIntegrator forwardSettings = Inr hF \<and>
    singleArcDynamicsSimulator T bm
      (forwardIntegrator\<lparr>initialTimeStep := dmul (initialTimeStep forwardIntegrator) (Val (- 1))\<rparr>)
      (forwardSettings\<lparr>initialStates := seed,
         terminationSettings := PropagationTimeTerminationSettings tStart\<rparr>) = Inr hB \<and>
    integratorSettings st' =
      forwardIntegrator\<lparr>initialTimeStep := dmul (initialTimeStep forwardIntegrator) (Val (- 1))\<rparr> \<and>
    propagatorStore st' = (propagatorStore st)
      (snd pr := forwardSettings\<lparr>initialStates := seed,
         terminationSettings := PropagationTimeTerminationSettings tStart\<rparr>) \<and>
    propagatorStore st' (fst pr) =
      (if fst pr = snd pr
       then forwardSettings\<lparr>terminationSettings := PropagationTimeTerminationSettings tStart\<rparr>
       else propagatorStore st (fst pr)) \<and>
    reconcileLeg T bm path params (map (\<lambda>q. (other q, snd q)) pairs) n (arc, h) st = Inr st'"
proof -
  have "map snd (map (\<lambda>q. (other q, snd q)) pairs) = map snd pairs"
    by simp
  from reconcileLeg_first_unused [OF this]
  have "reconcileLeg T bm path params (map (\<lambda>q. (other q, snd q)) pairs) n (arc, h) st =
        reconcileLeg T bm path params pairs n (arc, h) st" .
  with assms have unused:
    "reconcileLeg T bm path params (map (\<lambda>q. (other q, snd q)) pairs) n (arc, h) st = Inr st'"
    by simp
  from reconcileLeg_Inr [OF assms] obtain seed pr tEnd tStart hF hB where
    pr: "vector_at pairs arc = Inr pr"
    and tEnd: "rbeginFirst h = Inr tEnd" and tStart: "beginFirst h = Inr tStart"
    and hF: "singleArcDynamicsSimulator T bm
       ((integratorSettings st)\<lparr>initialTime := dmul (currentArcMiddleTime st) (Val 86400),
          initialTimeStep := dfabs (initialTimeStep (integratorSettings st))\<rparr>)
       ((propagatorStore st (snd pr))\<lparr>initialStates := seed,
          terminationSettings := PropagationTimeTerminationSettings tEnd\<rparr>) = Inr hF"
    and hB: "singleArcDynamicsSimulator T bm
       ((integratorSettings st)\<lparr>initialTime := dmul (currentArcMiddleTime st) (Val 86400),
          initialTimeStep := dmul (dfabs (initialTimeStep (integratorSettings st))) (Val (- 1))\<rparr>)
       ((propagatorStore st (snd pr))\<lparr>initialStates := seed,
          terminationSettings := PropagationTimeTerminationSettings tStart\<rparr>) = Inr hB"
    and i: "integratorSettings st' =
       (integratorSettings st)\<lparr>initialTime := dmul (currentArcMiddleTime st) (Val 86400),
          initialTimeStep := dmul (dfabs (initialTimeStep (integratorSettings st))) (Val (- 1))\<rparr>"
    and p: "propagatorStore st' = (propagatorStore st)
       (snd pr := (propagatorStore st (snd pr))\<lparr>initialStates := seed,
          terminationSettings := PropagationTimeTerminationSettings tStart\<rparr>)"
    by blast
  define fi where "fi =
      (integratorSettings st)\<lparr>initialTime := dmul (currentArcMiddleTime st) (Val 86400),
         initialTimeStep := dfabs (initialTimeStep (integratorSettings st))\<rparr>"
  define fs where "fs =
      (propagatorStore st (snd pr))\<lparr>initialStates := seed,
         terminationSettings := PropagationTimeTerminationSettings tEnd\<rparr>"
  have 1: "singleArcDynamicsSimulator T bm fi fs = Inr hF"
    unfolding fi_def fs_def by (rule hF)
  have 2: "singleArcDynamicsSimulator T bm
      (fi\<lparr>initialTimeStep := dmul (initialTimeStep fi) (Val (- 1))\<rparr>)
      (fs\<lparr>initialStates := seed,
         terminationSettings := PropagationTimeTerminationSettings tStart\<rparr>) = Inr hB"
    unfolding fi_def fs_def using hB by simp
  have 3: "integratorSettings st' =
      fi\<lparr>initialTimeStep := dmul (initialTimeStep fi) (Val (- 1))\<rparr>"
    unfolding fi_def using i by simp
  have 4: "propagatorStore st' = (propagatorStore st)
      (snd pr := fs\<lparr>initialStates := seed,
         terminationSettings := PropagationTimeTerminationSettings tStart\<rparr>)"
    unfolding fs_def using p by simp
  have 5: "propagatorStore st' (fst pr) =
      (if fst pr = snd pr
       then fs\<lparr>terminationSettings := PropagationTimeTerminationSettings tStart\<rparr>
       else propagatorStore st (fst pr))"
    unfolding 4 fs_def by simp
  show ?thesis
    by (intro exI conjI)
      (rule pr, rule fi_def, rule fs_def, rule tEnd, rule tStart, rule 1, rule 2, rule 3,
       rule 4, rule 5, rule unused)
qed

theorem one_settings_object_for_both_runs_witness:
  "\<exists>st' pr.
    reconcileLeg exampleTudat () ''out/'' exampleParameters examplePropagatorSettings 2
      (0, [(Val 0, [Val 7]), (Val 172800, [Val 8])]) exampleState = Inr st' \<and>
    vector_at examplePropagatorSettings 0 = Inr pr \<and>
    reconcileLeg exampleTudat () ''out/'' exampleParameters
      (map (\<lambda>q. (5, snd q)) examplePropagatorSettings) 2
      (0, [(Val 0, [Val 7]), (Val 172800, [Val 8])]) exampleState = Inr st'"
proof -
  obtain st' where run:
    "reconcileLeg exampleTudat () ''out/'' exampleParameters examplePropagatorSettings 2
      (0, [(Val 0, [Val 7]), (Val 172800, [Val 8])]) exampleState = Inr st'"
    by (simp add: example_defs loop_defs)
  from one_settings_object_for_both_runs [OF run, of "\<lambda>q. 5"] obtain pr where
    pr: "vector_at examplePropagatorSettings 0 = Inr pr"
    and other: "reconcileLeg exampleTudat () ''out/'' exampleParameters
      (map (\<lambda>q. (5, snd q)) examplePropagatorSettings) 2
      (0, [(Val 0, [Val 7]), (Val 172800, [Val 8])]) exampleState = Inr st'"
    by blast
  show ?thesis
    by (intro exI conjI) (rule run, rule pr, rule other)
qed

text \<open>
  C7, as the program has it. Let the keys of the map of arcs be \<open>0, ..., n - 1\<close> and
  the parameters be the numbers \<open>ps\<close> (the start epoch, then the durations of the arcs,
  in days). In a run of the last part of \<open>main\<close> that succeeds, let \<open>st\<close> be the
  state when the turn of arc \<open>i\<close> comes. The seed of the arc, which the pass leaves as
  the initial state of the arc's settings object, is interpolated at the epoch
  \<open>currentArcMiddleTime * 86400\<close>, which the pass leaves as the initial time of the
  integrator settings. The middle time is the running sum of the program, every sum,
  half and product rounded to a double; the epoch differs from \<open>86400\<close> times the mean
  of the arc's start epoch (the start epoch of the transfer plus the durations of the
  arcs before) and end epoch by the rounding errors of these operations at most:
  \<open>(1 + 2\<^sup>-\<^sup>5\<^sup>3)\<^sup>i\<^sup>+\<^sup>3 - 1\<close> times the sum of the magnitudes, in seconds.
\<close>

theorem middle_of_every_arc:
  assumes run: "propagateFromArcMiddles T bm path (map Val ps) pairs store
                  lambertTargeterResultForEachLeg legs dependentVariableResultForEachLeg written
                = Inr out"
    and keys: "map fst legs = map int [0..<length legs]"
    and i: "i < length legs" and n: "length legs < 2 ^ 32" and len: "Suc i < length ps"
  shows "\<exists>st st' pr seed epoch legStart legEnd.
    reconcileLegs T bm path (map Val ps) pairs (length legs) (take i legs)
      \<lparr>currentArcMiddleTime = dadd (Val (ps ! 0)) (ddiv (Val (ps ! 1)) (Val 2)),
       integratorSettings = initialIntegratorSettings,
       propagatorStore = store, outputFiles = written\<rparr> = Inr st \<and>
    reconcileLeg T bm path (map Val ps) pairs (length legs) (legs ! i) st = Inr st' \<and>
    dmul (currentArcMiddleTime st) (Val 86400) = Val epoch \<and>
    interpolate T (LagrangeInterpolatorSettings 8) (snd (legs ! i)) (Val epoch) = Inr seed \<and>
    initialTime (integratorSettings st') = Val epoch \<and>
    vector_at pairs (int i) = Inr pr \<and> initialStates (propagatorStore st' (snd pr)) = seed \<and>
    legStart = ps ! 0 + (\<Sum>j<i. ps ! Suc j) \<and> legEnd = legStart + ps ! Suc i \<and>
    \<bar>epoch - (legStart + legEnd) / 2 * 86400\<bar> \<le>
      ((1 + unitRoundoff) ^ (i + 3) - 1) *
      ((\<bar>ps ! 0\<bar> + (\<Sum>j<i. \<bar>ps ! Suc j\<bar>) + \<bar>ps ! Suc i\<bar> / 2) * 86400)"
proof -
  define st0 where "st0 =
      \<lparr>currentArcMiddleTime = dadd (Val (ps ! 0)) (ddiv (Val (ps ! 1)) (Val 2)),
       integratorSettings = initialIntegratorSettings,
       propagatorStore = store, outputFiles = written\<rparr>"
  define legStart where "legStart = ps ! 0 + (\<Sum>j<i. ps ! Suc j)"
  define legEnd where "legEnd = legStart + ps ! Suc i"
  define M where "M = ps ! 0 + (\<Sum>j<i. ps ! Suc j) + ps ! Suc i / 2"
  define B where "B = \<bar>ps ! 0\<bar> + (\<Sum>j<i. \<bar>ps ! Suc j\<bar>) + \<bar>ps ! Suc i\<bar> / 2"
  from len have p0: "vector_at (map Val ps) 0 = Inr (Val (ps ! 0))"
    and p1: "vector_at (map Val ps) 1 = Inr (Val (ps ! 1))"
    by (auto simp add: vector_at_def)
  from run obtain stN where
    "reconcileLegs T bm path (map Val ps) pairs (length legs) legs st0 = Inr stN"
    unfolding propagateFromArcMiddles_def p0 p1 st0_def by (auto split: sum.splits)
  from reconcileLegs_prefix [OF this, of "Suc i"] obtain st' where
    "reconcileLegs T bm path (map Val ps) pairs (length legs) (take (Suc i) legs) st0 = Inr st'"
    by blast
  moreover from i have "take (Suc i) legs = take i legs @ [legs ! i]"
    by (rule take_Suc_conv_app_nth)
  ultimately
  have "reconcileLegs T bm path (map Val ps) pairs (length legs) (take i legs @ [legs ! i]) st0
      = Inr st'"
    by simp
  from reconcileLegs_snoc_Inr [OF this] obtain st where
    pre: "reconcileLegs T bm path (map Val ps) pairs (length legs) (take i legs) st0 = Inr st"
    and leg: "reconcileLeg T bm path (map Val ps) pairs (length legs) (legs ! i) st = Inr st'"
    by blast
  have start: "currentArcMiddleTime st0 = dadd (Val (ps ! 0)) (ddiv (Val (ps ! 1)) (Val 2))"
    unfolding st0_def by simp
  from middle_after_prefix [OF pre keys i n len start] obtain m where
    m: "currentArcMiddleTime st = Val m"
    and bound: "\<bar>m - M\<bar> \<le> ((1 + unitRoundoff) ^ (i + 2) - 1) * B"
    unfolding M_def B_def by blast
  define epoch where "epoch = roundToDouble (m * 86400)"
  have ep: "dmul (currentArcMiddleTime st) (Val 86400) = Val epoch"
    unfolding m epoch_def by simp
  from leg keys_nth [OF keys i]
  have "reconcileLeg T bm path (map Val ps) pairs (length legs) (int i, snd (legs ! i)) st
      = Inr st'"
    by simp
  from reconcileLeg_Inr [OF this] obtain seed pr tStart where
    seed: "interpolate T (LagrangeInterpolatorSettings 8) (snd (legs ! i))
      (dmul (currentArcMiddleTime st) (Val 86400)) = Inr seed"
    and pr: "vector_at pairs (int i) = Inr pr"
    and time: "integratorSettings st' =
       (integratorSettings st)\<lparr>initialTime := dmul (currentArcMiddleTime st) (Val 86400),
          initialTimeStep := dmul (dfabs (initialTimeStep (integratorSettings st))) (Val (- 1))\<rparr>"
    and store: "propagatorStore st' = (propagatorStore st)
       (snd pr := (propagatorStore st (snd pr))\<lparr>initialStates := seed,
          terminationSettings := PropagationTimeTerminationSettings tStart\<rparr>)"
    by blast
  have 1: "interpolate T (LagrangeInterpolatorSettings 8) (snd (legs ! i)) (Val epoch) = Inr seed"
    using seed unfolding ep .
  have 2: "initialTime (integratorSettings st') = Val epoch"
    unfolding time ep by simp
  have 3: "initialStates (propagatorStore st' (snd pr)) = seed"
    unfolding store by simp
  have "\<bar>\<Sum>j<i. ps ! Suc j\<bar> \<le> (\<Sum>j<i. \<bar>ps ! Suc j\<bar>)"
    by (rule sum_abs)
  then have MB: "\<bar>M\<bar> \<le> B" unfolding M_def B_def by linarith
  have c: "(0::real) \<le> 86400" by simp
  have mean: "(legStart + legEnd) / 2 = M"
    unfolding legEnd_def legStart_def M_def by simp
  have e: "Suc (i + 2) = i + 3" by simp
  from rounded_product_error [OF bound MB c]
  have 4: "\<bar>epoch - (legStart + legEnd) / 2 * 86400\<bar> \<le>
      ((1 + unitRoundoff) ^ (i + 3) - 1) *
      ((\<bar>ps ! 0\<bar> + (\<Sum>j<i. \<bar>ps ! Suc j\<bar>) + \<bar>ps ! Suc i\<bar> / 2) * 86400)"
    unfolding epoch_def mean e B_def .
  show ?thesis
    unfolding st0_def [symmetric]
    by (intro exI conjI)
      (rule pre, rule leg, rule ep, rule 1, rule 2, rule pr, rule 3, rule legStart_def,
       rule legEnd_def, rule 4)
qed

theorem middle_of_every_arc_witness:
  "\<exists>out epoch seed.
    propagateFromArcMiddles exampleTudat () ''out/'' (map Val [0, 2, 4, 6, 8, 1])
      examplePropagatorSettings exampleStore exampleLambertResult exampleFullProblemResult
      exampleDependentResult [] = Inr out \<and>
    map fst exampleFullProblemResult = map int [0..<length exampleFullProblemResult] \<and>
    interpolate exampleTudat (LagrangeInterpolatorSettings 8)
      (snd (exampleFullProblemResult ! 1)) (Val epoch) = Inr seed \<and>
    \<bar>epoch - (2 + 6) / 2 * 86400\<bar> \<le> ((1 + unitRoundoff) ^ 4 - 1) * (4 * 86400)"
proof -
  obtain out where run:
    "propagateFromArcMiddles exampleTudat () ''out/'' (map Val [0, 2, 4, 6, 8, 1])
      examplePropagatorSettings exampleStore exampleLambertResult exampleFullProblemResult
      exampleDependentResult [] = Inr out"
    by (simp add: propagateFromArcMiddles_def example_defs loop_defs)
  have keys: "map fst exampleFullProblemResult = map int [0..<length exampleFullProblemResult]"
    by (simp add: exampleFullProblemResult_def upt_rec)
  have h: "1 < length exampleFullProblemResult" "length exampleFullProblemResult < 2 ^ 32"
    "Suc 1 < length [0::real, 2, 4, 6, 8, 1]"
    by (simp_all add: exampleFullProblemResult_def)
  from middle_of_every_arc [OF run keys h] obtain epoch seed where
    seed: "interpolate exampleTudat (LagrangeInterpolatorSettings 8)
      (snd (exampleFullProblemResult ! 1)) (Val epoch) = Inr seed"
    and bound: "\<bar>epoch - (([0::real, 2, 4, 6, 8, 1] ! 0 + (\<Sum>j<1. [0, 2, 4, 6, 8, 1] ! Suc j)) +
        ([0, 2, 4, 6, 8, 1] ! 0 + (\<Sum>j<1. [0, 2, 4, 6, 8, 1] ! Suc j) +
         [0, 2, 4, 6, 8, 1] ! Suc 1)) / 2 * 86400\<bar> \<le>
      ((1 + unitRoundoff) ^ (1 + 3) - 1) *
      ((\<bar>[0::real, 2, 4, 6, 8, 1] ! 0\<bar> + (\<Sum>j<1. \<bar>[0::real, 2, 4, 6, 8, 1] ! Suc j\<bar>) +
        \<bar>[0::real, 2, 4, 6, 8, 1] ! Suc 1\<bar> / 2) * 86400)"
    by blast
  from bound
  have "\<bar>epoch - (2 + 6) / 2 * 86400\<bar> \<le> ((1 + unitRoundoff) ^ 4 - 1) * (4 * 86400)"
    by simp
  with run keys seed show ?thesis by blast
qed

text \<open>
  The claim as stated fails in the arithmetic of doubles. With the parameters written
  into \<open>main\<close> the seeds of four arcs are interpolated at the epochs
  \<open>-155900011.91038397\<close>, \<open>-135333580.78976765\<close>, \<open>-116428573.87007597\<close> and
  \<open>-83740719.80893028\<close> (the first samples of the four files of the forward
  propagations). The epoch of arc \<open>2\<close> is not \<open>86400\<close> times the mean of the start
  and the end epoch of the arc, nor the double nearest to that, nor what the arithmetic
  of doubles gives for the mean of the two epochs or for the start epoch plus half the
  duration: all three are \<open>-116428573.87007599\<close>.
\<close>

theorem middle_epochs_of_main_counterexample:
  "(let t0 = roundToDouble (- 1851.46422926478); d1 = roundToDouble 94.13188652993128;
        d2 = roundToDouble 381.9429079287791; d3 = roundToDouble 55.6729929900098;
        legStart = t0 + d1 + d2; legEnd = legStart + d3;
        startInDoubles = dadd (dadd (Val t0) (Val d1)) (Val d2);
        endInDoubles = dadd startInDoubles (Val d3);
        epoch = - 3906694664780441 / 33554432
    in take 4 defaultTrajectoryParameters = [Val t0, Val d1, Val d2, Val d3] \<and>
       map_sum id (\<lambda>written. map (\<lambda>k. fst (hd (fileData (written ! k)))) [0, 2, 4, 6])
         (propagateFromArcMiddles exampleTudat () ''out/'' defaultTrajectoryParameters
            exampleSettingsOfMain exampleStore [] exampleArcsOfMain [] []) =
         Inr [Val (- 5231136348446169 / 33554432), Val (- 4541041433926765 / 33554432), Val epoch,
              Val (- 702468072114951 / 8388608)] \<and>
       epoch \<noteq> (legStart + legEnd) / 2 * 86400 \<and>
       epoch \<noteq> roundToDouble ((legStart + legEnd) / 2 * 86400) \<and>
       Val epoch \<noteq> dmul (ddiv (dadd startInDoubles endInDoubles) (Val 2)) (Val 86400) \<and>
       Val epoch \<noteq> dmul (dadd startInDoubles (ddiv (Val d3) (Val 2))) (Val 86400))"
proof -
  define t0 :: real where "t0 = - 4071412896975911 / 2199023255552"
  define d1 :: real where "d1 = 3311971321092815 / 35184372088832"
  define d2 :: real where "d2 = 6719210694628333 / 17592186044416"
  define d3 :: real where "d3 = 3917638601318881 / 70368744177664"
  define d4 :: real where "d4 = 3082987923276333 / 4398046511104"
  define h1 :: real where "h1 = 3311971321092815 / 70368744177664"
  define m0 :: real where "m0 = - 7935827586383521 / 4398046511104"
  define s1 :: real where "s1 = 2093799088793685 / 4398046511104"
  define g1 :: real where "g1 = 2093799088793685 / 8796093022208"
  define m1 :: real where "m1 = - 3444464020993339 / 2199023255552"
  define s2 :: real where "s2 = 7698620344958053 / 17592186044416"
  define g2 :: real where "g2 = 7698620344958053 / 35184372088832"
  define m2 :: real where "m2 = - 5926600498866921 / 4398046511104"
  define s3 :: real where "s3 = 3327840335858763 / 4398046511104"
  define g3 :: real where "g3 = 3327840335858763 / 8796093022208"
  define m3 :: real where "m3 = - 8525360661875079 / 8796093022208"
  define e0 :: real where "e0 = - 5231136348446169 / 33554432"
  define e1 :: real where "e1 = - 4541041433926765 / 33554432"
  define e2 :: real where "e2 = - 3906694664780441 / 33554432"
  define e3 :: real where "e3 = - 702468072114951 / 8388608"
  define c2 :: real where "c2 = - 7813389329560883 / 67108864"
  define a1 :: real where "a1 = - 1932207344703805 / 1099511627776"
  define a2 :: real where "a2 = - 6049026705158137 / 4398046511104"
  define a3 :: real where "a3 = - 5804174292575707 / 4398046511104"
  define b1 :: real where "b1 = - 2963300249433461 / 1099511627776"
  define b2 :: real where "b2 = - 2963300249433461 / 2199023255552"
  define b3 :: real where "b3 = - 7813389329560883 / 67108864"
  define k1 :: real where "k1 = 3917638601318881 / 140737488355328"
  define k2 :: real where "k2 = - 2963300249433461 / 2199023255552"
  define k3 :: real where "k3 = - 7813389329560883 / 67108864"
  have lit_t0: "roundToDouble (- 1851.46422926478) = t0"
    unfolding t0_def
    by (subst roundToDouble_eq [where e = 10]) (simp_all add: roundToEven_def Let_def)
  have lit_d1: "roundToDouble (94.13188652993128) = d1"
    unfolding d1_def
    by (subst roundToDouble_eq [where e = 6]) (simp_all add: roundToEven_def Let_def)
  have lit_d2: "roundToDouble (381.9429079287791) = d2"
    unfolding d2_def
    by (subst roundToDouble_eq [where e = 8]) (simp_all add: roundToEven_def Let_def)
  have lit_d3: "roundToDouble (55.6729929900098) = d3"
    unfolding d3_def
    by (subst roundToDouble_eq [where e = 5]) (simp_all add: roundToEven_def Let_def)
  have lit_d4: "roundToDouble (700.990295462437) = d4"
    unfolding d4_def
    by (subst roundToDouble_eq [where e = 9]) (simp_all add: roundToEven_def Let_def)
  have op_h1: "roundToDouble (d1 / 2) = h1"
    unfolding d1_def h1_def
    by (subst roundToDouble_eq [where e = 5]) (simp_all add: roundToEven_def Let_def)
  have op_m0: "roundToDouble (t0 + h1) = m0"
    unfolding h1_def m0_def t0_def
    by (subst roundToDouble_eq [where e = 10]) (simp_all add: roundToEven_def Let_def)
  have op_s1: "roundToDouble (d1 + d2) = s1"
    unfolding d1_def d2_def s1_def
    by (subst roundToDouble_eq [where e = 8]) (simp_all add: roundToEven_def Let_def)
  have op_g1: "roundToDouble (s1 / 2) = g1"
    unfolding g1_def s1_def
    by (subst roundToDouble_eq [where e = 7]) (simp_all add: roundToEven_def Let_def)
  have op_m1: "roundToDouble (m0 + g1) = m1"
    unfolding g1_def m0_def m1_def
    by (subst roundToDouble_eq [where e = 10]) (simp_all add: roundToEven_def Let_def)
  have op_s2: "roundToDouble (d2 + d3) = s2"
    unfolding d2_def d3_def s2_def
    by (subst roundToDouble_eq [where e = 8]) (simp_all add: roundToEven_def Let_def)
  have op_g2: "roundToDouble (s2 / 2) = g2"
    unfolding g2_def s2_def
    by (subst roundToDouble_eq [where e = 7]) (simp_all add: roundToEven_def Let_def)
  have op_m2: "roundToDouble (m1 + g2) = m2"
    unfolding g2_def m1_def m2_def
    by (subst roundToDouble_eq [where e = 10]) (simp_all add: roundToEven_def Let_def)
  have op_s3: "roundToDouble (d3 + d4) = s3"
    unfolding d3_def d4_def s3_def
    by (subst roundToDouble_eq [where e = 9]) (simp_all add: roundToEven_def Let_def)
  have op_g3: "roundToDouble (s3 / 2) = g3"
    unfolding g3_def s3_def
    by (subst roundToDouble_eq [where e = 8]) (simp_all add: roundToEven_def Let_def)
  have op_m3: "roundToDouble (m2 + g3) = m3"
    unfolding g3_def m2_def m3_def
    by (subst roundToDouble_eq [where e = 9]) (simp_all add: roundToEven_def Let_def)
  have op_e0: "roundToDouble (m0 * 86400) = e0"
    unfolding e0_def m0_def
    by (subst roundToDouble_eq [where e = 27]) (simp_all add: roundToEven_def Let_def)
  have op_e1: "roundToDouble (m1 * 86400) = e1"
    unfolding e1_def m1_def
    by (subst roundToDouble_eq [where e = 27]) (simp_all add: roundToEven_def Let_def)
  have op_e2: "roundToDouble (m2 * 86400) = e2"
    unfolding e2_def m2_def
    by (subst roundToDouble_eq [where e = 26]) (simp_all add: roundToEven_def Let_def)
  have op_e3: "roundToDouble (m3 * 86400) = e3"
    unfolding e3_def m3_def
    by (subst roundToDouble_eq [where e = 26]) (simp_all add: roundToEven_def Let_def)
  have op_c2: "roundToDouble ((t0 + d1 + d2 + (t0 + d1 + d2 + d3)) / 2 * 86400) = c2"
    unfolding c2_def d1_def d2_def d3_def t0_def
    by (subst roundToDouble_eq [where e = 26]) (simp_all add: roundToEven_def Let_def)
  have op_a1: "roundToDouble (t0 + d1) = a1"
    unfolding a1_def d1_def t0_def
    by (subst roundToDouble_eq [where e = 10]) (simp_all add: roundToEven_def Let_def)
  have op_a2: "roundToDouble (a1 + d2) = a2"
    unfolding a1_def a2_def d2_def
    by (subst roundToDouble_eq [where e = 10]) (simp_all add: roundToEven_def Let_def)
  have op_a3: "roundToDouble (a2 + d3) = a3"
    unfolding a2_def a3_def d3_def
    by (subst roundToDouble_eq [where e = 10]) (simp_all add: roundToEven_def Let_def)
  have op_b1: "roundToDouble (a2 + a3) = b1"
    unfolding a2_def a3_def b1_def
    by (subst roundToDouble_eq [where e = 11]) (simp_all add: roundToEven_def Let_def)
  have op_b2: "roundToDouble (b1 / 2) = b2"
    unfolding b1_def b2_def
    by (subst roundToDouble_eq [where e = 10]) (simp_all add: roundToEven_def Let_def)
  have op_b3: "roundToDouble (b2 * 86400) = b3"
    unfolding b2_def b3_def
    by (subst roundToDouble_eq [where e = 26]) (simp_all add: roundToEven_def Let_def)
  have op_k1: "roundToDouble (d3 / 2) = k1"
    unfolding d3_def k1_def
    by (subst roundToDouble_eq [where e = 4]) (simp_all add: roundToEven_def Let_def)
  have op_k2: "roundToDouble (a2 + k1) = k2"
    unfolding a2_def k1_def k2_def
    by (subst roundToDouble_eq [where e = 10]) (simp_all add: roundToEven_def Let_def)
  have op_k3: "roundToDouble (k2 * 86400) = k3"
    unfolding k2_def k3_def
    by (subst roundToDouble_eq [where e = 26]) (simp_all add: roundToEven_def Let_def)
  have cmp: "\<not> e0 < - 200000000" "\<not> 0 < e0" "- 200000000 < e0" "\<not> e1 < - 200000000" "\<not> 0 < e1" "- 200000000 < e1" "\<not> e2 < - 200000000" "\<not> 0 < e2" "- 200000000 < e2" "\<not> e3 < - 200000000" "\<not> 0 < e3" "- 200000000 < e3"
    unfolding e0_def e1_def e2_def e3_def by simp_all
  have params: "defaultTrajectoryParameters = [Val t0, Val d1, Val d2, Val d3, Val d4, Val 1]"
    unfolding defaultTrajectoryParameters_def lit_t0 lit_d1 lit_d2 lit_d3 lit_d4 ..
  have run: "map_sum id (\<lambda>written. map (\<lambda>k. fst (hd (fileData (written ! k)))) [0, 2, 4, 6])
         (propagateFromArcMiddles exampleTudat () ''out/'' defaultTrajectoryParameters
            exampleSettingsOfMain exampleStore [] exampleArcsOfMain [] []) =
         Inr [Val e0, Val e1, Val e2, Val e3]"
    unfolding params
    by (simp add: propagateFromArcMiddles_def example_defs loop_defs exampleArcsOfMain_def
        exampleSettingsOfMain_def op_h1 op_m0 op_s1 op_g1 op_m1 op_s2 op_g2 op_m2 op_s3 op_g3 op_m3 op_e0 op_e1 op_e2 op_e3 cmp)
  have first: "take 4 defaultTrajectoryParameters = [Val t0, Val d1, Val d2, Val d3]"
    unfolding params by simp
  have exact: "e2 \<noteq> (t0 + d1 + d2 + (t0 + d1 + d2 + d3)) / 2 * 86400"
    unfolding e2_def t0_def d1_def d2_def d3_def by simp
  have nearest: "e2 \<noteq> roundToDouble ((t0 + d1 + d2 + (t0 + d1 + d2 + d3)) / 2 * 86400)"
    unfolding op_c2 unfolding e2_def c2_def by simp
  have mean: "Val e2 \<noteq> dmul (ddiv (dadd (dadd (dadd (Val t0) (Val d1)) (Val d2))
      (dadd (dadd (dadd (Val t0) (Val d1)) (Val d2)) (Val d3))) (Val 2)) (Val 86400)"
    by (simp add: op_a1 op_a2 op_a3 op_b1 op_b2 op_b3) (simp add: e2_def b3_def)
  have half: "Val e2 \<noteq> dmul (dadd (dadd (dadd (Val t0) (Val d1)) (Val d2))
      (ddiv (Val d3) (Val 2))) (Val 86400)"
    by (simp add: op_a1 op_a2 op_k1 op_k2 op_k3) (simp add: e2_def k3_def)
  show ?thesis
    unfolding Let_def lit_t0 lit_d1 lit_d2 lit_d3
      e0_def [symmetric] e1_def [symmetric] e2_def [symmetric] e3_def [symmetric]
    by (intro conjI) (rule first, rule run, rule exact, rule nearest, rule mean, rule half)
qed

text \<open>
  C1, as the program has it. The loop runs over \<open>fullProblemResultForEachLeg\<close>, the
  state histories that the library's numerical propagation of the full problem returned;
  the analytic histories \<open>lambertTargeterResultForEachLeg\<close> are only written to
  files. For every arc of a run that succeeds, the seed is the interpolation, with
  \<open>LagrangeInterpolatorSettings( 8 )\<close>, of the arc's numerical history at the current
  arc middle time (in seconds), and it is the initial state of both the forward and the
  backward simulation.
\<close>

theorem seed_from_numerical_history:
  assumes "propagateFromArcMiddles T bm path params pairs store lambertTargeterResultForEachLeg
             (pre @ (arc, fullProblemSolution) # post) dependentVariableResultForEachLeg written
           = Inr out"
  shows "\<exists>t0 d1 st seed pr tEnd tStart hF hB.
    vector_at params 0 = Inr t0 \<and> vector_at params 1 = Inr d1 \<and>
    reconcileLegs T bm path params pairs (length (pre @ (arc, fullProblemSolution) # post)) pre
      \<lparr>currentArcMiddleTime = dadd t0 (ddiv d1 (Val 2)),
       integratorSettings = initialIntegratorSettings,
       propagatorStore = store, outputFiles = written\<rparr> = Inr st \<and>
    interpolate T (LagrangeInterpolatorSettings 8) fullProblemSolution
      (dmul (currentArcMiddleTime st) (Val 86400)) = Inr seed \<and>
    vector_at pairs arc = Inr pr \<and>
    rbeginFirst fullProblemSolution = Inr tEnd \<and> beginFirst fullProblemSolution = Inr tStart \<and>
    singleArcDynamicsSimulator T bm
       ((integratorSettings st)\<lparr>initialTime := dmul (currentArcMiddleTime st) (Val 86400),
          initialTimeStep := dfabs (initialTimeStep (integratorSettings st))\<rparr>)
       ((propagatorStore st (snd pr))\<lparr>initialStates := seed,
          terminationSettings := PropagationTimeTerminationSettings tEnd\<rparr>) = Inr hF \<and>
    singleArcDynamicsSimulator T bm
       ((integratorSettings st)\<lparr>initialTime := dmul (currentArcMiddleTime st) (Val 86400),
          initialTimeStep := dmul (dfabs (initialTimeStep (integratorSettings st))) (Val (- 1))\<rparr>)
       ((propagatorStore st (snd pr))\<lparr>initialStates := seed,
          terminationSettings := PropagationTimeTerminationSettings tStart\<rparr>) = Inr hB"
proof -
  from assms obtain t0 d1 stN where
    t0: "vector_at params 0 = Inr t0" and d1: "vector_at params 1 = Inr d1"
    and run: "reconcileLegs T bm path params pairs
      (length (pre @ (arc, fullProblemSolution) # post))
      (pre @ (arc, fullProblemSolution) # post)
      \<lparr>currentArcMiddleTime = dadd t0 (ddiv d1 (Val 2)),
       integratorSettings = initialIntegratorSettings,
       propagatorStore = store, outputFiles = written\<rparr> = Inr stN"
    unfolding propagateFromArcMiddles_def by (auto split: sum.splits)
  from reconcileLegs_split [OF run] obtain st st' where
    pre: "reconcileLegs T bm path params pairs
      (length (pre @ (arc, fullProblemSolution) # post)) pre
      \<lparr>currentArcMiddleTime = dadd t0 (ddiv d1 (Val 2)),
       integratorSettings = initialIntegratorSettings,
       propagatorStore = store, outputFiles = written\<rparr> = Inr st"
    and leg: "reconcileLeg T bm path params pairs
      (length (pre @ (arc, fullProblemSolution) # post)) (arc, fullProblemSolution) st = Inr st'"
    by blast
  from reconcileLeg_Inr [OF leg] t0 d1 pre show ?thesis
    by blast
qed

theorem seed_from_numerical_history_witness:
  "\<exists>out seed.
    propagateFromArcMiddles exampleTudat () ''out/'' exampleParameters
      examplePropagatorSettings exampleStore exampleLambertResult
      ([] @ (0, [(Val 0, [Val 7]), (Val 172800, [Val 8])]) #
         [(1, [(Val 172800, [Val 8]), (Val 518400, [Val 9])])])
      exampleDependentResult [] = Inr out \<and>
    interpolate exampleTudat (LagrangeInterpolatorSettings 8)
      [(Val 0, [Val 7]), (Val 172800, [Val 8])] (Val 86400) = Inr seed"
proof -
  obtain out where run:
    "propagateFromArcMiddles exampleTudat () ''out/'' exampleParameters
      examplePropagatorSettings exampleStore exampleLambertResult
      ([] @ (0, [(Val 0, [Val 7]), (Val 172800, [Val 8])]) #
         [(1, [(Val 172800, [Val 8]), (Val 518400, [Val 9])])])
      exampleDependentResult [] = Inr out"
    by (simp add: propagateFromArcMiddles_def example_defs loop_defs)
  from seed_from_numerical_history [OF run] obtain t0 d1 st seed where
    t0: "vector_at exampleParameters 0 = Inr t0" and d1: "vector_at exampleParameters 1 = Inr d1"
    and st: "reconcileLegs exampleTudat () ''out/'' exampleParameters examplePropagatorSettings
      (length ([] @ (0, [(Val 0, [Val 7]), (Val 172800, [Val 8])]) #
         [(1::int, [(Val 172800, [Val 8]), (Val 518400, [Val 9])])])) []
      \<lparr>currentArcMiddleTime = dadd t0 (ddiv d1 (Val 2)),
       integratorSettings = initialIntegratorSettings,
       propagatorStore = exampleStore, outputFiles = []\<rparr> = Inr st"
    and seed: "interpolate exampleTudat (LagrangeInterpolatorSettings 8)
      [(Val 0, [Val 7]), (Val 172800, [Val 8])]
      (dmul (currentArcMiddleTime st) (Val 86400)) = Inr seed"
    by blast
  from t0 d1 have "t0 = Val 0" "d1 = Val 2"
    by (simp_all add: exampleParameters_def vector_at_def)
  with st have "currentArcMiddleTime st = Val 1"
    by auto
  with seed have "interpolate exampleTudat (LagrangeInterpolatorSettings 8)
      [(Val 0, [Val 7]), (Val 172800, [Val 8])] (Val 86400) = Inr seed"
    by simp
  with run show ?thesis by blast
qed

text \<open>
  The claim as stated fails: where the analytic and the numerical history of an arc
  differ, the forward simulation starts from the interpolated numerical state (its first
  sample has the state \<open>7\<close>), not from the interpolated analytic state \<open>1\<close>.
\<close>

theorem seed_not_from_analytic_history_counterexample:
  "fullPropagationPatchedConicsTrajectory exampleTudat () [] ''Sun'' [] [] [] [] []
      examplePropagatorSettings exampleStore initialIntegratorSettings =
     Inr (exampleLambertResult, exampleFullProblemResult, exampleDependentResult) \<and>
   map_sum id (\<lambda>written. fileData (hd written))
     (propagateFromArcMiddles exampleTudat () ''out/'' exampleParameters
        examplePropagatorSettings exampleStore exampleLambertResult
        exampleFullProblemResult exampleDependentResult []) =
     Inr [(Val 86400, [Val 7]), (Val 172800, [Val 1000])] \<and>
   interpolate exampleTudat (LagrangeInterpolatorSettings 8)
     (snd (exampleFullProblemResult ! 0)) (Val 86400) = Inr [Val 7] \<and>
   interpolate exampleTudat (LagrangeInterpolatorSettings 8)
     (snd (exampleLambertResult ! 0)) (Val 86400) = Inr [Val 1]"
  by (simp add: propagateFromArcMiddles_def exampleLambertResult_def exampleDependentResult_def
      example_defs loop_defs)

text \<open>
  C8, as the program has it. An exception thrown in the pass of one arc is not caught:
  it ends the loop and the program. What has been written then are the files of the arcs
  before it and at most the two files of the failing arc; the arcs after it are not
  processed, and none of the files of the Lambert, numerical and dependent-variable
  results is written.
\<close>

theorem exception_ends_the_program:
  assumes "vector_at params 0 = Inr t0" and "vector_at params 1 = Inr d1"
    and "n = length (pre @ leg # post)"
    and "reconcileLegs T bm path params pairs n pre
           \<lparr>currentArcMiddleTime = dadd t0 (ddiv d1 (Val 2)),
            integratorSettings = initialIntegratorSettings,
            propagatorStore = store, outputFiles = written\<rparr> = Inr st"
    and "reconcileLeg T bm path params pairs n leg st = Inl ew"
  shows "propagateFromArcMiddles T bm path params pairs store lambert (pre @ leg # post)
           dep written = Inl ew \<and>
         (\<exists>fs. snd ew = outputFiles st @ fs \<and> length fs \<le> 2)"
proof -
  have "reconcileLegs T bm path params pairs n (pre @ leg # post)
           \<lparr>currentArcMiddleTime = dadd t0 (ddiv d1 (Val 2)),
            integratorSettings = initialIntegratorSettings,
            propagatorStore = store, outputFiles = written\<rparr> = Inl ew"
    unfolding reconcileLegs_append assms(4) using assms(5) by simp
  then have "propagateFromArcMiddles T bm path params pairs store lambert (pre @ leg # post)
           dep written = Inl ew"
    unfolding propagateFromArcMiddles_def assms(1,2) assms(3) [symmetric] by simp
  with reconcileLeg_Inl [OF assms(5)] show ?thesis by simp
qed

theorem exception_ends_the_program_witness:
  "\<exists>st.
    reconcileLegs exampleTudat () ''out/'' exampleParameters examplePropagatorSettings 2
      [(0, [(Val 0, [Val 7]), (Val 172800, [Val 8])])]
      \<lparr>currentArcMiddleTime = dadd (Val 0) (ddiv (Val 2) (Val 2)),
       integratorSettings = initialIntegratorSettings,
       propagatorStore = exampleStore, outputFiles = []\<rparr> = Inr st \<and>
    reconcileLeg exampleTudat () ''out/'' exampleParameters examplePropagatorSettings 2
      (1, [(Val 400000, [Val 8]), (Val 518400, [Val 9])]) st =
      Inl (LibraryException ''outside the interpolation domain'', outputFiles st) \<and>
    propagateFromArcMiddles exampleTudat () ''out/'' exampleParameters
      examplePropagatorSettings exampleStore exampleLambertResult
      ([(0, [(Val 0, [Val 7]), (Val 172800, [Val 8])])] @
       (1, [(Val 400000, [Val 8]), (Val 518400, [Val 9])]) # [])
      exampleDependentResult [] =
      Inl (LibraryException ''outside the interpolation domain'', outputFiles st) \<and>
    map fileName (outputFiles st) =
      [''numericalResultForward0.dat'', ''numericalResultBackward0.dat'']"
proof -
  have p0: "vector_at exampleParameters 0 = Inr (Val 0)"
    and p1: "vector_at exampleParameters 1 = Inr (Val 2)"
    by (simp_all add: exampleParameters_def vector_at_def)
  have n: "2 = length ([(0::int, [(Val 0, [Val 7]), (Val 172800, [Val 8])])] @
      (1, [(Val 400000, [Val 8]), (Val 518400, [Val 9])]) # [])"
    by simp
  obtain st where pre:
    "reconcileLegs exampleTudat () ''out/'' exampleParameters examplePropagatorSettings 2
      [(0, [(Val 0, [Val 7]), (Val 172800, [Val 8])])]
      \<lparr>currentArcMiddleTime = dadd (Val 0) (ddiv (Val 2) (Val 2)),
       integratorSettings = initialIntegratorSettings,
       propagatorStore = exampleStore, outputFiles = []\<rparr> = Inr st"
    and names: "map fileName (outputFiles st) =
      [''numericalResultForward0.dat'', ''numericalResultBackward0.dat'']"
    and mid: "currentArcMiddleTime st = Val 4"
    by (simp add: example_defs loop_defs)
  have leg: "reconcileLeg exampleTudat () ''out/'' exampleParameters examplePropagatorSettings 2
      (1, [(Val 400000, [Val 8]), (Val 518400, [Val 9])]) st =
      Inl (LibraryException ''outside the interpolation domain'', outputFiles st)"
    by (simp add: reconcileLeg_def Let_def exampleTudat_def exampleInterpolate_def mid)
  from exception_ends_the_program [OF p0 p1 n pre leg, of exampleLambertResult
      exampleDependentResult]
  have all: "propagateFromArcMiddles exampleTudat () ''out/'' exampleParameters
      examplePropagatorSettings exampleStore exampleLambertResult
      ([(0, [(Val 0, [Val 7]), (Val 172800, [Val 8])])] @
       (1, [(Val 400000, [Val 8]), (Val 518400, [Val 9])]) # [])
      exampleDependentResult [] =
      Inl (LibraryException ''outside the interpolation domain'', outputFiles st)"
    by (rule conjunct1)
  show ?thesis
    by (intro exI conjI) (rule pre, rule leg, rule all, rule names)
qed

text \<open>
  The claim as stated fails: when the interpolation of the first arc throws, nothing is
  written, although the pass of the second arc, taken alone at its middle time, succeeds
  and would write its two files.
\<close>

theorem other_legs_not_processed_counterexample:
  "propagateFromArcMiddles exampleTudat () ''out/'' exampleParameters
      examplePropagatorSettings exampleStore exampleLambertResult
      [(0, [(Val 100000, [Val 7]), (Val 172800, [Val 8])]),
       (1, [(Val 172800, [Val 8]), (Val 518400, [Val 9])])] exampleDependentResult [] =
     Inl (LibraryException ''outside the interpolation domain'', []) \<and>
   map_sum id outputFiles
     (reconcileLeg exampleTudat () ''out/'' exampleParameters examplePropagatorSettings 2
        (1, [(Val 172800, [Val 8]), (Val 518400, [Val 9])])
        (exampleState\<lparr>currentArcMiddleTime := Val 4\<rparr>)) =
     Inr [\<lparr>fileName = ''numericalResultForward1.dat'', outputDirectory = ''out/'',
           fileData = [(Val 345600, [Val 8]), (Val 518400, [Val 1000])]\<rparr>,
          \<lparr>fileName = ''numericalResultBackward1.dat'', outputDirectory = ''out/'',
           fileData = [(Val 172800, [Val (- 1000)]), (Val 345600, [Val 8])]\<rparr>]"
  by (simp add: propagateFromArcMiddles_def example_defs loop_defs)

section \<open>The structures per leg\<close>

lemma accelerationModelsLoop_total:
  assumes create: "\<And>settings. \<exists>a. create bm settings [p] [c] = Inr a"
    and k: "k \<le> length order"
  shows "0 \<le> i \<Longrightarrow> i \<le> int k \<Longrightarrow>
    \<exists>am. accelerationModelsLoop create (Val (real k)) c p bm order i acc = Inr am \<and>
         length am = length acc + (k - nat i)"
proof (induction "k - nat i" arbitrary: i acc)
  case 0
  then have "\<not> dless (int_to_double i) (Val (real k))"
    by (simp add: int_to_double_def)
  then have "accelerationModelsLoop create (Val (real k)) c p bm order i acc = Inr acc"
    by (subst accelerationModelsLoop.simps) simp
  with 0 show ?case by simp
next
  case (Suc d)
  then have i: "0 \<le> i" "i < int k" by linarith+
  then have less: "dless (int_to_double i) (Val (real k))"
    by (simp add: int_to_double_def)
  from legAccelerationSettings_value [OF i k] obtain m where
    m: "legAccelerationSettings (Val (real k)) c p order i = Inr m"
    by blast
  from create obtain a where a: "create bm m [p] [c] = Inr a"
    by blast
  have step: "accelerationModelsLoop create (Val (real k)) c p bm order i acc =
      accelerationModelsLoop create (Val (real k)) c p bm order (i + 1) (acc @ [a])"
    by (subst accelerationModelsLoop.simps) (simp add: less m a)
  from Suc.hyps(2) i have d: "d = k - nat (i + 1)" by linarith
  from i have "0 \<le> i + 1" "i + 1 \<le> int k" by simp_all
  from Suc.hyps(1) [OF d this, of "acc @ [a]"] obtain am where
    am: "accelerationModelsLoop create (Val (real k)) c p bm order (i + 1) (acc @ [a]) = Inr am"
    and len: "length am = length (acc @ [a]) + (k - nat (i + 1))"
    by blast
  from len d Suc.hyps(2) have "length am = length acc + (k - nat i)"
    by (simp del: nat_add_distrib) linarith
  with am show ?case
    unfolding step by blast
qed

lemma accelerationModelsLoop_entries:
  assumes "accelerationModelsLoop create (Val (real k)) c p bm order i acc = Inr am"
    and "0 \<le> i" and "i \<le> int k"
  shows "length am = length acc + (k - nat i) \<and> take (length acc) am = acc \<and>
    (\<forall>j. nat i \<le> j \<and> j < k \<longrightarrow>
       (\<exists>m. legAccelerationSettings (Val (real k)) c p order (int j) = Inr m \<and>
            create bm m [p] [c] = Inr (am ! (length acc + (j - nat i)))))"
  using assms
proof (induction "k - nat i" arbitrary: i acc)
  case 0
  then have "\<not> dless (int_to_double i) (Val (real k))"
    by (simp add: int_to_double_def)
  with 0(2) have "am = acc"
    by (subst (asm) accelerationModelsLoop.simps) simp
  moreover from 0(1) have none: "\<And>j. \<not> (nat i \<le> j \<and> j < k)"
    by linarith
  moreover from 0(1) have "k - nat i = 0"
    by simp
  ultimately show ?case
    by (simp only: none add_0_right take_all_iff le_refl simp_thms)
next
  case (Suc d)
  then have i: "0 \<le> i" "i < int k" by linarith+
  then have less: "dless (int_to_double i) (Val (real k))"
    by (simp add: int_to_double_def)
  from Suc.prems(1) obtain m a where
    m: "legAccelerationSettings (Val (real k)) c p order i = Inr m"
    and a: "create bm m [p] [c] = Inr a"
    and rest: "accelerationModelsLoop create (Val (real k)) c p bm order (i + 1) (acc @ [a])
      = Inr am"
    by (subst (asm) accelerationModelsLoop.simps) (auto simp: less split: sum.splits)
  from Suc.hyps(2) i have d: "d = k - nat (i + 1)" by linarith
  from i have i1: "0 \<le> i + 1" "i + 1 \<le> int k" by simp_all
  from Suc.hyps(1) [OF d rest i1]
  have len: "length am = length (acc @ [a]) + (k - nat (i + 1))"
    and pre: "take (length (acc @ [a])) am = acc @ [a]"
    and ent: "\<forall>j. nat (i + 1) \<le> j \<and> j < k \<longrightarrow>
       (\<exists>m. legAccelerationSettings (Val (real k)) c p order (int j) = Inr m \<and>
            create bm m [p] [c] = Inr (am ! (length (acc @ [a]) + (j - nat (i + 1)))))"
    by blast+
  have nat1: "nat (i + 1) = Suc (nat i)"
    using i by simp
  from len d Suc.hyps(2) have 1: "length am = length acc + (k - nat i)"
    by (simp del: nat_add_distrib) linarith
  from pre have "take (length acc) (take (Suc (length acc)) am) = take (length acc) (acc @ [a])"
    by simp
  then have 2: "take (length acc) am = acc"
    by simp
  from pre have "take (Suc (length acc)) am ! length acc = (acc @ [a]) ! length acc"
    by simp
  then have here: "am ! length acc = a"
    by simp
  have 3: "\<forall>j. nat i \<le> j \<and> j < k \<longrightarrow>
       (\<exists>m. legAccelerationSettings (Val (real k)) c p order (int j) = Inr m \<and>
            create bm m [p] [c] = Inr (am ! (length acc + (j - nat i))))"
  proof (intro allI impI)
    fix j assume j: "nat i \<le> j \<and> j < k"
    show "\<exists>m. legAccelerationSettings (Val (real k)) c p order (int j) = Inr m \<and>
            create bm m [p] [c] = Inr (am ! (length acc + (j - nat i)))"
    proof (cases "j = nat i")
      case True
      with i have "int j = i" by simp
      with True m a here show ?thesis by simp
    next
      case False
      with j have j': "nat (i + 1) \<le> j \<and> j < k"
        unfolding nat1 by simp
      have e: "length (acc @ [a]) + (j - nat (i + 1)) = length acc + (j - nat i)"
        using j' unfolding nat1 by (simp del: diff_Suc_Suc) linarith
      from ent [rule_format, OF j'] show ?thesis
        unfolding e .
    qed
  qed
  from 1 2 3 show ?case by blast
qed

lemma builder_entries:
  assumes "getAccelerationModelsPerturbedPatchedConicsTrajectory create (Val (real k)) c p bm
             order = Inr am"
  shows "length am = k \<and>
    (\<forall>j<k. \<exists>m. legAccelerationSettings (Val (real k)) c p order (int j) = Inr m \<and>
               create bm m [p] [c] = Inr (am ! j))"
  using accelerationModelsLoop_entries [of create k c p bm order 0 "[]" am] assms
  unfolding getAccelerationModelsPerturbedPatchedConicsTrajectory_def by simp

lemma legAccelerationSettings_in_range:
  assumes "legAccelerationSettings numberOfLegs c p order i = Inr m"
  shows "0 \<le> i \<and> i < int (length order)"
  using assms unfolding legAccelerationSettings_def Let_def vector_at_def
  by (auto split: sum.splits if_splits)

text \<open>
  C6. When the builder returns for \<open>k\<close> legs, it returns \<open>k\<close> acceleration maps, and
  the one of leg \<open>i\<close> is made by the library from settings \<open>m\<close> that hold the
  central gravity of the central body and the point-mass gravity of the body
  \<open>transferBodyOrder[i]\<close>. Any other body has a point-mass gravity exactly when
  \<open>i\<close> is not the last index and the body is \<open>transferBodyOrder[i+1]\<close>. Every body
  has one entry per role only: the central body one for the central gravity, the bodies
  \<open>transferBodyOrder[i]\<close> and (when \<open>i\<close> is not the last index)
  \<open>transferBodyOrder[i+1]\<close> one point-mass gravity, also when these two are the same
  body; no entry is repeated, and nothing is set for a body other than the propagated
  one.
\<close>

theorem perturbers_of_every_leg:
  assumes run: "getAccelerationModelsPerturbedPatchedConicsTrajectory create (Val (real k))
                  c p bm order = Inr accelerationMapsVector"
    and i: "i < k"
  shows "\<exists>m. length accelerationMapsVector = k \<and>
     create bm m [p] [c] = Inr (accelerationMapsVector ! i) \<and>
     legAccelerationSettings (Val (real k)) c p order (int i) = Inr m \<and>
     central_gravity \<in> set (m p c) \<and>
     point_mass_gravity \<in> set (m p (order ! i)) \<and>
     (\<forall>b. b \<noteq> order ! i \<longrightarrow>
        (point_mass_gravity \<in> set (m p b) \<longleftrightarrow> i \<noteq> k - 1 \<and> b = order ! (i + 1))) \<and>
     (\<forall>b. length (m p b) =
        (if b = c then 1 else 0) +
        (if b = order ! i \<or> (i \<noteq> k - 1 \<and> b = order ! (i + 1)) then 1 else 0)) \<and>
     (\<forall>a b. distinct (m a b)) \<and>
     (\<forall>a b. a \<noteq> p \<longrightarrow> m a b = [])"
proof -
  from builder_entries [OF run] have len: "length accelerationMapsVector = k"
    and ent: "\<forall>j<k. \<exists>m. legAccelerationSettings (Val (real k)) c p order (int j) = Inr m \<and>
               create bm m [p] [c] = Inr (accelerationMapsVector ! j)"
    by blast+
  from i have "k - 1 < k" by simp
  with ent obtain m' where
    "legAccelerationSettings (Val (real k)) c p order (int (k - 1)) = Inr m'"
    by blast
  from legAccelerationSettings_in_range [OF this] i have k: "k \<le> length order"
    by linarith
  from ent i obtain m where
    m: "legAccelerationSettings (Val (real k)) c p order (int i) = Inr m"
    and a: "create bm m [p] [c] = Inr (accelerationMapsVector ! i)"
    by blast
  have h: "0 \<le> int i" "int i < int k"
    using i by simp_all
  have last: "int i \<noteq> int k - 1 \<longleftrightarrow> i \<noteq> k - 1"
    using i by linarith
  have next_: "nat (int i + 1) = i + 1"
    by simp
  from leg_settings_perturbers [OF h k, of c p] m
  have props: "central_gravity \<in> set (m p c) \<and>
     point_mass_gravity \<in> set (m p (order ! i)) \<and>
     (\<forall>b. b \<noteq> order ! i \<longrightarrow>
        (point_mass_gravity \<in> set (m p b) \<longleftrightarrow> i \<noteq> k - 1 \<and> b = order ! (i + 1))) \<and>
     (\<forall>b. length (m p b) =
        (if b = c then 1 else 0) +
        (if b = order ! i \<or> (i \<noteq> k - 1 \<and> b = order ! (i + 1)) then 1 else 0)) \<and>
     (\<forall>a b. distinct (m a b)) \<and>
     (\<forall>a b. a \<noteq> p \<longrightarrow> m a b = [])"
    unfolding last next_ nat_int by (elim exE conjE) simp
  from len a m props show ?thesis by blast
qed

theorem perturbers_of_every_leg_witness:
  "\<exists>accelerationMapsVector m.
     getAccelerationModelsPerturbedPatchedConicsTrajectory
       (createAccelerationModelsMap exampleTudat) (Val (real 5)) ''Sun'' ''Spacecraft'' ()
       [''Earth'', ''Venus'', ''Venus'', ''Earth'', ''Jupiter''] = Inr accelerationMapsVector \<and>
     length accelerationMapsVector = 5 \<and>
     legAccelerationSettings (Val (real 5)) ''Sun'' ''Spacecraft''
       [''Earth'', ''Venus'', ''Venus'', ''Earth'', ''Jupiter''] (int 1) = Inr m \<and>
     central_gravity \<in> set (m ''Spacecraft'' ''Sun'') \<and>
     point_mass_gravity \<in> set (m ''Spacecraft'' ''Venus'') \<and>
     length (m ''Spacecraft'' ''Venus'') = 1 \<and>
     length (m ''Spacecraft'' ''Earth'') = 0"
proof -
  have c: "\<And>settings. \<exists>a. createAccelerationModelsMap exampleTudat () settings
      [''Spacecraft''] [''Sun''] = Inr a"
    by (simp add: exampleTudat_def)
  have "5 \<le> length [''Earth'', ''Venus'', ''Venus'', ''Earth'', ''Jupiter'']"
    by simp
  from accelerationModelsLoop_total [of "createAccelerationModelsMap exampleTudat" "()"
      "''Spacecraft''" "''Sun''", OF c this, of 0 "[]"]
  obtain am where run: "getAccelerationModelsPerturbedPatchedConicsTrajectory
       (createAccelerationModelsMap exampleTudat) (Val (real 5)) ''Sun'' ''Spacecraft'' ()
       [''Earth'', ''Venus'', ''Venus'', ''Earth'', ''Jupiter''] = Inr am"
    unfolding getAccelerationModelsPerturbedPatchedConicsTrajectory_def by auto
  have i: "(1::nat) < 5" by simp
  from perturbers_of_every_leg [OF run i] obtain m where
    len: "length am = 5"
    and m: "legAccelerationSettings (Val (real 5)) ''Sun'' ''Spacecraft''
       [''Earth'', ''Venus'', ''Venus'', ''Earth'', ''Jupiter''] (int 1) = Inr m"
    and sun: "central_gravity \<in> set (m ''Spacecraft'' ''Sun'')"
    and venus: "point_mass_gravity \<in> set (m ''Spacecraft''
       ([''Earth'', ''Venus'', ''Venus'', ''Earth'', ''Jupiter''] ! 1))"
    and count: "\<forall>b. length (m ''Spacecraft'' b) =
        (if b = ''Sun'' then 1 else 0) +
        (if b = [''Earth'', ''Venus'', ''Venus'', ''Earth'', ''Jupiter''] ! 1 \<or>
            ((1::nat) \<noteq> 5 - 1 \<and>
             b = [''Earth'', ''Venus'', ''Venus'', ''Earth'', ''Jupiter''] ! (1 + 1))
         then 1 else 0)"
    by blast
  from venus have venus': "point_mass_gravity \<in> set (m ''Spacecraft'' ''Venus'')"
    by simp
  have v: "length (m ''Spacecraft'' ''Venus'') = 1"
    using count [rule_format, of "''Venus''"] by simp
  have e: "length (m ''Spacecraft'' ''Earth'') = 0"
    using count [rule_format, of "''Earth''"] by simp
  show ?thesis
    by (intro exI conjI) (rule run, rule len, rule m, rule sun, rule venus', rule v, rule e)
qed

lemma transferBodyOrder_valid:
  assumes "5 < length ps" "ps ! 5 = Val x" "0 \<le> x" "x < 7"
  shows "transferBodyOrder ps =
    Inr [''Earth'', ''Venus'', fst (transferCaseNames ! nat \<lfloor>x\<rfloor>),
         snd (transferCaseNames ! nat \<lfloor>x\<rfloor>), ''Jupiter'']"
proof -
  have at5: "vector_at ps 5 = Inr (Val x)"
    using assms(1,2) by (simp add: vector_at_def)
  have f: "0 \<le> \<lfloor>x\<rfloor>" "\<lfloor>x\<rfloor> < 7"
    using assms(3,4) by (simp_all add: floor_less_iff)
  then have conv: "double_to_int (Val x) = Inr \<lfloor>x\<rfloor>"
    using assms(3) by (simp add: double_to_int_def)
  have names: "vector_at transferCaseNames \<lfloor>x\<rfloor> = Inr (transferCaseNames ! nat \<lfloor>x\<rfloor>)"
    using f by (simp add: vector_at_def transferCaseNames_def)
  show ?thesis
    by (simp add: transferBodyOrder_def at5 conv names)
qed

text \<open>
  C5, as the program has it. For every valid case selector (the sixth parameter, a number
  from \<open>0\<close> up to but not including \<open>7\<close>) the sequence of bodies exists and has five
  bodies. The vector of leg types is
  \<open>[mga_Departure, mga_Swingby, mga_Swingby, mga_Swingby, capture]\<close>: one entry per
  body, not one less. The vector of acceleration maps is built for
  \<open>transferLegTypes.size( )\<close> legs and so has one entry per body as well (provided the
  library's \<open>createAccelerationModelsMap\<close> does not throw).
\<close>

theorem one_entry_per_body:
  assumes "5 < length trajectoryParameters" and "trajectoryParameters ! 5 = Val x"
    and "0 \<le> x" and "x < 7"
    and "\<And>settings. \<exists>a. create bodyMap settings [''Spacecraft''] [''Sun''] = Inr a"
  shows "\<exists>bodyOrder accelerationMap.
    transferBodyOrder trajectoryParameters = Inr bodyOrder \<and> length bodyOrder = 5 \<and>
    transferLegTypes = [mga_Departure, mga_Swingby, mga_Swingby, mga_Swingby, capture] \<and>
    length transferLegTypes = length bodyOrder \<and>
    getAccelerationModelsPerturbedPatchedConicsTrajectory create
      (Val (real (length transferLegTypes))) ''Sun'' ''Spacecraft'' bodyMap bodyOrder =
      Inr accelerationMap \<and>
    length accelerationMap = length bodyOrder"
proof -
  define bodyOrder where "bodyOrder =
    [''Earth'', ''Venus'', fst (transferCaseNames ! nat \<lfloor>x\<rfloor>),
     snd (transferCaseNames ! nat \<lfloor>x\<rfloor>), ''Jupiter'']"
  have order: "transferBodyOrder trajectoryParameters = Inr bodyOrder"
    unfolding bodyOrder_def by (rule transferBodyOrder_valid [OF assms(1-4)])
  have len: "length bodyOrder = 5"
    by (simp add: bodyOrder_def)
  have types: "transferLegTypes = [mga_Departure, mga_Swingby, mga_Swingby, mga_Swingby, capture]"
    by (rule transferLegTypes_def)
  have same: "length transferLegTypes = length bodyOrder"
    by (simp add: len transferLegTypes_def)
  then have "length transferLegTypes \<le> length bodyOrder"
    by simp
  from accelerationModelsLoop_total [of create bodyMap "''Spacecraft''" "''Sun''", OF assms(5) this,
      of 0 "[]"]
  obtain accelerationMap where
    am: "getAccelerationModelsPerturbedPatchedConicsTrajectory create
      (Val (real (length transferLegTypes))) ''Sun'' ''Spacecraft'' bodyMap bodyOrder =
      Inr accelerationMap"
    and "length accelerationMap = length transferLegTypes"
    unfolding getAccelerationModelsPerturbedPatchedConicsTrajectory_def by auto
  with same have len': "length accelerationMap = length bodyOrder"
    by simp
  show ?thesis
    by (intro exI conjI) (rule order, rule len, rule types, rule same, rule am, rule len')
qed

theorem one_entry_per_body_witness:
  "\<exists>accelerationMap.
    transferBodyOrder defaultTrajectoryParameters =
      Inr [''Earth'', ''Venus'', ''Venus'', ''Earth'', ''Jupiter''] \<and>
    getAccelerationModelsPerturbedPatchedConicsTrajectory (createAccelerationModelsMap exampleTudat)
      (Val (real (length transferLegTypes))) ''Sun'' ''Spacecraft'' ()
      [''Earth'', ''Venus'', ''Venus'', ''Earth'', ''Jupiter''] = Inr accelerationMap \<and>
    length accelerationMap = 5"
proof -
  have h: "5 < length defaultTrajectoryParameters" "defaultTrajectoryParameters ! 5 = Val 1"
    "(0::real) \<le> 1" "(1::real) < 7"
    by (simp_all add: defaultTrajectoryParameters_def)
  have c: "\<And>settings. \<exists>a. createAccelerationModelsMap exampleTudat () settings
      [''Spacecraft''] [''Sun''] = Inr a"
    by (simp add: exampleTudat_def)
  from one_entry_per_body [of defaultTrajectoryParameters 1
      "createAccelerationModelsMap exampleTudat" "()", OF h c]
  obtain bodyOrder accelerationMap where
    order: "transferBodyOrder defaultTrajectoryParameters = Inr bodyOrder"
    and am: "getAccelerationModelsPerturbedPatchedConicsTrajectory
      (createAccelerationModelsMap exampleTudat)
      (Val (real (length transferLegTypes))) ''Sun'' ''Spacecraft'' () bodyOrder =
      Inr accelerationMap"
    and len: "length accelerationMap = length bodyOrder" "length bodyOrder = 5"
    by blast
  have "transferBodyOrder defaultTrajectoryParameters =
      Inr [''Earth'', ''Venus'', ''Venus'', ''Earth'', ''Jupiter'']"
    unfolding transferBodyOrder_valid [OF h] by (simp add: transferCaseNames_def)
  with order am len show ?thesis by auto
qed

text \<open>
  The claim as stated fails for the parameters of \<open>main\<close>: five bodies, five leg types
  (three of them swing-bys) and five acceleration maps, not four.
\<close>

theorem four_leg_structures_counterexample:
  "transferBodyOrder defaultTrajectoryParameters =
     Inr [''Earth'', ''Venus'', ''Venus'', ''Earth'', ''Jupiter''] \<and>
   transferLegTypes \<noteq> [mga_Departure, mga_Swingby, mga_Swingby, capture] \<and>
   length transferLegTypes = 5 \<and>
   length transferLegTypes \<noteq> length [''Earth'', ''Venus'', ''Venus'', ''Earth'', ''Jupiter''] - 1 \<and>
   map_sum id length
     (getAccelerationModelsPerturbedPatchedConicsTrajectory
        (createAccelerationModelsMap exampleTudat) (Val (real (length transferLegTypes)))
        ''Sun'' ''Spacecraft'' () [''Earth'', ''Venus'', ''Venus'', ''Earth'', ''Jupiter'']) =
     Inr 5"
proof -
  have h: "5 < length defaultTrajectoryParameters" "defaultTrajectoryParameters ! 5 = Val 1"
    "(0::real) \<le> 1" "(1::real) < 7"
    by (simp_all add: defaultTrajectoryParameters_def)
  have order: "transferBodyOrder defaultTrajectoryParameters =
      Inr [''Earth'', ''Venus'', ''Venus'', ''Earth'', ''Jupiter'']"
    unfolding transferBodyOrder_valid [OF h] by (simp add: transferCaseNames_def)
  have c: "\<And>settings. \<exists>a. createAccelerationModelsMap exampleTudat () settings
      [''Spacecraft''] [''Sun''] = Inr a"
    by (simp add: exampleTudat_def)
  have "length transferLegTypes \<le> length [''Earth'', ''Venus'', ''Venus'', ''Earth'', ''Jupiter'']"
    by (simp add: transferLegTypes_def)
  from accelerationModelsLoop_total [of "createAccelerationModelsMap exampleTudat" "()"
      "''Spacecraft''" "''Sun''", OF c this, of 0 "[]"]
  have "map_sum id length
     (getAccelerationModelsPerturbedPatchedConicsTrajectory
        (createAccelerationModelsMap exampleTudat) (Val (real (length transferLegTypes)))
        ''Sun'' ''Spacecraft'' () [''Earth'', ''Venus'', ''Venus'', ''Earth'', ''Jupiter'']) =
     Inr 5"
    unfolding getAccelerationModelsPerturbedPatchedConicsTrajectory_def
    by (auto simp: transferLegTypes_def)
  with order show ?thesis by (simp add: transferLegTypes_def)
qed

section \<open>The velocity-change budget\<close>

lemma solveLegs_Inr:
  "solveLegs solve ks = Inr ms \<Longrightarrow>
     length ms = length ks \<and> (\<forall>j<length ks. solve (ks ! j) = Inr (ms ! j))"
proof (induction ks arbitrary: ms)
  case Nil
  then show ?case by simp
next
  case (Cons k ks)
  then obtain m ms' where m: "solve k = Inr m" and ms': "solveLegs solve ks = Inr ms'"
    and ms: "ms = m # ms'"
    by (auto split: sum.splits)
  from Cons.IH [OF ms'] have "length ms' = length ks"
    and "\<forall>j<length ks. solve (ks ! j) = Inr (ms' ! j)"
    by simp_all
  with m ms show ?case
    by (auto simp: nth_Cons split: nat.splits)
qed

lemma accumulateDeltaV_others:
  assumes "mga_Departure \<notin> fst ` set legs"
  shows "accumulateDeltaV incDeparture True legs totalDeltaV =
         foldl dadd totalDeltaV (map (\<lambda>leg. velocityChangeMagnitude (snd leg)) legs)"
  using assms by (induction legs arbitrary: totalDeltaV) auto

lemma accumulateDeltaV_append:
  "accumulateDeltaV incDeparture incArrival (legs @ [leg]) totalDeltaV =
   accumulateDeltaV incDeparture incArrival [leg]
     (accumulateDeltaV incDeparture incArrival legs totalDeltaV)"
  by (induction legs arbitrary: totalDeltaV) simp_all

lemma calculateTrajectory_Inr:
  assumes "calculateTrajectory T t = Inr r"
  shows "\<exists>ms. solveLegs (legManeuver T t) [0..<length (trajectoryLegTypes t)] = Inr ms \<and>
    length ms = length (trajectoryLegTypes t) \<and>
    (\<forall>j<length (trajectoryLegTypes t). legManeuver T t j = Inr (ms ! j)) \<and>
    maneuverSequence r = ms \<and>
    totalVelocityChange r =
      accumulateDeltaV (includeDepartureDeltaV t) (includeArrivalDeltaV t)
        (zip (trajectoryLegTypes t) ms) (Val 0) \<and>
    captureVelocityChange r =
      (if trajectoryLegTypes t \<noteq> [] \<and> last (trajectoryLegTypes t) = capture
       then velocityChangeMagnitude (last ms) else TUDAT_NAN)"
proof -
  from assms obtain ms where
    ms: "solveLegs (legManeuver T t) [0..<length (trajectoryLegTypes t)] = Inr ms"
    and r: "r = \<lparr>totalVelocityChange =
                   accumulateDeltaV (includeDepartureDeltaV t)
                     (includeArrivalDeltaV t) (zip (trajectoryLegTypes t) ms) (Val 0),
                 captureVelocityChange =
                   (if trajectoryLegTypes t \<noteq> [] \<and> last (trajectoryLegTypes t) = capture
                    then velocityChangeMagnitude (last ms) else TUDAT_NAN),
                 maneuverSequence = ms\<rparr>"
    unfolding calculateTrajectory_def Let_def by (auto split: sum.splits)
  from solveLegs_Inr [OF ms] have "length ms = length (trajectoryLegTypes t)"
    and "\<forall>j<length (trajectoryLegTypes t). legManeuver T t j = Inr (ms ! j)"
    by simp_all
  with ms r show ?thesis by simp
qed

lemmas trajectory_defs = patchedConicTrajectory_def calculateTrajectory_def
  createTransferTrajectoryObject_def transferLegTypes_def exampleTudat_def exampleManeuver_def
  getCaptureDeltaV_def TUDAT_NAN_def Let_def

text \<open>
  C3. When the first leg is the only departure leg and the trajectory object says that
  the departure velocity change does not count and the arrival one does (as in the call
  of \<open>main\<close>), the total velocity change is the sum of the velocity changes of all
  maneuvers but the first, while the maneuver of the departure leg is the first of the
  maneuver sequence and its velocity change the first entry of the vector that
  \<open>maneuvers\<close> returns.
\<close>

theorem departure_excluded_but_reported:
  assumes "calculateTrajectory T t = Inr r"
    and "trajectoryLegTypes t = mga_Departure # types" and "mga_Departure \<notin> set types"
    and "\<not> includeDepartureDeltaV t" and "includeArrivalDeltaV t"
  shows "\<exists>departure others.
    maneuverSequence r = departure # others \<and> legManeuver T t 0 = Inr departure \<and>
    length others = length types \<and>
    totalVelocityChange r = foldl dadd (Val 0) (map velocityChangeMagnitude others) \<and>
    snd (snd (maneuvers r)) =
      velocityChangeMagnitude departure # map velocityChangeMagnitude others"
proof -
  from calculateTrajectory_Inr [OF assms(1)] obtain ms where
    len: "length ms = length (trajectoryLegTypes t)"
    and legs: "\<forall>j<length (trajectoryLegTypes t). legManeuver T t j = Inr (ms ! j)"
    and seq: "maneuverSequence r = ms"
    and total: "totalVelocityChange r =
      accumulateDeltaV (includeDepartureDeltaV t) (includeArrivalDeltaV t)
        (zip (trajectoryLegTypes t) ms) (Val 0)"
    by blast
  from len assms(2) obtain departure others where ms: "ms = departure # others"
    and len': "length others = length types"
    by (cases ms) simp_all
  from legs assms(2) ms have dep: "legManeuver T t 0 = Inr departure"
    by auto
  have "fst ` set (zip types others) \<subseteq> set types"
    by (auto dest: set_zip_leftD)
  with assms(3) have no: "mga_Departure \<notin> fst ` set (zip types others)"
    by blast
  have "totalVelocityChange r = accumulateDeltaV False True (zip types others) (Val 0)"
    unfolding total using assms(2,4,5) ms by simp
  also have "\<dots> = foldl dadd (Val 0)
      (map (\<lambda>leg. velocityChangeMagnitude (snd leg)) (zip types others))"
    by (rule accumulateDeltaV_others [OF no])
  also have "map (\<lambda>leg. velocityChangeMagnitude (snd leg)) (zip types others) =
      map velocityChangeMagnitude others"
    using len' by (simp add: map_snd_zip flip: map_map comp_def [of velocityChangeMagnitude snd])
  finally have tot: "totalVelocityChange r =
      foldl dadd (Val 0) (map velocityChangeMagnitude others)" .
  have man: "snd (snd (maneuvers r)) =
      velocityChangeMagnitude departure # map velocityChangeMagnitude others"
    by (simp add: maneuvers_def seq ms)
  from seq ms have seq': "maneuverSequence r = departure # others" by simp
  show ?thesis
    by (intro exI conjI) (rule seq', rule dep, rule len', rule tot, rule man)
qed

theorem departure_excluded_but_reported_witness:
  "\<exists>r departure others.
    patchedConicTrajectory exampleTudat ()
      [''Earth'', ''Venus'', ''Venus'', ''Earth'', ''Jupiter''] [] [] = Inr r \<and>
    maneuverSequence r = departure # others \<and>
    velocityChangeMagnitude departure = Val 1 \<and>
    totalVelocityChange r = foldl dadd (Val 0) (map velocityChangeMagnitude others) \<and>
    totalVelocityChange r = Val 14"
proof -
  obtain r where run: "patchedConicTrajectory exampleTudat ()
      [''Earth'', ''Venus'', ''Venus'', ''Earth'', ''Jupiter''] [] [] = Inr r"
    and vals: "totalVelocityChange r = Val 14"
    by (simp add: trajectory_defs)
  define t where "t = createTransferTrajectoryObject ()
      [''Earth'', ''Venus'', ''Venus'', ''Earth'', ''Jupiter''] ''Sun'' transferLegTypes [] []
      False TUDAT_NAN TUDAT_NAN True captureSemiMajorAxis captureEccentricity"
  have calc: "calculateTrajectory exampleTudat t = Inr r"
    using run unfolding patchedConicTrajectory_def t_def .
  have types: "trajectoryLegTypes t = mga_Departure # [mga_Swingby, mga_Swingby, mga_Swingby, capture]"
    and no: "mga_Departure \<notin> set [mga_Swingby, mga_Swingby, mga_Swingby, capture]"
    and dep: "\<not> includeDepartureDeltaV t" and arr: "includeArrivalDeltaV t"
    by (simp_all add: t_def createTransferTrajectoryObject_def transferLegTypes_def)
  from departure_excluded_but_reported [OF calc types no dep arr]
  obtain departure others where seq: "maneuverSequence r = departure # others"
    and first: "legManeuver exampleTudat t 0 = Inr departure"
    and total: "totalVelocityChange r = foldl dadd (Val 0) (map velocityChangeMagnitude others)"
    by blast
  from first have mag: "velocityChangeMagnitude departure = Val 1"
    by (auto simp: exampleTudat_def exampleManeuver_def)
  show ?thesis
    by (intro exI conjI) (rule run, rule seq, rule mag, rule total, rule vals)
qed

text \<open>
  C4. When the last leg is a capture leg and the arrival velocity change counts, the last
  maneuver is the one the library computes for that leg of the trajectory object (which
  holds the configured semi-major axis and eccentricity of the capture orbit); its
  velocity change is what \<open>getCaptureDeltaV\<close> returns, and the total is the velocity
  change accumulated over the legs before plus the capture velocity change.
\<close>

theorem capture_reported_and_included:
  assumes "calculateTrajectory T t = Inr r"
    and "trajectoryLegTypes t = types @ [capture]" and "includeArrivalDeltaV t"
  shows "\<exists>before captureManeuver.
    maneuverSequence r = before @ [captureManeuver] \<and> length before = length types \<and>
    legManeuver T t (length types) = Inr captureManeuver \<and>
    getCaptureDeltaV r = velocityChangeMagnitude captureManeuver \<and>
    totalVelocityChange r =
      dadd (accumulateDeltaV (includeDepartureDeltaV t) (includeArrivalDeltaV t)
              (zip types before) (Val 0))
           (getCaptureDeltaV r)"
proof -
  from calculateTrajectory_Inr [OF assms(1)] obtain ms where
    len: "length ms = length (trajectoryLegTypes t)"
    and legs: "\<forall>j<length (trajectoryLegTypes t). legManeuver T t j = Inr (ms ! j)"
    and seq: "maneuverSequence r = ms"
    and total: "totalVelocityChange r =
      accumulateDeltaV (includeDepartureDeltaV t) (includeArrivalDeltaV t)
        (zip (trajectoryLegTypes t) ms) (Val 0)"
    and cap: "captureVelocityChange r =
      (if trajectoryLegTypes t \<noteq> [] \<and> last (trajectoryLegTypes t) = capture
       then velocityChangeMagnitude (last ms) else TUDAT_NAN)"
    by blast
  from len assms(2) have "ms \<noteq> []" by auto
  then obtain before captureManeuver where ms: "ms = before @ [captureManeuver]"
    by (metis append_butlast_last_id)
  with len assms(2) have len': "length before = length types" by simp
  from legs [rule_format, of "length types"] assms(2) ms len'
  have leg: "legManeuver T t (length types) = Inr captureManeuver"
    by (simp add: nth_append)
  from cap assms(2) ms have c: "getCaptureDeltaV r = velocityChangeMagnitude captureManeuver"
    by (simp add: getCaptureDeltaV_def)
  have "zip (trajectoryLegTypes t) ms = zip types before @ [(capture, captureManeuver)]"
    unfolding assms(2) ms using len' by simp
  then have tot: "totalVelocityChange r =
      dadd (accumulateDeltaV (includeDepartureDeltaV t) (includeArrivalDeltaV t)
              (zip types before) (Val 0))
           (getCaptureDeltaV r)"
    unfolding total c using assms(3) by (simp add: accumulateDeltaV_append)
  from seq ms have seq': "maneuverSequence r = before @ [captureManeuver]" by simp
  show ?thesis
    by (intro exI conjI) (rule seq', rule len', rule leg, rule c, rule tot)
qed

theorem capture_reported_and_included_witness:
  "\<exists>r before captureManeuver.
    patchedConicTrajectory exampleTudat ()
      [''Earth'', ''Venus'', ''Venus'', ''Earth'', ''Jupiter''] [] [] = Inr r \<and>
    maneuverSequence r = before @ [captureManeuver] \<and>
    getCaptureDeltaV r = velocityChangeMagnitude captureManeuver \<and>
    getCaptureDeltaV r = Val 5 \<and> totalVelocityChange r = Val 14"
proof -
  obtain r where run: "patchedConicTrajectory exampleTudat ()
      [''Earth'', ''Venus'', ''Venus'', ''Earth'', ''Jupiter''] [] [] = Inr r"
    and vals: "getCaptureDeltaV r = Val 5" "totalVelocityChange r = Val 14"
    by (simp add: trajectory_defs)
  define t where "t = createTransferTrajectoryObject ()
      [''Earth'', ''Venus'', ''Venus'', ''Earth'', ''Jupiter''] ''Sun'' transferLegTypes [] []
      False TUDAT_NAN TUDAT_NAN True captureSemiMajorAxis captureEccentricity"
  have calc: "calculateTrajectory exampleTudat t = Inr r"
    using run unfolding patchedConicTrajectory_def t_def .
  have types: "trajectoryLegTypes t =
      [mga_Departure, mga_Swingby, mga_Swingby, mga_Swingby] @ [capture]"
    and arr: "includeArrivalDeltaV t"
    by (simp_all add: t_def createTransferTrajectoryObject_def transferLegTypes_def)
  from capture_reported_and_included [OF calc types arr]
  obtain before captureManeuver where seq: "maneuverSequence r = before @ [captureManeuver]"
    and cap: "getCaptureDeltaV r = velocityChangeMagnitude captureManeuver"
    by blast
  show ?thesis
    by (intro exI conjI) (rule run, rule seq, rule cap, rule vals(1), rule vals(2))
qed

end
